theory Spec2Isabelle
  imports Complex_Main "HOL-Library.Sublist"
begin

section \<open>Scope of the model\<close>

text \<open>
  The development embeds the thought-processing server (\<open>SequentialThinkingServer\<close>), the
  prompt analyzer (\<open>PromptAnalyzer\<close>, \<open>PromptContext\<close>), the semantic analyzer
  (\<open>SemanticAnalyzer\<close> with its mock \<open>natural\<close> library), the contradiction detector, the
  part of the intelligence module that computes the recommended thought count, and of the
  graph renderer the conditions under which a visualisation throws.

  \<^item> JavaScript numbers are modelled as real numbers: arithmetic is exact. The code computes
    in double precision, so a value of the model and the value of the code can differ by
    rounding (the cosine of a vector with itself is 1 here and can be \<open>1.0000000000000002\<close>
    there; \<open>Math.round\<close> of \<open>23/40*100\<close> is 58 here and 57 there). The theorem on
    similarity is therefore stated for the inputs on which the value does not depend on
    rounding. \<open>Math.sqrt\<close> is \<open>sqrt\<close>, \<open>Math.log\<close> is \<open>ln\<close>, \<open>Math.round x\<close> is the integer
    \<open>\<lfloor>x + 1/2\<rfloor>\<close>. NaN and negative infinity appear where the code can reach them from a
    stored thought (\<open>extnumber\<close>, and \<open>None\<close> in \<open>detectTopicDrift\<close>).
  \<^item> Strings are lists of 8-bit characters read as ASCII: \<open>toLowerCase\<close> maps \<open>A..Z\<close> to
    \<open>a..z\<close>, the class \<open>\s\<close> is space, tab, line feed, vertical tab, form feed and carriage
    return, the class \<open>\w\<close> is letters, digits and underscore.
  \<^item> A JavaScript object used as a dictionary is an association list in the order in which
    \<open>Object.keys\<close> enumerates it. A key that is not in the list is looked up in
    \<open>Object.prototype\<close>: the names in \<open>prototypeNames\<close> are found there, and a number or
    string assigned to \<open>__proto__\<close> is dropped. One case is left out: the word
    \<open>constructor\<close> in a prompt, for which \<open>PromptAnalyzer.extractKeywords\<close> sorts with a
    comparator that returns NaN.
  \<^item> Console output is left out. The visualisations write to the error stream only, but
    they run inside the \<open>try\<close> block of \<open>processThought\<close> after the thought is stored, and
    some of them can throw: what is modelled of them is whether they throw.
\<close>

section \<open>JavaScript primitives\<close>

type_synonym number = real

definition Math_round :: "number \<Rightarrow> int" where
  "Math_round x = \<lfloor>x + 1 / 2\<rfloor>"

definition isSpace :: "char \<Rightarrow> bool" where
  "isSpace c = (c \<in> set [CHR '' '', CHR 0x09, CHR 0x0A, CHR 0x0B, CHR 0x0C, CHR 0x0D])"

definition isWordChar :: "char \<Rightarrow> bool" where
  "isWordChar c =
     (c \<in> set ''abcdefghijklmnopqrstuvwxyzABCDEFGHIJKLMNOPQRSTUVWXYZ0123456789_'')"

definition isDigit :: "char \<Rightarrow> bool" where
  "isDigit c = (c \<in> set ''0123456789'')"

definition toLowerChar :: "char \<Rightarrow> char" where
  "toLowerChar c =
     (case map_of (zip ''ABCDEFGHIJKLMNOPQRSTUVWXYZ'' ''abcdefghijklmnopqrstuvwxyz'') c of
        Some d \<Rightarrow> d | None \<Rightarrow> c)"

definition toUpperChar :: "char \<Rightarrow> char" where
  "toUpperChar c =
     (case map_of (zip ''abcdefghijklmnopqrstuvwxyz'' ''ABCDEFGHIJKLMNOPQRSTUVWXYZ'') c of
        Some d \<Rightarrow> d | None \<Rightarrow> c)"

definition toLowerCase :: "string \<Rightarrow> string" where
  "toLowerCase s = map toLowerChar s"

text \<open>\<open>s.includes(sub)\<close>: \<open>sub\<close> occurs in \<open>s\<close> as a contiguous substring.\<close>

fun js_includes :: "string \<Rightarrow> string \<Rightarrow> bool" where
  "js_includes [] sub = (sub = [])"
| "js_includes (c # cs) sub = (prefix sub (c # cs) \<or> js_includes cs sub)"

text \<open>\<open>s.indexOf(sub)\<close>, with \<open>None\<close> for \<open>-1\<close>.\<close>

fun indexOf :: "string \<Rightarrow> string \<Rightarrow> nat option" where
  "indexOf [] sub = (if sub = [] then Some 0 else None)"
| "indexOf (c # cs) sub =
     (if prefix sub (c # cs) then Some 0 else map_option Suc (indexOf cs sub))"

text \<open>
  \<open>s.split(/[P]+/)\<close> for a character class \<open>P\<close>: the pieces between maximal runs of
  separator characters. A separator at the start or at the end leaves an empty piece there,
  and the empty string splits into one empty piece.
\<close>

fun splitRuns :: "(char \<Rightarrow> bool) \<Rightarrow> string \<Rightarrow> string list" where
  "splitRuns P [] = [[]]"
| "splitRuns P (c # cs) =
     (if P c then
        (case cs of
           [] \<Rightarrow> [[], []]
         | d # ds \<Rightarrow> if P d then splitRuns P cs else [] # splitRuns P cs)
      else
        (case splitRuns P cs of
           [] \<Rightarrow> [[c]]
         | w # ws \<Rightarrow> (c # w) # ws))"

definition splitWhitespace :: "string \<Rightarrow> string list" where
  "splitWhitespace s = splitRuns isSpace s"

definition isSentenceEnd :: "char \<Rightarrow> bool" where
  "isSentenceEnd c = (c \<in> set ''.!?'')"

definition trim :: "string \<Rightarrow> string" where
  "trim s = rev (dropWhile isSpace (rev (dropWhile isSpace s)))"

text \<open>\<open>[...new Set(xs)]\<close>: the first occurrence of every element, in order.\<close>

definition uniq :: "'a list \<Rightarrow> 'a list" where
  "uniq xs = rev (remdups (rev xs))"

text \<open>
  \<open>xs.sort((a, b) => key(b) - key(a))\<close>: a stable sort by descending key.
\<close>

definition sortDescBy :: "('a \<Rightarrow> number) \<Rightarrow> 'a list \<Rightarrow> 'a list" where
  "sortDescBy key xs = sort_key (\<lambda>x. - key x) xs"

text \<open>
  The order in which \<open>Object.keys\<close> and \<open>Object.entries\<close> enumerate an object whose keys
  were created in the order \<open>ks\<close>: canonical array indices first, in ascending numeric order,
  then the other keys in creation order.
\<close>

definition keyNat :: "string \<Rightarrow> int" where
  "keyNat s = foldl (\<lambda>n c. 10 * n + (of_char c - 48)) 0 s"

definition isArrayIndex :: "string \<Rightarrow> bool" where
  "isArrayIndex s =
     (s \<noteq> [] \<and> list_all isDigit s \<and> (s = ''0'' \<or> hd s \<noteq> CHR ''0'') \<and> keyNat s < 4294967295)"

definition ownKeysOrder :: "(string \<times> 'a) list \<Rightarrow> (string \<times> 'a) list" where
  "ownKeysOrder kvs =
     sort_key (\<lambda>kv. keyNat (fst kv)) (filter (\<lambda>kv. isArrayIndex (fst kv)) kvs)
     @ filter (\<lambda>kv. \<not> isArrayIndex (fst kv)) kvs"

text \<open>
  \<open>obj[k] = f(obj[k])\<close> on a dictionary kept in creation order: an existing key keeps its
  place, a new key goes to the end.
\<close>

fun setKey :: "string \<Rightarrow> ('a option \<Rightarrow> 'a) \<Rightarrow> (string \<times> 'a) list \<Rightarrow> (string \<times> 'a) list" where
  "setKey k f [] = [(k, f None)]"
| "setKey k f ((k', v) # kvs) =
     (if k = k' then (k', f (Some v)) # kvs else (k', v) # setKey k f kvs)"

text \<open>
  The property names that every plain object inherits from \<open>Object.prototype\<close>. Reading
  one of them from an object that has no own property of that name gives a function, or
  for \<open>__proto__\<close> the prototype object: a truthy value that is neither an array nor a
  number.
\<close>

definition prototypeNames :: "string list" where
  "prototypeNames =
     [''constructor'', ''__defineGetter__'', ''__defineSetter__'', ''hasOwnProperty'',
      ''__lookupGetter__'', ''__lookupSetter__'', ''isPrototypeOf'', ''propertyIsEnumerable'',
      ''toString'', ''valueOf'', ''__proto__'', ''toLocaleString'']"

text \<open>\<open>obj[k]\<close> is truthy by inheritance: \<open>k\<close> is no own key of \<open>obj\<close> and is inherited.\<close>

definition inherited :: "(string \<times> 'a) list \<Rightarrow> string \<Rightarrow> bool" where
  "inherited obj k = (map_of obj k = None \<and> k \<in> set prototypeNames)"

text \<open>The exceptions that library calls of the embedded code can throw.\<close>

datatype exception = TypeError | RangeError

text \<open>A number that may be NaN or negative infinity.\<close>

datatype extnumber = Finite number | NaN | MinusInfinity

text \<open>
  \<open>'#'.repeat(count)\<close> throws a \<open>RangeError\<close> for a negative count or an infinite one; NaN
  counts as 0.
\<close>

definition repeatThrows :: "extnumber \<Rightarrow> bool" where
  "repeatThrows count =
     (case count of Finite c \<Rightarrow> c < 0 | NaN \<Rightarrow> False | MinusInfinity \<Rightarrow> True)"

section \<open>The prompt profile (\<open>PromptAnalyzer.analyzePrompt\<close>)\<close>

datatype Priority = Low | MediumPriority | High
datatype Complexity = Simple | Medium | Complex
datatype TaskType = Creative | Analytical | Informational | Technical | Mixed

record PromptMetadata =
  originalPrompt :: string
  goals :: "string list"
  constraints :: "string list"
  domains :: "string list"
  expectedOutputFormat :: "string option"
  priority :: Priority
  complexity :: Complexity
  promptKeywords :: "string list"
  entities :: "string list"
  taskType :: TaskType

text \<open>
  \<open>prompt.split(/[.!?]+/).map(s => s.trim()).filter(s => s.length > 0)\<close>, used by
  \<open>extractGoals\<close> and \<open>extractConstraints\<close>.
\<close>

definition splitSentences :: "string \<Rightarrow> string list" where
  "splitSentences prompt = filter (\<lambda>s. s \<noteq> []) (map trim (splitRuns isSentenceEnd prompt))"

definition containsAny :: "string \<Rightarrow> string list \<Rightarrow> bool" where
  "containsAny text indicators = list_ex (\<lambda>indicator. js_includes text indicator) indicators"

definition goalIndicators :: "string list" where
  "goalIndicators =
     [''goal is'', ''objective is'', ''aim is'', ''purpose is'', ''trying to'',
      ''want to'', ''need to'', ''would like to'', ''goal:'', ''objective:'']"

definition extractGoals :: "string \<Rightarrow> string list" where
  "extractGoals prompt =
     (let sentences = splitSentences prompt;
          goals = filter (\<lambda>sentence. containsAny (toLowerCase sentence) goalIndicators) sentences
      in if goals = [] \<and> sentences \<noteq> [] then [hd sentences] else goals)"

definition constraintIndicators :: "string list" where
  "constraintIndicators =
     [''must'', ''should'', ''need to'', ''have to'', ''required'',
      ''necessary'', ''important'', ''essential'', ''critical'',
      ''cannot'', ''can'' @ [CHR 0x27] @ ''t'', ''don'' @ [CHR 0x27] @ ''t'',
      ''shouldn'' @ [CHR 0x27] @ ''t'', ''mustn'' @ [CHR 0x27] @ ''t'']"

definition extractConstraints :: "string \<Rightarrow> string list" where
  "extractConstraints prompt =
     filter (\<lambda>sentence. containsAny (toLowerCase sentence) constraintIndicators)
       (splitSentences prompt)"

definition domainKeywords :: "(string \<times> string list) list" where
  "domainKeywords =
     [(''programming'', [''code'', ''programming'', ''software'', ''development'', ''algorithm'', ''function'']),
      (''math'', [''math'', ''calculation'', ''formula'', ''equation'', ''numerical'']),
      (''science'', [''science'', ''scientific'', ''experiment'', ''hypothesis'', ''theory'']),
      (''business'', [''business'', ''market'', ''strategy'', ''company'', ''product'', ''service'']),
      (''writing'', [''write'', ''essay'', ''article'', ''blog'', ''content'', ''story'']),
      (''design'', [''design'', ''layout'', ''visual'', ''UI'', ''UX'', ''interface'']),
      (''data'', [''data'', ''analysis'', ''statistics'', ''dataset'', ''visualization''])]"

definition extractDomains :: "string \<Rightarrow> string list" where
  "extractDomains prompt =
     map fst (filter (\<lambda>dk. containsAny (toLowerCase prompt) (snd dk)) domainKeywords)"

definition formatIndicators :: "string list" where
  "formatIndicators =
     [''format:'', ''in the form of'', ''as a'', ''output as'', ''result as'',
      ''in markdown'', ''in json'', ''in html'', ''in csv'', ''in table'']"

fun extractOutputFormatFrom :: "string list \<Rightarrow> string \<Rightarrow> string option" where
  "extractOutputFormatFrom [] prompt = None"
| "extractOutputFormatFrom (indicator # rest) prompt =
     (case indexOf (toLowerCase prompt) indicator of
        Some index \<Rightarrow>
          Some (trim (takeWhile (\<lambda>c. \<not> isSentenceEnd c)
                        (trim (drop (index + length indicator) prompt))))
      | None \<Rightarrow> extractOutputFormatFrom rest prompt)"

definition extractOutputFormat :: "string \<Rightarrow> string option" where
  "extractOutputFormat prompt = extractOutputFormatFrom formatIndicators prompt"

definition highPriorityIndicators :: "string list" where
  "highPriorityIndicators =
     [''urgent'', ''immediately'', ''asap'', ''critical'', ''high priority'',
      ''as soon as possible'', ''emergency'', ''deadline'']"

definition mediumPriorityIndicators :: "string list" where
  "mediumPriorityIndicators = [''important'', ''soon'', ''timely'', ''needed'', ''significant'']"

definition determinePriority :: "string \<Rightarrow> Priority" where
  "determinePriority prompt =
     (if containsAny (toLowerCase prompt) highPriorityIndicators then High
      else if containsAny (toLowerCase prompt) mediumPriorityIndicators then MediumPriority
      else Low)"

definition complexityIndicators :: "string list" where
  "complexityIndicators =
     [''complex'', ''complicated'', ''difficult'', ''challenging'', ''advanced'',
      ''sophisticated'', ''intricate'', ''elaborate'', ''comprehensive'']"

definition estimateComplexity :: "string \<Rightarrow> Complexity" where
  "estimateComplexity prompt =
     (let wordCount = length (splitWhitespace prompt)
      in if containsAny (toLowerCase prompt) complexityIndicators then Complex
         else if wordCount > 100 then Complex
         else if wordCount > 30 then Medium
         else Simple)"

definition promptStopWords :: "string list" where
  "promptStopWords =
     [''a'', ''an'', ''the'', ''and'', ''or'', ''but'', ''in'', ''on'', ''at'', ''to'',
      ''for'', ''with'', ''by'', ''about'', ''as'']"

text \<open>The words a text is matched by: lower case, punctuation removed, longer than 3.\<close>

definition longWords :: "string \<Rightarrow> string list" where
  "longWords text =
     filter (\<lambda>word. length word > 3)
       (splitWhitespace (filter (\<lambda>c. isWordChar c \<or> isSpace c) (toLowerCase text)))"

text \<open>
  \<open>wordCounts[word] = (wordCounts[word] || 0) + 1\<close> on a plain object. For the word
  \<open>__proto__\<close> the value read is the prototype object and the string that is assigned is
  dropped: the word is not counted. For the word \<open>constructor\<close> the value read is a
  function and the count becomes a string; as said in the first section, that word is
  outside the model.
\<close>

definition countWords :: "string list \<Rightarrow> (string \<times> nat) list" where
  "countWords words =
     foldl (\<lambda>wordCounts word.
              if word = ''__proto__'' then wordCounts
              else setKey word (\<lambda>old. (case old of None \<Rightarrow> 0 | Some n \<Rightarrow> n) + 1) wordCounts)
       [] words"

definition extractKeywords :: "string \<Rightarrow> string list" where
  "extractKeywords prompt =
     (let words = filter (\<lambda>word. word \<notin> set promptStopWords) (longWords prompt)
      in map fst (take 10 (sortDescBy (\<lambda>kv. real (snd kv)) (ownKeysOrder (countWords words)))))"

definition extractEntities :: "string \<Rightarrow> string list" where
  "extractEntities prompt =
     (let words = map (filter isWordChar) (splitWhitespace prompt)
      in uniq (filter (\<lambda>word. length word > 0
                           \<and> hd word = toUpperChar (hd word)
                           \<and> hd word \<noteq> toLowerChar (hd word))
                 (drop 1 words)))"

definition creativeIndicators :: "string list" where
  "creativeIndicators =
     [''create'', ''design'', ''generate'', ''write'', ''compose'', ''imagine'', ''story'']"

definition analyticalIndicators :: "string list" where
  "analyticalIndicators =
     [''analyze'', ''evaluate'', ''assess'', ''compare'', ''contrast'', ''examine'']"

definition informationalIndicators :: "string list" where
  "informationalIndicators =
     [''explain'', ''describe'', ''what is'', ''how to'', ''information about'', ''tell me about'']"

definition technicalIndicators :: "string list" where
  "technicalIndicators =
     [''code'', ''program'', ''implement'', ''function'', ''algorithm'', ''debug'', ''fix'']"

definition countIndicators :: "string \<Rightarrow> string list \<Rightarrow> nat" where
  "countIndicators text indicators = length (filter (\<lambda>indicator. js_includes text indicator) indicators)"

definition determineTaskType :: "string \<Rightarrow> TaskType" where
  "determineTaskType prompt =
     (let promptLower = toLowerCase prompt;
          counts = sortDescBy (\<lambda>tc. real (snd tc))
                     [(Creative, countIndicators promptLower creativeIndicators),
                      (Analytical, countIndicators promptLower analyticalIndicators),
                      (Informational, countIndicators promptLower informationalIndicators),
                      (Technical, countIndicators promptLower technicalIndicators)]
      in if snd (counts ! 0) > 0 \<and> snd (counts ! 0) > snd (counts ! 1)
         then fst (counts ! 0) else Mixed)"

definition analyzePrompt :: "string \<Rightarrow> PromptMetadata" where
  "analyzePrompt prompt =
     \<lparr> originalPrompt = prompt,
       goals = extractGoals prompt,
       constraints = extractConstraints prompt,
       domains = extractDomains prompt,
       expectedOutputFormat = extractOutputFormat prompt,
       priority = determinePriority prompt,
       complexity = estimateComplexity prompt,
       promptKeywords = extractKeywords prompt,
       entities = extractEntities prompt,
       taskType = determineTaskType prompt \<rparr>"

definition scenarioA :: string where
  "scenarioA = ''I must write a Python script that parses CSV files. Urgent.''"

section \<open>Thought records\<close>

datatype Phase = Planning | Analysis | Execution | Verification
datatype Classification = Hypothesis | Observation | Conclusion | Question | Solution
datatype Status = Complete | InProgress | NeedsRevision

record Quality =
  coherence :: number
  depth :: number
  relevance :: number
  qualityScore :: number
  feedback :: "string list"

record PhaseDistribution =
  planningCount :: number
  analysisCount :: number
  executionCount :: number
  verificationCount :: number

record ComplexityEstimation =
  overallComplexity :: Complexity
  conceptual :: number
  procedural :: number
  contextual :: number
  domain :: number
  recommendedThoughtCount :: number
  recommendedPhaseDistribution :: PhaseDistribution

text \<open>
  Of the recommendation bundle, the complexity estimation is embedded in full. The remaining
  lists (strategies, reasoning types, tools, focus areas, pitfalls, biases, metacognitive
  strategies, adaptive suggestions, insight prompts) are produced by rule tables from the
  profile, the thought number, the total and the phase; they are carried as one value of a
  type parameter, computed by a function that the server is given.
\<close>

record 'r IntelligenceMaximizationRecommendations =
  complexityEstimation :: ComplexityEstimation
  ruleBasedLists :: 'r

text \<open>
  \<open>ThoughtData\<close> as the server declares it. Optional fields are options; a field name that
  another record already uses carries the prefix \<open>thought\<close>. A contradiction entry
  \<open>{thoughtNumber, explanation}\<close> is a pair.
\<close>

record 'r ThoughtData =
  thought :: string
  thoughtNumber :: number
  totalThoughts :: number
  isRevision :: "bool option"
  revisesThought :: "number option"
  branchFromThought :: "number option"
  branchId :: "string option"
  needsMoreThoughts :: "bool option"
  nextThoughtNeeded :: bool
  phase :: "Phase option"
  dependencies :: "number list option"
  toolsUsed :: "string list option"
  thoughtComplexity :: "Complexity option"
  status :: "Status option"
  quality :: "Quality option"
  thoughtKeywords :: "string list option"
  insightValue :: "number option"
  classification :: "Classification option"
  confidenceScore :: "number option"
  evidenceStrength :: "number option"
  assumptions :: "string list option"
  vector :: "number list option"
  conceptsExtracted :: "string list option"
  contradictions :: "(number \<times> string) list option"
  reflectionPrompts :: "string list option"
  promptAlignment :: "number option"
  promptRelevance :: "(string \<times> number) list option"
  driftWarning :: "string option"
  suggestedCorrections :: "string list option"
  intelligenceRecommendations :: "'r IntelligenceMaximizationRecommendations option"

text \<open>JavaScript truthiness of an optional boolean, number and string.\<close>

definition truthyBool :: "bool option \<Rightarrow> bool" where
  "truthyBool b = (b = Some True)"

definition truthyNumber :: "number option \<Rightarrow> bool" where
  "truthyNumber n = (case n of None \<Rightarrow> False | Some x \<Rightarrow> x \<noteq> 0)"

definition truthyString :: "string option \<Rightarrow> bool" where
  "truthyString s = (case s of None \<Rightarrow> False | Some x \<Rightarrow> x \<noteq> [])"

section \<open>The semantic analyzer\<close>

subsection \<open>The mock \<open>natural\<close> and \<open>stopword\<close> libraries\<close>

definition stopwords :: "string list" where
  "stopwords =
     [''the'', ''and'', ''or'', ''but'', ''in'', ''on'', ''at'', ''to'', ''for'', ''with'',
      ''by'', ''is'', ''are'', ''was'', ''were'', ''this'', ''that'', ''these'', ''those'']"

definition removeStopwords :: "string list \<Rightarrow> string list" where
  "removeStopwords tokens = filter (\<lambda>token. toLowerCase token \<notin> set stopwords) tokens"

definition tokenizeAndNormalize :: "string \<Rightarrow> string list" where
  "tokenizeAndNormalize text = removeStopwords (splitWhitespace (toLowerCase text))"

text \<open>\<open>words.join(sep)\<close>, and \<open>tokens.join(' ')\<close>.\<close>

fun joinWith :: "string \<Rightarrow> string list \<Rightarrow> string" where
  "joinWith sep [] = []"
| "joinWith sep [w] = w"
| "joinWith sep (w # ws) = w @ sep @ joinWith sep ws"

definition joinSpace :: "string list \<Rightarrow> string" where
  "joinSpace ws = joinWith '' '' ws"

text \<open>\<open>s.split(' ')\<close>: a split at every single space, with no merging of runs.\<close>

fun splitChar :: "char \<Rightarrow> string \<Rightarrow> string list" where
  "splitChar sep [] = [[]]"
| "splitChar sep (c # cs) =
     (if c = sep then [] # splitChar sep cs
      else (case splitChar sep cs of
              [] \<Rightarrow> [[c]]
            | w # ws \<Rightarrow> (c # w) # ws))"

text \<open>The decimal rendering of a natural number, as a template string prints it.\<close>

fun showNat :: "nat \<Rightarrow> string" where
  "showNat n =
     (if n < 10 then [''0123456789'' ! n]
      else showNat (n div 10) @ [''0123456789'' ! (n mod 10)])"

text \<open>
  The mock \<open>TfIdf\<close> class holds a list of token lists. \<open>addDocument\<close> of a string splits
  it at white space; of an array it takes the array. In \<open>tfidf\<close> an index beyond the
  documents gives 0. For an empty document JavaScript computes \<open>0/0\<close>; the callers
  embedded below reach \<open>tfidf\<close> with an empty document only from \<open>extractTopicKeywords\<close>
  on a group that holds a thought without tokens next to a thought with tokens.
\<close>

definition tfidf :: "string list list \<Rightarrow> string \<Rightarrow> nat \<Rightarrow> number" where
  "tfidf documents term documentIndex =
     (if documentIndex \<ge> length documents then 0
      else let doc = documents ! documentIndex;
               tf = real (length (filter (\<lambda>t. t = term) doc)) / real (length doc);
               idf = ln (real (length documents)
                         / (1 + real (length (filter (\<lambda>d. term \<in> set d) documents))))
           in tf * idf)"

definition listTerms :: "string list list \<Rightarrow> nat \<Rightarrow> (string \<times> number) list" where
  "listTerms documents documentIndex =
     (if documentIndex \<ge> length documents then []
      else sortDescBy snd
             (map (\<lambda>term. (term, tfidf documents term documentIndex))
                (uniq (documents ! documentIndex))))"

definition stem :: "string \<Rightarrow> string" where
  "stem word =
     (if suffix ''ing'' word then take (length word - 3) word
      else if suffix ''ed'' word then take (length word - 2) word
      else if suffix ''s'' word then take (length word - 1) word
      else word)"

text \<open>
  \<open>LevenshteinDistance\<close> fills a matrix with one row per character of \<open>str2\<close>; a row is
  computed from the row above it, from left to right.
\<close>

fun levenshteinRow :: "char \<Rightarrow> string \<Rightarrow> nat list \<Rightarrow> nat \<Rightarrow> nat list" where
  "levenshteinRow c2 [] rowAbove leftCell = []"
| "levenshteinRow c2 (c1 # str1) rowAbove leftCell =
     (let cost = (if c2 = c1 then 0 else 1);
          cell = min (min (rowAbove ! 1 + 1) (leftCell + 1)) (rowAbove ! 0 + cost)
      in cell # levenshteinRow c2 str1 (tl rowAbove) cell)"

definition LevenshteinDistance :: "string \<Rightarrow> string \<Rightarrow> nat" where
  "LevenshteinDistance str1 str2 =
     (if str1 = str2 then 0
      else if length str1 = 0 then length str2
      else if length str2 = 0 then length str1
      else last (snd (foldl (\<lambda>(i, rowAbove) c2. (i + 1, i # levenshteinRow c2 str1 rowAbove i))
                        (1, [0..<length str1 + 1]) str2)))"

subsection \<open>Vectors\<close>

definition vectorDimension :: nat where
  "vectorDimension = 300"

definition seedPrimes :: "nat list" where
  "seedPrimes = [31, 101, 257, 401, 631]"

definition normalize :: "number list \<Rightarrow> number list" where
  "normalize v =
     (let magnitude = sqrt (sum_list (map (\<lambda>val. val * val) v))
      in map (\<lambda>val. if magnitude = 0 then 0 else val / magnitude) v)"

text \<open>
  \<open>getWordVector\<close>: character \<open>i\<close> of the word adds \<open>1/(i+1)\<close> to one bucket per seed
  prime. The cache of the class stores the result of this pure function and is left out.
\<close>

definition hashBuckets :: "string \<Rightarrow> (nat \<times> number) list" where
  "hashBuckets word =
     concat (map (\<lambda>i. map (\<lambda>j. ((of_char (word ! i) * (seedPrimes ! j) + i + j) mod vectorDimension,
                                    1 / (real i + 1)))
                         [0..<length seedPrimes])
               [0..<length word])"

definition addBucket :: "number list \<Rightarrow> nat \<times> number \<Rightarrow> number list" where
  "addBucket v b = v[fst b := v ! fst b + snd b]"

definition getWordVector :: "string \<Rightarrow> number list" where
  "getWordVector word =
     normalize (foldl addBucket (replicate vectorDimension 0) (hashBuckets word))"

definition getIdfWeight :: "string \<Rightarrow> number" where
  "getIdfWeight word = 1"

text \<open>The inner loop of \<open>buildThoughtVectors\<close>: the weighted word vector of a token is
  added to the running sum, component by component.\<close>

definition addWordVector :: "number list \<Rightarrow> string \<Rightarrow> number list" where
  "addWordVector v token =
     map (\<lambda>(x, w). x + w * getIdfWeight token) (zip v (getWordVector token))"

definition buildThoughtVectorsOfText :: "string \<Rightarrow> number list" where
  "buildThoughtVectorsOfText text =
     (let tokens = tokenizeAndNormalize text;
          summed = foldl addWordVector (replicate vectorDimension 0) tokens;
          wordCount = length tokens;
          averaged = (if wordCount > 0 then map (\<lambda>x. x / real wordCount) summed else summed)
      in normalize averaged)"

definition buildThoughtVectors :: "('r, 'z) ThoughtData_scheme \<Rightarrow> number list" where
  "buildThoughtVectors t = buildThoughtVectorsOfText (thought t)"

definition cosineSimilarity :: "number list \<Rightarrow> number list \<Rightarrow> number" where
  "cosineSimilarity vec1 vec2 =
     (if length vec1 \<noteq> length vec2 then 0
      else let dotProduct = sum_list (map (\<lambda>(a, b). a * b) (zip vec1 vec2));
               magnitude1 = sqrt (sum_list (map (\<lambda>val. val * val) vec1));
               magnitude2 = sqrt (sum_list (map (\<lambda>val. val * val) vec2))
           in if magnitude1 = 0 \<or> magnitude2 = 0 then 0
              else dotProduct / (magnitude1 * magnitude2))"

definition jaccardSimilarity :: "string set \<Rightarrow> string set \<Rightarrow> number" where
  "jaccardSimilarity set1 set2 =
     (if card (set1 \<union> set2) = 0 then 0
      else real (card (set1 \<inter> set2)) / real (card (set1 \<union> set2)))"

subsection \<open>Keywords and pairwise similarity\<close>

text \<open>\<open>SemanticAnalyzer.extractKeywords\<close>; the name is suffixed, as the prompt analyzer has
  a method of the same name.\<close>

definition extractKeywordsSem :: "string \<Rightarrow> string list" where
  "extractKeywordsSem text =
     (let tokens = tokenizeAndNormalize text
      in if length tokens = 0 then []
         else map fst (take 10 (sortDescBy snd (listTerms [tokens] 0))))"

definition valueAt :: "(string \<times> number) list \<Rightarrow> string \<Rightarrow> number" where
  "valueAt vec term = (case map_of vec term of Some x \<Rightarrow> x | None \<Rightarrow> 0)"

definition cosineSimilarityObjects ::
    "(string \<times> number) list \<Rightarrow> (string \<times> number) list \<Rightarrow> number" where
  "cosineSimilarityObjects vec1 vec2 =
     (let terms = uniq (map fst vec1 @ map fst vec2);
          dotProduct = sum_list (map (\<lambda>term. valueAt vec1 term * valueAt vec2 term) terms);
          magnitude1 = sqrt (sum_list (map (\<lambda>term. valueAt vec1 term * valueAt vec1 term) terms));
          magnitude2 = sqrt (sum_list (map (\<lambda>term. valueAt vec2 term * valueAt vec2 term) terms))
      in if magnitude1 = 0 \<or> magnitude2 = 0 then 0
         else dotProduct / (magnitude1 * magnitude2))"

text \<open>
  \<open>calculateTfidfSimilarity\<close> assigns \<open>vector1[term]\<close> and \<open>vector2[term]\<close> for every term
  of the two texts, so the two objects have the same own keys. The assignment of a number
  to the key \<open>__proto__\<close> creates no property: that term is in neither vector.
\<close>

definition calculateTfidfSimilarity :: "string \<Rightarrow> string \<Rightarrow> number" where
  "calculateTfidfSimilarity text1 text2 =
     (let documents = [splitWhitespace (joinSpace (tokenizeAndNormalize text1)),
                       splitWhitespace (joinSpace (tokenizeAndNormalize text2))];
          terms = filter (\<lambda>term. term \<noteq> ''__proto__'')
                    (uniq (tokenizeAndNormalize text1 @ tokenizeAndNormalize text2));
          vector1 = map (\<lambda>term. (term, tfidf documents term 0)) terms;
          vector2 = map (\<lambda>term. (term, tfidf documents term 1)) terms
      in cosineSimilarityObjects vector1 vector2)"

definition vectorOf :: "('r, 'z) ThoughtData_scheme \<Rightarrow> number list" where
  "vectorOf t = (case vector t of Some v \<Rightarrow> v | None \<Rightarrow> buildThoughtVectors t)"

definition analyzeSemanticSimilarity ::
    "('r, 'z) ThoughtData_scheme \<Rightarrow> ('r, 'z) ThoughtData_scheme \<Rightarrow> number" where
  "analyzeSemanticSimilarity thought1 thought2 =
     (let cosineSim = cosineSimilarity (vectorOf thought1) (vectorOf thought2);
          jaccardSim = jaccardSimilarity (set (extractKeywordsSem (thought thought1)))
                                         (set (extractKeywordsSem (thought thought2)));
          tfidfSim = calculateTfidfSimilarity (thought thought1) (thought thought2)
      in cosineSim * 0.5 + jaccardSim * 0.2 + tfidfSim * 0.3)"

subsection \<open>Concepts\<close>

definition conceptStopWords :: "string list" where
  "conceptStopWords =
     [''the'', ''and'', ''or'', ''but'', ''in'', ''on'', ''at'', ''to'', ''for'', ''with'', ''by'',
      ''is'', ''are'', ''was'', ''were'', ''this'', ''that'', ''these'', ''those'', ''be'', ''been'',
      ''being'', ''have'', ''has'', ''had'', ''do'', ''does'', ''did'', ''can'', ''could'', ''will'',
      ''would'', ''should'', ''may'', ''might'', ''must'', ''shall'']"

definition isSignificantConcept :: "string \<Rightarrow> bool" where
  "isSignificantConcept concept =
     (let words = splitChar CHR '' '' concept
      in if length words > 1 then
           (if list_all (\<lambda>word. word \<in> set conceptStopWords) words then False
            else if length words \<ge> 3 then True
            else list_ex (\<lambda>word. word \<notin> set conceptStopWords \<and> length word > 3) words)
         else length concept > 3 \<and> concept \<notin> set conceptStopWords)"

definition bigrams :: "string list \<Rightarrow> string list" where
  "bigrams tokens =
     map (\<lambda>i. tokens ! i @ '' '' @ tokens ! (i + 1)) [0..<length tokens - 1]"

definition trigrams :: "string list \<Rightarrow> string list" where
  "trigrams tokens =
     map (\<lambda>i. tokens ! i @ '' '' @ tokens ! (i + 1) @ '' '' @ tokens ! (i + 2))
       [0..<length tokens - 2]"

definition extractConcepts :: "('r, 'z) ThoughtData_scheme \<Rightarrow> string list" where
  "extractConcepts t =
     (let tokens = tokenizeAndNormalize (thought t);
          ngrams = filter isSignificantConcept tokens
                   @ filter isSignificantConcept (bigrams tokens)
                   @ filter isSignificantConcept (trigrams tokens);
          documents = [splitWhitespace (joinSpace tokens)];
          scoredNgrams =
            map (\<lambda>ngram.
                   (ngram,
                    sum_list (map (\<lambda>token. tfidf documents token 0) (splitChar CHR '' '' ngram))
                    / real (length (splitChar CHR '' '' ngram))))
              ngrams
      in map fst (take 10 (sortDescBy snd scoredNgrams)))"

subsection \<open>Topic clusters\<close>

definition extractTopicKeywords :: "('r, 'z) ThoughtData_scheme list \<Rightarrow> string list" where
  "extractTopicKeywords thoughts =
     (let documents = map (\<lambda>t. tokenizeAndNormalize (thought t)) thoughts;
          uniqueTerms = uniq (concat (map (\<lambda>docIndex. map fst (listTerms documents docIndex))
                                          [0..<length thoughts]));
          terms = map (\<lambda>term.
                         (term,
                          sum_list (map (\<lambda>docIndex. tfidf documents term docIndex)
                                      [0..<length thoughts])
                          / real (length thoughts)))
                    uniqueTerms
      in map fst (take 5 (sortDescBy snd terms)))"

definition similarityMatrix :: "('r, 'z) ThoughtData_scheme list \<Rightarrow> nat \<Rightarrow> nat \<Rightarrow> number" where
  "similarityMatrix thoughts i j =
     (if i = j then 1 else analyzeSemanticSimilarity (thoughts ! i) (thoughts ! j))"

text \<open>
  One round of the \<open>forEach\<close> of \<open>clusterThoughtsByTopic\<close>. The state is the record of
  clusters in creation order, the set of processed thought numbers and the cluster count.
  \<open>clusters[topicName] = cluster\<close> replaces the value of a name that is already there;
  for the name \<open>__proto__\<close> it sets the prototype of the record and creates no entry.
\<close>

definition clusterStep ::
    "('r, 'z) ThoughtData_scheme list
     \<Rightarrow> (string \<times> ('r, 'z) ThoughtData_scheme list) list \<times> number list \<times> nat
     \<Rightarrow> nat
     \<Rightarrow> (string \<times> ('r, 'z) ThoughtData_scheme list) list \<times> number list \<times> nat" where
  "clusterStep thoughts st index =
     (case st of (clusters, processedThoughts, clusterCount) \<Rightarrow>
        if thoughtNumber (thoughts ! index) \<in> set processedThoughts then st
        else
          let cluster = map (\<lambda>j. thoughts ! j)
                          (filter (\<lambda>j. thoughtNumber (thoughts ! j) \<notin> set processedThoughts
                                        \<and> similarityMatrix thoughts index j > 0.6)
                             [0..<length thoughts])
          in if length cluster > 0 then
               let topicKeywords = extractTopicKeywords cluster;
                   topicName = (if length topicKeywords > 0
                                then joinWith ''_'' (take 2 topicKeywords)
                                else ''topic_'' @ showNat (clusterCount + 1))
               in ((if topicName = ''__proto__'' then clusters
                    else setKey topicName (\<lambda>old. cluster) clusters),
                   processedThoughts @ map thoughtNumber cluster,
                   clusterCount + 1)
             else st)"

definition clusterThoughtsByTopic ::
    "('r, 'z) ThoughtData_scheme list \<Rightarrow> (string \<times> ('r, 'z) ThoughtData_scheme list) list" where
  "clusterThoughtsByTopic thoughts =
     fst (foldl (clusterStep thoughts) ([], [], 0) [0..<length thoughts])"

subsection \<open>Relevance to the prompt and topic drift\<close>

definition calculateStringSimilarity :: "string \<Rightarrow> string \<Rightarrow> number" where
  "calculateStringSimilarity str1 str2 =
     (let distance = LevenshteinDistance str1 str2;
          maxLength = max (length str1) (length str2)
      in if maxLength = 0 then 1 else 1 - real distance / real maxLength)"

definition calculatePhraseRelevance :: "string \<Rightarrow> string \<Rightarrow> number" where
  "calculatePhraseRelevance phrase1 phrase2 =
     (let words1 = splitChar CHR '' '' phrase1;
          words2 = splitChar CHR '' '' phrase2;
          overlapSim = jaccardSimilarity (set words1) (set words2);
          stringSim = calculateStringSimilarity phrase1 phrase2;
          semanticSim =
            foldl (\<lambda>semanticSim (word1, word2).
                     if stem word1 = stem word2 then max semanticSim 0.9
                     else max semanticSim (calculateStringSimilarity (stem word1) (stem word2) * 0.7))
              0 (concat (map (\<lambda>word1. map (\<lambda>word2. (word1, word2)) words2) words1))
      in overlapSim * 0.4 + stringSim * 0.3 + semanticSim * 0.3)"

definition aspectRelevance :: "string \<Rightarrow> string \<Rightarrow> number" where
  "aspectRelevance text aspect =
     (if js_includes (toLowerCase text) (toLowerCase aspect) then 1
      else
        let aspectTokens = tokenizeAndNormalize aspect;
            textTokens = tokenizeAndNormalize text;
            tokenMatches = length (filter (\<lambda>token. token \<in> set textTokens) aspectTokens);
            tokenMatchRatio = (if length aspectTokens > 0
                               then real tokenMatches / real (length aspectTokens) else 0);
            maxSentenceSimilarity =
              foldl (\<lambda>m sentence. max m (calculatePhraseRelevance aspect sentence))
                0 (splitSentences text)
        in tokenMatchRatio * 0.6 + maxSentenceSimilarity * 0.4)"

definition calculateContextualAspectRelevance :: "string \<Rightarrow> string list \<Rightarrow> number" where
  "calculateContextualAspectRelevance text aspects =
     (if length aspects = 0 then 1
      else min 1 (sum_list (map (aspectRelevance text) aspects)
                  / real (max 1 (length aspects))))"

definition identifyAlternativeDomains :: "string \<Rightarrow> PromptMetadata \<Rightarrow> string list" where
  "identifyAlternativeDomains text promptMetadata =
     map fst (filter (\<lambda>dk. fst dk \<notin> set (domains promptMetadata)
                           \<and> containsAny (toLowerCase text) (snd dk))
                domainKeywords)"

text \<open>
  The result of \<open>detectTopicDrift\<close>. The drift score is \<open>None\<close> where JavaScript computes
  NaN: the overlap ratio is \<open>0/0\<close> when the prompt has keywords and the thought has none.
  Every comparison with NaN is false.
\<close>

record TopicDrift =
  topicHasDrift :: bool
  driftScore :: "number option"
  driftReason :: "string option"
  driftDirection :: "string option"

definition keywordOverlapRatio :: "string \<Rightarrow> PromptMetadata \<Rightarrow> number option" where
  "keywordOverlapRatio thoughtText promptMetadata =
     (let thoughtKeywords = extractKeywordsSem thoughtText;
          overlapCount = length (filter (\<lambda>kw. kw \<in> set (promptKeywords promptMetadata))
                                   thoughtKeywords)
      in if length (promptKeywords promptMetadata) > 0 then
           (if min (length thoughtKeywords) (length (promptKeywords promptMetadata)) = 0 then None
            else Some (real overlapCount
                       / real (min (length thoughtKeywords)
                                   (length (promptKeywords promptMetadata)))))
         else Some 1)"

definition exceeds :: "number option \<Rightarrow> number \<Rightarrow> bool" where
  "exceeds x bound = (case x of None \<Rightarrow> False | Some v \<Rightarrow> v > bound)"

definition isBelow :: "number option \<Rightarrow> number \<Rightarrow> bool" where
  "isBelow x bound = (case x of None \<Rightarrow> False | Some v \<Rightarrow> v < bound)"

definition detectTopicDrift :: "('r, 'z) ThoughtData_scheme \<Rightarrow> PromptMetadata \<Rightarrow> TopicDrift" where
  "detectTopicDrift t promptMetadata =
     (let thoughtText = thought t;
          goalRelevance = calculateContextualAspectRelevance thoughtText (goals promptMetadata);
          keywordRelevance =
            calculateContextualAspectRelevance thoughtText (promptKeywords promptMetadata);
          domainRelevance = calculateContextualAspectRelevance thoughtText (domains promptMetadata);
          overlapRatio = keywordOverlapRatio thoughtText promptMetadata;
          score = map_option
                    (\<lambda>ratio. 1 - (goalRelevance * 0.4 + keywordRelevance * 0.3
                                      + domainRelevance * 0.1 + ratio * 0.2))
                    overlapRatio;
          alternativeDomains = identifyAlternativeDomains thoughtText promptMetadata;
          direction = (if exceeds score 0.4 \<and> length alternativeDomains > 0
                       then Some (''Drifting toward: '' @ joinWith '', '' alternativeDomains)
                       else None);
          driftThreshold = 0.55;
          drift = exceeds score driftThreshold;
          reason =
            (if drift then
               Some (if goalRelevance < 0.4
                     then ''Thought has low relevance to the prompt'' @ [CHR 0x27] @ ''s main goals''
                     else if keywordRelevance < 0.4
                     then ''Thought uses terminology unrelated to the prompt'' @ [CHR 0x27]
                          @ ''s key concepts''
                     else if isBelow overlapRatio 0.3
                     then ''Few overlapping keywords with the prompt''
                     else if domainRelevance < 0.3
                     then ''Thought appears to address a different knowledge domain''
                     else ''Thought is diverging from the prompt'' @ [CHR 0x27]
                          @ ''s intended direction'')
             else None)
      in \<lparr> topicHasDrift = drift, driftScore = score, driftReason = reason,
           driftDirection = direction \<rparr>)"

section \<open>The contradiction detector\<close>

definition classificationName :: "Classification \<Rightarrow> string" where
  "classificationName c =
     (case c of Hypothesis \<Rightarrow> ''hypothesis'' | Observation \<Rightarrow> ''observation''
      | Conclusion \<Rightarrow> ''conclusion'' | Question \<Rightarrow> ''question'' | Solution \<Rightarrow> ''solution'')"

text \<open>A template string prints a missing classification as \<open>undefined\<close>.\<close>

definition classificationText :: "Classification option \<Rightarrow> string" where
  "classificationText c =
     (case c of None \<Rightarrow> ''undefined'' | Some x \<Rightarrow> classificationName x)"

definition opposingPairs :: "string list" where
  "opposingPairs = [''hypothesis:conclusion'', ''question:solution'', ''observation:conclusion'']"

definition hasOpposingClassifications ::
    "('r, 'z) ThoughtData_scheme \<Rightarrow> ('r, 'z) ThoughtData_scheme \<Rightarrow> bool" where
  "hasOpposingClassifications thought1 thought2 =
     (case (classification thought1, classification thought2) of
        (Some c1, Some c2) \<Rightarrow>
          classificationName c1 @ '':'' @ classificationName c2 \<in> set opposingPairs
          \<or> classificationName c2 @ '':'' @ classificationName c1 \<in> set opposingPairs
      | _ \<Rightarrow> False)"

definition negationWords :: "string list" where
  "negationWords =
     [''not'', ''never'', ''no'', ''cannot'', ''don'' @ [CHR 0x27] @ ''t'',
      ''doesn'' @ [CHR 0x27] @ ''t'']"

definition containsNegation :: "string \<Rightarrow> string list \<Rightarrow> bool" where
  "containsNegation text words =
     list_ex (\<lambda>word. word \<in> set words) (splitChar CHR '' '' (toLowerCase text))"

definition hasConflictingConclusions ::
    "('r, 'z) ThoughtData_scheme \<Rightarrow> ('r, 'z) ThoughtData_scheme \<Rightarrow> bool" where
  "hasConflictingConclusions thought1 thought2 =
     (if classification thought1 \<noteq> Some Conclusion \<or> classification thought2 \<noteq> Some Conclusion
      then False
      else containsNegation (thought thought1) negationWords
           \<noteq> containsNegation (thought thought2) negationWords)"

definition areAssumptionsConflicting :: "string \<Rightarrow> string \<Rightarrow> bool" where
  "areAssumptionsConflicting assumption1 assumption2 =
     (let negated1 = prefix ''not '' (toLowerCase assumption1);
          negated2 = prefix ''not '' (toLowerCase assumption2);
          base1 = (if negated1 then drop 4 assumption1 else assumption1);
          base2 = (if negated2 then drop 4 assumption2 else assumption2)
      in toLowerCase base1 = toLowerCase base2 \<and> negated1 \<noteq> negated2)"

definition checkAssumptionConflicts ::
    "('r, 'z) ThoughtData_scheme \<Rightarrow> ('r, 'z) ThoughtData_scheme \<Rightarrow> string option" where
  "checkAssumptionConflicts thought1 thought2 =
     (case (assumptions thought1, assumptions thought2) of
        (Some as1, Some as2) \<Rightarrow>
          (let conflicts = filter (\<lambda>assumption1.
                                     list_ex (areAssumptionsConflicting assumption1) as2) as1
           in if length conflicts > 0 then Some (joinWith '', '' conflicts) else None)
      | _ \<Rightarrow> None)"

definition detectContradiction ::
    "('r, 'z) ThoughtData_scheme \<Rightarrow> ('r, 'z) ThoughtData_scheme \<Rightarrow> string option" where
  "detectContradiction thought1 thought2 =
     (if analyzeSemanticSimilarity thought1 thought2 > 0.5 then
        (if hasOpposingClassifications thought1 thought2 then
           Some (''Opposing classifications: ''
                 @ classificationText (classification thought1) @ '' vs ''
                 @ classificationText (classification thought2))
         else if hasConflictingConclusions thought1 thought2 then
           Some ''Conflicting conclusions detected''
         else (case checkAssumptionConflicts thought1 thought2 of
                 Some assumptionConflicts \<Rightarrow>
                   if assumptionConflicts \<noteq> []
                   then Some (''Conflicting assumptions: '' @ assumptionConflicts)
                   else None
               | None \<Rightarrow> None))
      else None)"

record ContradictionCheck =
  hasContradictions :: bool
  details :: "(number \<times> string) list"

definition checkContradictions ::
    "('r, 'z) ThoughtData_scheme \<Rightarrow> ('r, 'z) ThoughtData_scheme list \<Rightarrow> ContradictionCheck" where
  "checkContradictions newThought existingThoughts =
     (if truthyBool (isRevision newThought) then \<lparr> hasContradictions = False, details = [] \<rparr>
      else
        let found = concat (map (\<lambda>existingThought.
                      if truthyBool (isRevision existingThought)
                         \<or> thoughtNumber existingThought = thoughtNumber newThought
                      then []
                      else (case detectContradiction newThought existingThought of
                              Some explanation \<Rightarrow> [(thoughtNumber existingThought, explanation)]
                            | None \<Rightarrow> []))
                    existingThoughts)
        in \<lparr> hasContradictions = length found > 0, details = found \<rparr>)"

section \<open>The reflection engine\<close>

definition generateContextAwarePrompts ::
    "('r, 'z) ThoughtData_scheme \<Rightarrow> ('r, 'z) ThoughtData_scheme list \<Rightarrow> string list" where
  "generateContextAwarePrompts currentThought allThoughts =
     (let first = (case dependencies currentThought of
                     Some (d # ds) \<Rightarrow> ''How do the dependencies influence this thought?''
                   | _ \<Rightarrow> ''How does this thought connect to previous thinking?'');
          similarThoughts =
            filter (\<lambda>t. thoughtNumber t \<noteq> thoughtNumber currentThought
                        \<and> analyzeSemanticSimilarity t currentThought > 0.5) allThoughts
      in first # (if length similarThoughts > 0
                  then [''How does this thought align with or differ from similar previous thoughts?'']
                  else []))"

definition generatePhaseSpecificPrompts :: "Phase \<Rightarrow> string list" where
  "generatePhaseSpecificPrompts p =
     (case p of
        Planning \<Rightarrow>
          [''What potential obstacles have been considered?'',
           ''Are there any missing steps in the plan?'',
           ''How flexible is this plan to changes?'']
      | Analysis \<Rightarrow>
          [''What other angles of analysis could be explored?'',
           ''Are there any hidden patterns or relationships?'',
           ''What methods of analysis might yield different insights?'']
      | Execution \<Rightarrow>
          [''What risks or challenges might arise during execution?'',
           ''Are there alternative approaches to implementation?'',
           ''How can the execution be optimized?'']
      | Verification \<Rightarrow>
          [''What criteria are being used for verification?'',
           ''How comprehensive is the verification process?'',
           ''What edge cases should be considered?''])"

definition generateClassificationPrompts :: "Classification \<Rightarrow> string list" where
  "generateClassificationPrompts c =
     (case c of
        Hypothesis \<Rightarrow>
          [''What evidence would support or refute this hypothesis?'',
           ''What alternative hypotheses should be considered?'']
      | Observation \<Rightarrow>
          [''What factors might influence this observation?'',
           ''How reliable is this observation?'']
      | Conclusion \<Rightarrow>
          [''What assumptions led to this conclusion?'',
           ''How strong is the evidence supporting this conclusion?'']
      | Question \<Rightarrow>
          [''What assumptions underlie this question?'',
           ''Are there related questions to consider?'']
      | Solution \<Rightarrow>
          [''What are the limitations of this solution?'',
           ''How might this solution be improved?''])"

definition generateQualityBasedPrompts :: "Quality \<Rightarrow> string list" where
  "generateQualityBasedPrompts q =
     (if coherence q < 7
      then [''How could this thought be better connected to the overall context?''] else [])
     @ (if depth q < 7
        then [''What deeper aspects of this thought could be explored?''] else [])
     @ (if relevance q < 7
        then [''How could this thought be made more relevant to the main goal?''] else [])"

definition prioritizePrompts :: "string list \<Rightarrow> string list" where
  "prioritizePrompts prompts = take 5 (sortDescBy (\<lambda>prompt. real (length prompt)) (uniq prompts))"

text \<open>The server calls \<open>generateReflectionPrompts\<close> with the history followed by the new
  thought; the latest thought is passed on its own here.\<close>

definition generateReflectionPrompts ::
    "('r, 'z) ThoughtData_scheme list \<Rightarrow> ('r, 'z) ThoughtData_scheme \<Rightarrow> string list" where
  "generateReflectionPrompts earlier latestThought =
     prioritizePrompts
       (generateContextAwarePrompts latestThought (earlier @ [latestThought])
        @ (case phase latestThought of Some p \<Rightarrow> generatePhaseSpecificPrompts p | None \<Rightarrow> [])
        @ (case classification latestThought of
             Some c \<Rightarrow> generateClassificationPrompts c | None \<Rightarrow> [])
        @ (case quality latestThought of Some q \<Rightarrow> generateQualityBasedPrompts q | None \<Rightarrow> []))"

definition assumptionIndicators :: "string list" where
  "assumptionIndicators =
     [''assume'', ''assuming'', ''must be'', ''should be'', ''probably'',
      ''likely'', ''always'', ''never'', ''everyone'', ''nobody'', ''clearly'',
      ''obviously'', ''naturally'', ''of course'']"

definition assumptionPrefixes :: "string list" where
  "assumptionPrefixes =
     [''assuming'', ''we assume'', ''it is assumed'', ''clearly'', ''obviously'', ''naturally'',
      ''of course'', ''must be'', ''should be'']"

text \<open>\<open>cleanAssumption\<close>: the first alternative of the pattern that matches at the start of
  the trimmed text, ignoring case, is removed.\<close>

definition cleanAssumption :: "string \<Rightarrow> string" where
  "cleanAssumption text =
     (let trimmed = trim text
      in trim (case filter (\<lambda>alt. prefix alt (toLowerCase trimmed)) assumptionPrefixes of
                 [] \<Rightarrow> trimmed
               | alt # alts \<Rightarrow> drop (length alt) trimmed))"

definition getImplicitAssumptions :: "Classification \<Rightarrow> string list" where
  "getImplicitAssumptions c =
     (case c of
        Hypothesis \<Rightarrow> [''The variables being considered are the most relevant ones'']
      | Observation \<Rightarrow> [''The observation is representative of the general case'']
      | Conclusion \<Rightarrow> [''The available evidence is sufficient for this conclusion'']
      | Question \<Rightarrow> [''This question addresses a significant aspect of the problem'']
      | Solution \<Rightarrow> [''The solution is feasible to implement''])"

definition identifyAssumptions :: "('r, 'z) ThoughtData_scheme \<Rightarrow> string list" where
  "identifyAssumptions t =
     (let sentences = splitRuns isSentenceEnd (toLowerCase (thought t))
      in uniq (map cleanAssumption
                 (filter (\<lambda>sentence. containsAny sentence assumptionIndicators) sentences)
               @ (case classification t of Some c \<Rightarrow> getImplicitAssumptions c | None \<Rightarrow> [])))"

section \<open>Alignment with the prompt (\<open>PromptAnalyzer.analyzeThoughtAlignment\<close>)\<close>

definition goalMatchPercentage :: "string \<Rightarrow> string \<Rightarrow> number" where
  "goalMatchPercentage thoughtLower goal =
     (let goalKeywords = longWords goal;
          goalKeywordMatches = length (filter (\<lambda>keyword. js_includes thoughtLower keyword) goalKeywords)
      in if length goalKeywords > 0
         then real goalKeywordMatches / real (length goalKeywords) else 0)"

definition calculateAlignmentScore :: "string \<Rightarrow> PromptMetadata \<Rightarrow> int" where
  "calculateAlignmentScore thoughtText promptMetadata =
     (let thoughtLower = toLowerCase thoughtText;
          keywordMatches = length (filter (\<lambda>keyword. js_includes thoughtLower keyword)
                                     (promptKeywords promptMetadata));
          keywordScore = min 10 (real keywordMatches * 2);
          score = (5 + keywordScore) / 2;
          goalAlignmentScore =
            foldl (\<lambda>best goal. max best (goalMatchPercentage thoughtLower goal * 10))
              0 (goals promptMetadata)
      in Math_round ((score + goalAlignmentScore) / 2))"

text \<open>\<open>PromptAnalyzer.calculateAspectRelevance\<close>.\<close>

definition calculateAspectRelevance :: "string \<Rightarrow> string list \<Rightarrow> number" where
  "calculateAspectRelevance thoughtLower aspects =
     (if length aspects = 0 then 5
      else real_of_int
             (Math_round
                (sum_list
                   (map (\<lambda>aspect.
                           let aspectKeywords = longWords aspect;
                               keywordMatches = length (filter (\<lambda>keyword. js_includes thoughtLower keyword)
                                                          aspectKeywords)
                           in if length aspectKeywords > 0
                              then real keywordMatches / real (length aspectKeywords) * 10
                              else 5)
                      aspects)
                 / real (length aspects))))"

definition calculateRelevanceScores :: "string \<Rightarrow> PromptMetadata \<Rightarrow> (string \<times> number) list" where
  "calculateRelevanceScores thoughtText promptMetadata =
     (let thoughtLower = toLowerCase thoughtText
      in [(''goals'', calculateAspectRelevance thoughtLower (goals promptMetadata)),
          (''constraints'', calculateAspectRelevance thoughtLower (constraints promptMetadata)),
          (''domains'', calculateAspectRelevance thoughtLower (domains promptMetadata))])"

record DriftCheck =
  hasDrift :: bool
  warning :: "string option"
  corrections :: "string list option"

text \<open>The alignment score is an integer; a negative one is printed with a minus sign.\<close>

definition showInt :: "int \<Rightarrow> string" where
  "showInt i = (if i < 0 then ''-'' @ showNat (nat (- i)) else showNat (nat i))"

definition checkForTopicDrift :: "string \<Rightarrow> PromptMetadata \<Rightarrow> DriftCheck" where
  "checkForTopicDrift thoughtText promptMetadata =
     (let alignmentScore = calculateAlignmentScore thoughtText promptMetadata
      in if alignmentScore < 4 then
           let found =
                 map (\<lambda>goal. ''Consider addressing the goal: '' @ [CHR 0x22] @ goal @ [CHR 0x22])
                   (filter (\<lambda>goal.
                              real (length (filter (\<lambda>keyword. js_includes (toLowerCase thoughtText) keyword)
                                              (longWords goal)))
                              < real (length (longWords goal)) * 0.3)
                      (goals promptMetadata))
           in \<lparr> hasDrift = True,
                warning = Some (''This thought appears to drift from the original prompt (alignment score: ''
                                @ showInt alignmentScore @ ''/10)''),
                corrections = Some (if length found > 0 then found
                                    else [''Try to align more closely with the original prompt goals'']) \<rparr>
         else \<lparr> hasDrift = False, warning = None, corrections = None \<rparr>)"

text \<open>\<open>PromptAlignmentData\<close>; its fields carry the prefix \<open>data\<close>, as the thought record has
  fields of the same names.\<close>

record PromptAlignmentData =
  dataPromptAlignment :: number
  dataPromptRelevance :: "(string \<times> number) list"
  dataDriftWarning :: "string option"
  dataSuggestedCorrections :: "string list option"

definition analyzeThoughtAlignment :: "string \<Rightarrow> PromptMetadata \<Rightarrow> PromptAlignmentData" where
  "analyzeThoughtAlignment thoughtText promptMetadata =
     (let driftCheck = checkForTopicDrift thoughtText promptMetadata
      in \<lparr> dataPromptAlignment = real_of_int (calculateAlignmentScore thoughtText promptMetadata),
           dataPromptRelevance = calculateRelevanceScores thoughtText promptMetadata,
           dataDriftWarning = (if hasDrift driftCheck then warning driftCheck else None),
           dataSuggestedCorrections = (if hasDrift driftCheck then corrections driftCheck else None) \<rparr>)"

section \<open>The complexity estimation of the intelligence module\<close>

definition clamp10 :: "number \<Rightarrow> number" where
  "clamp10 x = max 0 (min 10 x)"

definition calculateConceptualComplexity :: "PromptMetadata \<Rightarrow> number" where
  "calculateConceptualComplexity m =
     clamp10 (5 + min (real (length (goals m)) - 1) 3
                + min (real (length (domains m)) - 1) 2
                + (if taskType m = Analytical \<or> taskType m = Technical then 1 else 0))"

definition calculateProceduralComplexity :: "PromptMetadata \<Rightarrow> number" where
  "calculateProceduralComplexity m =
     clamp10 (5 + min (real (length (constraints m))) 3
                + (if taskType m = Technical then 2 else if taskType m = Analytical then 1 else 0)
                + (if priority m = High then 1 else 0))"

definition calculateContextualComplexity :: "PromptMetadata \<Rightarrow> number" where
  "calculateContextualComplexity m =
     clamp10 (5 + min (real (length (entities m)) / 2) 3
                + (if taskType m = Mixed then 2 else if taskType m = Creative then 1 else 0))"

definition complexDomains :: "string list" where
  "complexDomains =
     [''quantum physics'', ''machine learning'', ''artificial intelligence'',
      ''cryptography'', ''medicine'', ''law'', ''finance'', ''mathematics'']"

definition mediumDomains :: "string list" where
  "mediumDomains =
     [''programming'', ''engineering'', ''biology'', ''chemistry'', ''psychology'',
      ''economics'', ''business'', ''education'']"

fun domainBonus :: "string list \<Rightarrow> number" where
  "domainBonus [] = 0"
| "domainBonus (d # ds) =
     (if containsAny (toLowerCase d) complexDomains then 2
      else if containsAny (toLowerCase d) mediumDomains then 1
      else domainBonus ds)"

definition calculateDomainComplexity :: "PromptMetadata \<Rightarrow> number" where
  "calculateDomainComplexity m = clamp10 (5 + domainBonus (domains m))"

definition calculatePhaseDistribution ::
    "Complexity \<Rightarrow> number \<Rightarrow> number \<Rightarrow> number \<Rightarrow> number \<Rightarrow> PhaseDistribution" where
  "calculatePhaseDistribution overall conceptualC proceduralC contextualC domainC =
     (let base = (case overall of
                    Simple \<Rightarrow> \<lparr> planningCount = 1, analysisCount = 1, executionCount = 2,
                                  verificationCount = 1 \<rparr>
                  | Medium \<Rightarrow> \<lparr> planningCount = 2, analysisCount = 2, executionCount = 3,
                                  verificationCount = 1 \<rparr>
                  | Complex \<Rightarrow> \<lparr> planningCount = 3, analysisCount = 3, executionCount = 4,
                                   verificationCount = 2 \<rparr>)
      in \<lparr> planningCount = planningCount base + (if conceptualC > 7 then 1 else 0),
           analysisCount = analysisCount base + (if conceptualC > 7 then 1 else 0)
                           + (if contextualC > 7 then 1 else 0) + (if domainC > 7 then 1 else 0),
           executionCount = executionCount base + (if proceduralC > 7 then 1 else 0),
           verificationCount = verificationCount base + (if domainC > 7 then 1 else 0) \<rparr>)"

definition estimateDetailedComplexity :: "PromptMetadata \<Rightarrow> ComplexityEstimation" where
  "estimateDetailedComplexity m =
     (let conceptualComplexity = calculateConceptualComplexity m;
          proceduralComplexity = calculateProceduralComplexity m;
          contextualComplexity = calculateContextualComplexity m;
          domainComplexity = calculateDomainComplexity m;
          base = (case complexity m of Simple \<Rightarrow> 5 | Medium \<Rightarrow> 8 | Complex \<Rightarrow> 12);
          avgDimensionalComplexity =
            (conceptualComplexity + proceduralComplexity + contextualComplexity + domainComplexity) / 4
      in \<lparr> overallComplexity = complexity m,
           conceptual = conceptualComplexity,
           procedural = proceduralComplexity,
           contextual = contextualComplexity,
           domain = domainComplexity,
           recommendedThoughtCount =
             real_of_int (Math_round (base * (1 + (avgDimensionalComplexity - 5) / 10))),
           recommendedPhaseDistribution =
             calculatePhaseDistribution (complexity m) conceptualComplexity proceduralComplexity
               contextualComplexity domainComplexity \<rparr>)"

text \<open>
  \<open>generateRecommendations\<close>: the complexity estimation depends on the profile only; the
  rule-based lists are the value of the function \<open>rules\<close> at the profile, the thought number,
  the total and the phase.
\<close>

definition generateRecommendations ::
    "(PromptMetadata \<Rightarrow> number \<Rightarrow> number \<Rightarrow> Phase option \<Rightarrow> 'r)
     \<Rightarrow> PromptMetadata \<Rightarrow> number \<Rightarrow> number \<Rightarrow> Phase option
     \<Rightarrow> 'r IntelligenceMaximizationRecommendations" where
  "generateRecommendations rules promptMetadata currentThoughtNumber totalCount currentPhase =
     \<lparr> complexityEstimation = estimateDetailedComplexity promptMetadata,
       ruleBasedLists = rules promptMetadata currentThoughtNumber totalCount currentPhase \<rparr>"

section \<open>The server\<close>

subsection \<open>Submitted input and validation\<close>

text \<open>
  A submitted record is a JSON object. Its four required fields are arbitrary JSON values
  (\<open>JUndefined\<close> for a missing field, \<open>JObject\<close> for any array or object); the optional
  fields that \<open>validateThoughtData\<close> copies are read at the types the tool schema and the
  \<open>ThoughtData\<close> interface declare for them. Field names carry the suffix \<open>In\<close>.
\<close>

datatype jsval = JUndefined | JNull | JBool bool | JNum number | JStr string | JObject

text \<open>\<open>!v\<close>.\<close>

definition falsy :: "jsval \<Rightarrow> bool" where
  "falsy v =
     (case v of JUndefined \<Rightarrow> True | JNull \<Rightarrow> True | JBool b \<Rightarrow> \<not> b
      | JNum n \<Rightarrow> n = 0 | JStr x \<Rightarrow> x = [] | JObject \<Rightarrow> False)"

definition isString :: "jsval \<Rightarrow> bool" where
  "isString v = (case v of JStr x \<Rightarrow> True | _ \<Rightarrow> False)"

definition isNumber :: "jsval \<Rightarrow> bool" where
  "isNumber v = (case v of JNum n \<Rightarrow> True | _ \<Rightarrow> False)"

definition isBoolean :: "jsval \<Rightarrow> bool" where
  "isBoolean v = (case v of JBool b \<Rightarrow> True | _ \<Rightarrow> False)"

definition stringOf :: "jsval \<Rightarrow> string" where
  "stringOf v = (case v of JStr x \<Rightarrow> x | _ \<Rightarrow> [])"

definition numberOf :: "jsval \<Rightarrow> number" where
  "numberOf v = (case v of JNum n \<Rightarrow> n | _ \<Rightarrow> 0)"

definition booleanOf :: "jsval \<Rightarrow> bool" where
  "booleanOf v = (case v of JBool b \<Rightarrow> b | _ \<Rightarrow> False)"

record SubmittedThought =
  thoughtIn :: jsval
  thoughtNumberIn :: jsval
  totalThoughtsIn :: jsval
  nextThoughtNeededIn :: jsval
  isRevisionIn :: "bool option"
  revisesThoughtIn :: "number option"
  branchFromThoughtIn :: "number option"
  branchIdIn :: "string option"
  needsMoreThoughtsIn :: "bool option"
  phaseIn :: "Phase option"
  dependenciesIn :: "number list option"
  toolsUsedIn :: "string list option"
  complexityIn :: "Complexity option"
  statusIn :: "Status option"
  qualityIn :: "Quality option"
  keywordsIn :: "string list option"
  insightValueIn :: "number option"
  classificationIn :: "Classification option"
  confidenceScoreIn :: "number option"
  evidenceStrengthIn :: "number option"

text \<open>\<open>validateThoughtData\<close>: \<open>Inl\<close> carries the message of the thrown \<open>Error\<close>.\<close>

definition validateThoughtData :: "SubmittedThought \<Rightarrow> string + 'r ThoughtData" where
  "validateThoughtData data =
     (if falsy (thoughtIn data) \<or> \<not> isString (thoughtIn data)
      then Inl ''Invalid thought: must be a string''
      else if falsy (thoughtNumberIn data) \<or> \<not> isNumber (thoughtNumberIn data)
      then Inl ''Invalid thoughtNumber: must be a number''
      else if falsy (totalThoughtsIn data) \<or> \<not> isNumber (totalThoughtsIn data)
      then Inl ''Invalid totalThoughts: must be a number''
      else if \<not> isBoolean (nextThoughtNeededIn data)
      then Inl ''Invalid nextThoughtNeeded: must be a boolean''
      else Inr \<lparr> thought = stringOf (thoughtIn data),
                 thoughtNumber = numberOf (thoughtNumberIn data),
                 totalThoughts = numberOf (totalThoughtsIn data),
                 isRevision = isRevisionIn data,
                 revisesThought = revisesThoughtIn data,
                 branchFromThought = branchFromThoughtIn data,
                 branchId = branchIdIn data,
                 needsMoreThoughts = needsMoreThoughtsIn data,
                 nextThoughtNeeded = booleanOf (nextThoughtNeededIn data),
                 phase = phaseIn data,
                 dependencies = dependenciesIn data,
                 toolsUsed = toolsUsedIn data,
                 thoughtComplexity = complexityIn data,
                 status = statusIn data,
                 quality = qualityIn data,
                 thoughtKeywords = keywordsIn data,
                 insightValue = insightValueIn data,
                 classification = classificationIn data,
                 confidenceScore = confidenceScoreIn data,
                 evidenceStrength = evidenceStrengthIn data,
                 assumptions = None,
                 vector = None,
                 conceptsExtracted = None,
                 contradictions = None,
                 reflectionPrompts = None,
                 promptAlignment = None,
                 promptRelevance = None,
                 driftWarning = None,
                 suggestedCorrections = None,
                 intelligenceRecommendations = None \<rparr>)"

subsection \<open>The state of a server instance\<close>

record ToolUsageStats =
  usageCount :: nat
  thoughtsUsedIn :: "number list"
  phaseUsage :: "Phase \<Rightarrow> nat"

text \<open>\<open>PromptContext\<close>: the profile, \<open>None\<close> for \<open>null\<close>, and the prompt it was given.\<close>

record PromptContext =
  metadata :: "PromptMetadata option"
  contextPrompt :: jsval

record 'r Server =
  thoughtHistory :: "'r ThoughtData list"
  branches :: "(string \<times> 'r ThoughtData list) list"
  availableTools :: "string list"
  toolUsageStats :: "(string \<times> ToolUsageStats) list"
  promptContext :: PromptContext

text \<open>The state after the constructor.\<close>

definition newServer :: "'r Server" where
  "newServer =
     \<lparr> thoughtHistory = [], branches = [], availableTools = [''sequentialthinking''],
       toolUsageStats = [],
       promptContext = \<lparr> metadata = None, contextPrompt = JStr [] \<rparr> \<rparr>"

definition isInitialized :: "PromptContext \<Rightarrow> bool" where
  "isInitialized ctx = (metadata ctx \<noteq> None)"

text \<open>
  \<open>initializePromptContext\<close>, with \<open>PromptContext.initializeWithPrompt\<close>: the prompt is stored
  first, then analysed. The analysis of a value that is not a string throws a
  \<open>TypeError\<close> at the first \<open>prompt.split\<close>, after the prompt is stored and before the
  profile is assigned; the result is \<open>Inl\<close> of the state reached then.
\<close>

definition initializePromptContext :: "'r Server \<Rightarrow> jsval \<Rightarrow> 'r Server + 'r Server" where
  "initializePromptContext s prompt =
     (case prompt of
        JStr text \<Rightarrow>
          Inr (s\<lparr> promptContext := \<lparr> metadata = Some (analyzePrompt text), contextPrompt = prompt \<rparr> \<rparr>)
      | _ \<Rightarrow>
          Inl (s\<lparr> promptContext := (promptContext s)\<lparr> contextPrompt := prompt \<rparr> \<rparr>))"

subsection \<open>The stages of \<open>processThought\<close>\<close>

text \<open>Auto-adjust \<open>totalThoughts\<close>.\<close>

definition adjustTotalThoughts :: "'r ThoughtData \<Rightarrow> 'r ThoughtData" where
  "adjustTotalThoughts v =
     (if thoughtNumber v > totalThoughts v then v\<lparr> totalThoughts := thoughtNumber v \<rparr> else v)"

text \<open>The default phase: \<open>phaseMap[thoughtNumber] || 'Execution'\<close> with the only key 1.\<close>

definition setDefaultPhase :: "'r ThoughtData \<Rightarrow> 'r ThoughtData" where
  "setDefaultPhase v =
     (if phase v = None
      then v\<lparr> phase := Some (if thoughtNumber v = 1 then Planning else Execution) \<rparr>
      else v)"

text \<open>Vector, concepts, contradictions, reflection prompts and assumptions, in this order.\<close>

definition enrich :: "'r ThoughtData list \<Rightarrow> 'r ThoughtData \<Rightarrow> 'r ThoughtData" where
  "enrich history v =
     (let v1 = v\<lparr> vector := Some (buildThoughtVectors v) \<rparr>;
          v2 = v1\<lparr> conceptsExtracted := Some (extractConcepts v1) \<rparr>;
          check = checkContradictions v2 history;
          v3 = (if hasContradictions check then v2\<lparr> contradictions := Some (details check) \<rparr>
                else v2);
          v4 = v3\<lparr> reflectionPrompts := Some (generateReflectionPrompts history v3) \<rparr>
      in v4\<lparr> assumptions := Some (identifyAssumptions v4) \<rparr>)"

text \<open>
  Alignment with the profile and recommendations, when the prompt context holds a profile;
  then \<open>totalThoughts\<close> is raised to the recommended thought count if that is larger.
\<close>

definition align ::
    "(PromptMetadata \<Rightarrow> number \<Rightarrow> number \<Rightarrow> Phase option \<Rightarrow> 'r)
     \<Rightarrow> PromptContext \<Rightarrow> 'r ThoughtData \<Rightarrow> 'r ThoughtData" where
  "align rules ctx v =
     (case metadata ctx of
        None \<Rightarrow> v
      | Some promptMetadata \<Rightarrow>
          let alignmentData = analyzeThoughtAlignment (thought v) promptMetadata;
              v1 = v\<lparr> promptAlignment := Some (dataPromptAlignment alignmentData),
                     promptRelevance := Some (dataPromptRelevance alignmentData),
                     driftWarning := dataDriftWarning alignmentData,
                     suggestedCorrections := dataSuggestedCorrections alignmentData \<rparr>;
              recommendations = generateRecommendations rules promptMetadata
                                  (thoughtNumber v1) (totalThoughts v1) (phase v1);
              v2 = v1\<lparr> intelligenceRecommendations := Some recommendations \<rparr>;
              recommended = recommendedThoughtCount (complexityEstimation recommendations)
          in if recommended > totalThoughts v2 then v2\<lparr> totalThoughts := recommended \<rparr> else v2)"

text \<open>Everything \<open>processThought\<close> computes for the thought before it is appended.\<close>

definition prepare ::
    "(PromptMetadata \<Rightarrow> number \<Rightarrow> number \<Rightarrow> Phase option \<Rightarrow> 'r)
     \<Rightarrow> 'r Server \<Rightarrow> 'r ThoughtData \<Rightarrow> 'r ThoughtData" where
  "prepare rules s v =
     align rules (promptContext s) (enrich (thoughtHistory s) (setDefaultPhase (adjustTotalThoughts v)))"

text \<open>\<open>this.thoughtHistory.push(validatedInput)\<close>.\<close>

definition appendThought :: "'r Server \<Rightarrow> 'r ThoughtData \<Rightarrow> 'r Server" where
  "appendThought s v = s\<lparr> thoughtHistory := thoughtHistory s @ [v] \<rparr>"

text \<open>
  The thought is added to its branch if it names one. The table \<open>branches\<close> is a plain
  object: for a \<open>branchId\<close> that is an inherited name and no key of the table,
  \<open>!this.branches[branchId]\<close> is false, no array is created, and \<open>.push\<close> is not a
  function of the inherited value: a \<open>TypeError\<close>.
\<close>

definition addToBranch :: "'r Server \<Rightarrow> 'r ThoughtData \<Rightarrow> exception + 'r Server" where
  "addToBranch s v =
     (if truthyNumber (branchFromThought v) \<and> truthyString (branchId v) then
        (let name = (case branchId v of Some n \<Rightarrow> n | None \<Rightarrow> [])
         in if inherited (branches s) name then Inl TypeError
            else Inr (s\<lparr> branches :=
                            setKey name (\<lambda>old. (case old of None \<Rightarrow> [] | Some b \<Rightarrow> b) @ [v])
                              (branches s) \<rparr>))
      else Inr s)"

definition emptyStats :: ToolUsageStats where
  "emptyStats = \<lparr> usageCount = 0, thoughtsUsedIn = [], phaseUsage = (\<lambda>p. 0) \<rparr>"

definition useTool :: "'r ThoughtData \<Rightarrow> ToolUsageStats option \<Rightarrow> ToolUsageStats" where
  "useTool v old =
     (let stats = (case old of None \<Rightarrow> emptyStats | Some st \<Rightarrow> st)
      in \<lparr> usageCount = usageCount stats + 1,
           thoughtsUsedIn = thoughtsUsedIn stats @ [thoughtNumber v],
           phaseUsage = (case phase v of
                           None \<Rightarrow> phaseUsage stats
                         | Some p \<Rightarrow> (phaseUsage stats)(p := phaseUsage stats p + 1)) \<rparr>)"

text \<open>
  The loop of \<open>trackToolUsage\<close> over the tools of the thought. For a tool whose name is
  inherited and no key of the statistics, no entry is created,
  \<open>this.toolUsageStats[tool].thoughtsUsedIn\<close> is undefined and \<open>.push\<close> throws a
  \<open>TypeError\<close>; the tools before it in the list are counted by then.
\<close>

fun trackTools ::
    "'r ThoughtData \<Rightarrow> (string \<times> ToolUsageStats) list \<Rightarrow> string list
     \<Rightarrow> exception option \<times> (string \<times> ToolUsageStats) list" where
  "trackTools v stats [] = (None, stats)"
| "trackTools v stats (tool # tools) =
     (if inherited stats tool then (Some TypeError, stats)
      else trackTools v (setKey tool (useTool v) stats) tools)"

definition trackToolUsage :: "'r Server \<Rightarrow> 'r ThoughtData \<Rightarrow> exception option \<times> 'r Server" where
  "trackToolUsage s v =
     (case toolsUsed v of
        None \<Rightarrow> (None, s)
      | Some tools \<Rightarrow>
          (case trackTools v (toolUsageStats s) tools of
             (thrown, stats) \<Rightarrow> (thrown, s\<lparr> toolUsageStats := stats \<rparr>)))"

subsection \<open>The visualisations\<close>

text \<open>
  \<open>GraphRenderer.generateDependencyGraph\<close> groups the thoughts of the history by
  \<open>branchId\<close> in a plain object that starts empty (\<open>groupThoughtsByBranch\<close>). A thought
  whose \<open>branchId\<close> is an inherited name finds the inherited value, no array is created
  for it, and \<open>.push\<close> throws a \<open>TypeError\<close>. The concept map, the timeline and the
  alignment view do not throw.
\<close>

definition groupThoughtsByBranchThrows :: "'r ThoughtData list \<Rightarrow> bool" where
  "groupThoughtsByBranchThrows thoughts =
     list_ex (\<lambda>t. case branchId t of Some name \<Rightarrow> name \<in> set prototypeNames | None \<Rightarrow> False)
       thoughts"

text \<open>
  \<open>GraphRenderer.calculateOverallProgress\<close>, called by \<open>generatePromptProgressView\<close> with
  a history that is not empty. The latest thought is the first one with the largest
  thought number.
\<close>

definition latestThought :: "'r ThoughtData list \<Rightarrow> 'r ThoughtData" where
  "latestThought thoughts =
     foldl (\<lambda>latest current. if thoughtNumber current > thoughtNumber latest then current else latest)
       (hd thoughts) thoughts"

text \<open>\<open>Math.min(100, (thoughtNumber / totalThoughts) * 100)\<close>.\<close>

definition thoughtProgress :: "'r ThoughtData \<Rightarrow> extnumber" where
  "thoughtProgress t =
     (if totalThoughts t \<noteq> 0 then Finite (min 100 (thoughtNumber t / totalThoughts t * 100))
      else if thoughtNumber t > 0 then Finite 100
      else if thoughtNumber t < 0 then MinusInfinity
      else NaN)"

definition averageAlignment :: "'r ThoughtData list \<Rightarrow> number" where
  "averageAlignment thoughts =
     (let alignmentScores = concat (map (\<lambda>t. case promptAlignment t of Some a \<Rightarrow> [a] | None \<Rightarrow> [])
                                      thoughts)
      in if length alignmentScores > 0
         then sum_list alignmentScores / real (length alignmentScores)
         else 5)"

text \<open>A thought is relevant to goal \<open>index\<close> if its relevance to that goal is above 0.5.\<close>

definition relevantToGoal :: "nat \<Rightarrow> 'r ThoughtData \<Rightarrow> bool" where
  "relevantToGoal index t =
     (case promptRelevance t of
        None \<Rightarrow> False
      | Some scores \<Rightarrow>
          (case map_of scores (''goal_'' @ showNat index) of
             None \<Rightarrow> False
           | Some x \<Rightarrow> x > 0.5))"

text \<open>The share of goals with a relevant thought, in percent; \<open>0/0\<close> without goals.\<close>

definition goalCoverage :: "'r ThoughtData list \<Rightarrow> PromptMetadata \<Rightarrow> extnumber" where
  "goalCoverage thoughts promptMetadata =
     (if goals promptMetadata = [] then NaN
      else Finite (real (length (filter (\<lambda>index. list_ex (relevantToGoal index) thoughts)
                                   [0..<length (goals promptMetadata)]))
                   / real (length (goals promptMetadata)) * 100))"

definition phaseWeight :: "Phase \<Rightarrow> number" where
  "phaseWeight p =
     (case p of Planning \<Rightarrow> 0.1 | Analysis \<Rightarrow> 0.3 | Execution \<Rightarrow> 0.5 | Verification \<Rightarrow> 0.9)"

definition rendererOverallProgress :: "'r ThoughtData list \<Rightarrow> PromptMetadata \<Rightarrow> extnumber" where
  "rendererOverallProgress thoughts promptMetadata =
     (let latest = latestThought thoughts;
          avgAlignment = averageAlignment thoughts;
          latestPhase = (case phase latest of Some p \<Rightarrow> p | None \<Rightarrow> Execution);
          phaseProgress = phaseWeight latestPhase * 100
      in case (thoughtProgress latest, goalCoverage thoughts promptMetadata) of
           (Finite progress, Finite coverage) \<Rightarrow>
             Finite (of_int (Math_round (progress * 0.3 + avgAlignment * 10 * 0.3
                                         + coverage * 0.3 + phaseProgress * 0.1)))
         | (MinusInfinity, Finite coverage) \<Rightarrow> MinusInfinity
         | _ \<Rightarrow> NaN)"

text \<open>
  The bar of a percentage on a given width:
  \<open>'#'.repeat(filled) + '.'.repeat(width - filled)\<close> with
  \<open>filled = Math.floor(width * (percentage / 100))\<close>.
\<close>

definition barThrows :: "nat \<Rightarrow> extnumber \<Rightarrow> bool" where
  "barThrows width percentage =
     (case percentage of
        Finite p \<Rightarrow> repeatThrows (Finite (of_int \<lfloor>real width * (p / 100)\<rfloor>))
                    \<or> repeatThrows (Finite (real width - of_int \<lfloor>real width * (p / 100)\<rfloor>))
      | NaN \<Rightarrow> False
      | MinusInfinity \<Rightarrow> True)"

text \<open>
  \<open>generatePromptProgressView\<close> draws one bar of width 20 per goal, for a percentage
  between 0 and 100 that is computed from a count, and then the bar of width 30 of the
  overall progress: only that one can throw.
\<close>

definition generatePromptProgressViewThrows ::
    "'r ThoughtData list \<Rightarrow> PromptMetadata \<Rightarrow> bool" where
  "generatePromptProgressViewThrows thoughts promptMetadata =
     barThrows 30 (rendererOverallProgress thoughts promptMetadata)"

text \<open>\<open>createProgressBar\<close>: a bar of width 50.\<close>

definition createProgressBarThrows :: "number \<Rightarrow> bool" where
  "createProgressBarThrows percentage = barThrows 50 (Finite percentage)"

text \<open>
  The visualisations in the order of \<open>processThought\<close>, for the state that holds the new
  thought: the dependency graph, the concept map and the timeline; the two prompt views if
  the prompt context holds a profile; the progress bar of the new thought. The result is
  the exception of the first one that throws.
\<close>

definition visualize :: "'r Server \<Rightarrow> 'r ThoughtData \<Rightarrow> exception option" where
  "visualize s v =
     (if groupThoughtsByBranchThrows (thoughtHistory s) then Some TypeError
      else if (case metadata (promptContext s) of
                 Some promptMetadata \<Rightarrow>
                   generatePromptProgressViewThrows (thoughtHistory s) promptMetadata
               | None \<Rightarrow> False)
      then Some RangeError
      else if createProgressBarThrows (thoughtNumber v / totalThoughts v * 100)
      then Some RangeError
      else None)"

subsection \<open>The response\<close>

text \<open>\<open>SequentialThinkingServer.estimateComplexity\<close>.\<close>

definition estimateComplexityOfSession :: "'r Server \<Rightarrow> Complexity" where
  "estimateComplexityOfSession s =
     (let thoughtCount = length (thoughtHistory s);
          revisionCount = length (filter (\<lambda>t. truthyBool (isRevision t)) (thoughtHistory s));
          branchCount = length (branches s)
      in if thoughtCount > 10 \<or> branchCount > 2 then Complex
         else if thoughtCount > 5 \<or> revisionCount > 1 \<or> branchCount > 0 then Medium
         else Simple)"

definition suggestNextPhase :: "'r ThoughtData \<Rightarrow> Phase" where
  "suggestNextPhase currentThought =
     (let progress = thoughtNumber currentThought / totalThoughts currentThought
      in if phase currentThought = Some Planning \<and> progress > 0.2 then Analysis
         else if phase currentThought = Some Analysis \<and> progress > 0.4 then Execution
         else if phase currentThought = Some Execution \<and> progress > 0.8 then Verification
         else (case phase currentThought of Some p \<Rightarrow> p | None \<Rightarrow> Execution))"

definition getRecentThoughts :: "'r Server \<Rightarrow> nat \<Rightarrow> (number \<times> string) list" where
  "getRecentThoughts s n =
     map (\<lambda>t. (thoughtNumber t,
                if length (thought t) > 50 then take 50 (thought t) @ ''...'' else thought t))
       (drop (length (thoughtHistory s) - n) (thoughtHistory s))"

text \<open>
  The fields of the JSON reply. The percentage is the number in front of the percent sign.
  The strategic guidance and the prompt-progress block are texts and figures derived from
  the state without changing it and without a call that can throw; they are not part of
  the record.

  A response is the reply or the object \<open>{error, status: 'failed'}\<close> of the \<open>catch\<close>
  block. \<open>Failed message\<close> carries the message of an \<open>Error\<close> that the code itself throws;
  \<open>Thrown e\<close> stands for the same object with the text that the engine gives to a built-in
  exception \<open>e\<close> of a library call.
\<close>

record 'r Reply =
  replyThoughtNumber :: number
  replyTotalThoughts :: number
  replyNextThoughtNeeded :: bool
  replyBranches :: "string list"
  replyThoughtHistoryLength :: nat
  replyAvailableTools :: "string list"
  replyPhase :: "Phase option"
  replyComplexity :: Complexity
  replyProgress :: int
  replyRecentThoughts :: "(number \<times> string) list"
  replySuggestedNextPhase :: Phase
  replyThoughtQuality :: "Quality option"
  replyToolUsageStats :: "(string \<times> ToolUsageStats) list"
  replyKeywords :: "string list option"
  replyInsightValue :: "number option"
  replyConcepts :: "string list option"
  replyContradictions :: "(number \<times> string) list option"
  replyAssumptions :: "string list option"
  replyReflectionPrompts :: "string list option"
  replyPromptAlignment :: "number option"
  replyPromptRelevance :: "(string \<times> number) list option"
  replyDriftWarning :: "string option"
  replySuggestedCorrections :: "string list option"
  replyIntelligenceRecommendations :: "'r IntelligenceMaximizationRecommendations option"

datatype 'r Response = Failed string | Thrown exception | Succeeded "'r Reply"

definition reply :: "'r Server \<Rightarrow> 'r ThoughtData \<Rightarrow> 'r Reply" where
  "reply s v =
     \<lparr> replyThoughtNumber = thoughtNumber v,
       replyTotalThoughts = totalThoughts v,
       replyNextThoughtNeeded = nextThoughtNeeded v,
       replyBranches = map fst (ownKeysOrder (branches s)),
       replyThoughtHistoryLength = length (thoughtHistory s),
       replyAvailableTools = availableTools s,
       replyPhase = phase v,
       replyComplexity = (case thoughtComplexity v of
                            Some c \<Rightarrow> c | None \<Rightarrow> estimateComplexityOfSession s),
       replyProgress = Math_round (thoughtNumber v / totalThoughts v * 100),
       replyRecentThoughts = getRecentThoughts s 3,
       replySuggestedNextPhase = suggestNextPhase v,
       replyThoughtQuality = quality v,
       replyToolUsageStats = toolUsageStats s,
       replyKeywords = thoughtKeywords v,
       replyInsightValue = insightValue v,
       replyConcepts = conceptsExtracted v,
       replyContradictions = contradictions v,
       replyAssumptions = assumptions v,
       replyReflectionPrompts = reflectionPrompts v,
       replyPromptAlignment = promptAlignment v,
       replyPromptRelevance = promptRelevance v,
       replyDriftWarning = driftWarning v,
       replySuggestedCorrections = suggestedCorrections v,
       replyIntelligenceRecommendations = intelligenceRecommendations v \<rparr>"

subsection \<open>\<open>processThought\<close> and the tool-call handler\<close>

text \<open>
  What \<open>processThought\<close> does with the thought once its fields are computed: it is
  appended to the history and to its branch, the visualisations are drawn, the tool usage
  is counted and the reply is built. All of this is inside the \<open>try\<close> block: an exception
  ends the call with the failure response and leaves the state as it is at that point,
  with the thought in the history.
\<close>

definition recordThought :: "'r Server \<Rightarrow> 'r ThoughtData \<Rightarrow> 'r Response \<times> 'r Server" where
  "recordThought s v =
     (let s1 = appendThought s v
      in case addToBranch s1 v of
           Inl e \<Rightarrow> (Thrown e, s1)
         | Inr s2 \<Rightarrow>
             (case visualize s2 v of
                Some e \<Rightarrow> (Thrown e, s2)
              | None \<Rightarrow>
                  (case trackToolUsage s2 v of
                     (Some e, s3) \<Rightarrow> (Thrown e, s3)
                   | (None, s3) \<Rightarrow> (Succeeded (reply s3 v), s3))))"

text \<open>
  \<open>processThought\<close> returns the response and the state after the call. A validation error
  is caught before anything is written and becomes the failure response.
\<close>

definition processThought ::
    "(PromptMetadata \<Rightarrow> number \<Rightarrow> number \<Rightarrow> Phase option \<Rightarrow> 'r)
     \<Rightarrow> 'r Server \<Rightarrow> SubmittedThought \<Rightarrow> 'r Response \<times> 'r Server" where
  "processThought rules s input =
     (case validateThoughtData input of
        Inl message \<Rightarrow> (Failed message, s)
      | Inr validatedInput \<Rightarrow> recordThought s (prepare rules s validatedInput))"

text \<open>
  The handler of a tool call named \<open>sequentialthinking\<close>: a submission whose
  \<open>thoughtNumber\<close> is the number 1 initialises the prompt context with its \<open>thought\<close>
  field, then the submission is processed. \<open>None\<close> is the rejected call, when the
  initialisation throws.
\<close>

definition handleCallTool ::
    "(PromptMetadata \<Rightarrow> number \<Rightarrow> number \<Rightarrow> Phase option \<Rightarrow> 'r)
     \<Rightarrow> 'r Server \<Rightarrow> SubmittedThought \<Rightarrow> 'r Response option \<times> 'r Server" where
  "handleCallTool rules s thoughtData =
     (if thoughtNumberIn thoughtData = JNum 1 then
        (case initializePromptContext s (thoughtIn thoughtData) of
           Inl s1 \<Rightarrow> (None, s1)
         | Inr s1 \<Rightarrow> (case processThought rules s1 thoughtData of (r, s2) \<Rightarrow> (Some r, s2)))
      else (case processThought rules s thoughtData of (r, s2) \<Rightarrow> (Some r, s2)))"

text \<open>A session: the handler run over a sequence of submissions, with the responses.\<close>

fun runSession ::
    "(PromptMetadata \<Rightarrow> number \<Rightarrow> number \<Rightarrow> Phase option \<Rightarrow> 'r)
     \<Rightarrow> 'r Server \<Rightarrow> SubmittedThought list \<Rightarrow> 'r Response option list \<times> 'r Server" where
  "runSession rules s [] = ([], s)"
| "runSession rules s (input # inputs) =
     (case handleCallTool rules s input of
        (r, s1) \<Rightarrow> (case runSession rules s1 inputs of (rs, s2) \<Rightarrow> (r # rs, s2)))"

section \<open>Concrete inputs\<close>

text \<open>A submission with the four required fields only.\<close>

definition submission :: "string \<Rightarrow> number \<Rightarrow> number \<Rightarrow> SubmittedThought" where
  "submission text n totalCount =
     \<lparr> thoughtIn = JStr text, thoughtNumberIn = JNum n, totalThoughtsIn = JNum totalCount,
       nextThoughtNeededIn = JBool True,
       isRevisionIn = None, revisesThoughtIn = None, branchFromThoughtIn = None,
       branchIdIn = None, needsMoreThoughtsIn = None, phaseIn = None, dependenciesIn = None,
       toolsUsedIn = None, complexityIn = None, statusIn = None, qualityIn = None,
       keywordsIn = None, insightValueIn = None, classificationIn = None,
       confidenceScoreIn = None, evidenceStrengthIn = None \<rparr>"

text \<open>A thought record with a text and a number and no optional field.\<close>

definition plainThought :: "string \<Rightarrow> number \<Rightarrow> unit ThoughtData" where
  "plainThought text n =
     \<lparr> thought = text, thoughtNumber = n, totalThoughts = n,
       isRevision = None, revisesThought = None, branchFromThought = None, branchId = None,
       needsMoreThoughts = None, nextThoughtNeeded = True, phase = None, dependencies = None,
       toolsUsed = None, thoughtComplexity = None, status = None, quality = None,
       thoughtKeywords = None, insightValue = None, classification = None,
       confidenceScore = None, evidenceStrength = None, assumptions = None, vector = None,
       conceptsExtracted = None, contradictions = None, reflectionPrompts = None,
       promptAlignment = None, promptRelevance = None, driftWarning = None,
       suggestedCorrections = None, intelligenceRecommendations = None \<rparr>"

text \<open>
  A history of thoughts with positive numbers, no branch and alignment scores between 0 and
  10, as submissions with the required fields only produce it.
\<close>

definition plainHistory :: "'r ThoughtData list \<Rightarrow> bool" where
  "plainHistory thoughts =
     list_all (\<lambda>t. branchId t = None \<and> 0 < thoughtNumber t \<and> 0 < totalThoughts t
                    \<and> (case promptAlignment t of None \<Rightarrow> True | Some a \<Rightarrow> 0 \<le> a \<and> a \<le> 10))
       thoughts"

text \<open>The rule-based lists left empty.\<close>

definition noRules :: "PromptMetadata \<Rightarrow> number \<Rightarrow> number \<Rightarrow> Phase option \<Rightarrow> unit" where
  "noRules m n totalCount p = ()"

text \<open>The \<open>totalThoughts\<close> values that the successful responses of a session report.\<close>

fun reportedTotals :: "'r Response option list \<Rightarrow> number list" where
  "reportedTotals [] = []"
| "reportedTotals (Some (Succeeded r) # rs) = replyTotalThoughts r # reportedTotals rs"
| "reportedTotals (other # rs) = reportedTotals rs"

section \<open>Scenario A: the profile of a concrete prompt\<close>

lemma determineTaskType_scenarioA: "determineTaskType scenarioA = Creative"
  by code_simp

lemma determinePriority_scenarioA: "determinePriority scenarioA = High"
  by code_simp

lemma extractConstraints_scenarioA:
  "extractConstraints scenarioA = [''I must write a Python script that parses CSV files'']"
  by code_simp

text \<open>
  The prompt of scenario A contains the creative indicator \<open>write\<close> and none of the
  technical indicators (\<open>code\<close>, \<open>program\<close>, \<open>implement\<close>, \<open>function\<close>, \<open>algorithm\<close>,
  \<open>debug\<close>, \<open>fix\<close>), so the creative count 1 is the strict maximum and the task type
  \<open>technical\<close> of claim C6 is not the one the profile holds.
\<close>

theorem scenarioA_not_technical:
  "\<not> (taskType (analyzePrompt scenarioA) = Technical
      \<and> priority (analyzePrompt scenarioA) = High
      \<and> constraints (analyzePrompt scenarioA) \<noteq> [])"
  by (simp add: analyzePrompt_def determineTaskType_scenarioA)

text \<open>
  C6 (amended). For the first thought text
  \<open>I must write a Python script that parses CSV files. Urgent.\<close> the derived prompt profile
  has task type creative, priority high, and exactly one constraint, the sentence
  \<open>I must write a Python script that parses CSV files\<close>.
\<close>

theorem scenarioA_profile:
  "taskType (analyzePrompt scenarioA) = Creative
   \<and> priority (analyzePrompt scenarioA) = High
   \<and> constraints (analyzePrompt scenarioA)
       = [''I must write a Python script that parses CSV files'']"
  by (simp add: analyzePrompt_def determineTaskType_scenarioA determinePriority_scenarioA
      extractConstraints_scenarioA)

section \<open>Bounds of the alignment score\<close>

lemma goalMatchPercentage_bounds:
  "0 \<le> goalMatchPercentage thoughtLower goal \<and> goalMatchPercentage thoughtLower goal \<le> 1"
proof -
  have "length (filter (\<lambda>keyword. js_includes thoughtLower keyword) (longWords goal))
          \<le> length (longWords goal)"
    by (rule length_filter_le)
  then show ?thesis
    by (simp add: goalMatchPercentage_def Let_def divide_le_eq)
qed

lemma foldl_max_bounds:
  assumes "\<And>g. lo \<le> f g \<and> f g \<le> hi" "lo \<le> (b :: real) \<and> b \<le> hi"
  shows "lo \<le> foldl (\<lambda>best g. max best (f g)) b gs \<and> foldl (\<lambda>best g. max best (f g)) b gs \<le> hi"
  using assms(2)
proof (induction gs arbitrary: b)
  case Nil
  then show ?case by simp
next
  case (Cons g gs)
  have "lo \<le> max b (f g) \<and> max b (f g) \<le> hi"
    using Cons.prems assms(1) [of g] by auto
  from Cons.IH [OF this] show ?case by simp
qed

lemma calculateAlignmentScore_bounds:
  "1 \<le> calculateAlignmentScore thoughtText m \<and> calculateAlignmentScore thoughtText m \<le> 9"
proof -
  define keywordScore where
    "keywordScore = min 10 (real (length (filter (\<lambda>keyword. js_includes (toLowerCase thoughtText) keyword)
                                   (promptKeywords m))) * 2)"
  define goalScore where
    "goalScore = foldl (\<lambda>best goal. max best (goalMatchPercentage (toLowerCase thoughtText) goal * 10))
              0 (goals m)"
  have k: "0 \<le> keywordScore" "keywordScore \<le> 10" by (simp_all add: keywordScore_def)
  have "0 \<le> goalScore \<and> goalScore \<le> 10"
    unfolding goalScore_def
  proof (rule foldl_max_bounds)
    fix g
    show "0 \<le> goalMatchPercentage (toLowerCase thoughtText) g * 10
          \<and> goalMatchPercentage (toLowerCase thoughtText) g * 10 \<le> 10"
      using goalMatchPercentage_bounds [of "toLowerCase thoughtText" g] by simp
  qed simp
  then have G: "0 \<le> goalScore" "goalScore \<le> 10" by simp_all
  have s: "calculateAlignmentScore thoughtText m
             = \<lfloor>((5 + keywordScore) / 2 + goalScore) / 2 + 1 / 2\<rfloor>"
    by (simp add: calculateAlignmentScore_def Let_def Math_round_def keywordScore_def
        goalScore_def)
  have lo: "1 \<le> ((5 + keywordScore) / 2 + goalScore) / 2 + 1 / 2"
    using k G by (simp add: field_simps)
  have hi: "((5 + keywordScore) / 2 + goalScore) / 2 + 1 / 2 < 10"
    using k G by (simp add: field_simps)
  have "1 \<le> \<lfloor>((5 + keywordScore) / 2 + goalScore) / 2 + 1 / 2\<rfloor>"
    using lo by simp
  moreover have "\<lfloor>((5 + keywordScore) / 2 + goalScore) / 2 + 1 / 2\<rfloor> < 10"
    using hi by simp
  ultimately show ?thesis unfolding s by linarith
qed


section \<open>The stages of a submission\<close>

lemma validate_failure:
  "(\<nexists>x. thoughtIn input = JStr x \<and> x \<noteq> []) \<or> \<not> isNumber (thoughtNumberIn input)
    \<or> \<not> isNumber (totalThoughtsIn input) \<or> \<not> isBoolean (nextThoughtNeededIn input)
   \<Longrightarrow> \<exists>message \<in> set [''Invalid thought: must be a string'',
                          ''Invalid thoughtNumber: must be a number'',
                          ''Invalid totalThoughts: must be a number'',
                          ''Invalid nextThoughtNeeded: must be a boolean''].
         (validateThoughtData input :: string + 'r ThoughtData) = Inl message"
  by (auto simp: validateThoughtData_def falsy_def isString_def split: jsval.splits)

lemma validate_phase_update:
  "(validateThoughtData input :: string + 'r ThoughtData) = Inr v \<Longrightarrow>
   (validateThoughtData (input\<lparr> phaseIn := p \<rparr>) :: string + 'r ThoughtData)
     = Inr (v\<lparr> phase := p \<rparr>)"
  by (auto simp: validateThoughtData_def split: if_splits)

lemma validate_fields:
  "(validateThoughtData input :: string + 'r ThoughtData) = Inr v \<Longrightarrow>
   thoughtIn input = JStr (thought v) \<and> thoughtNumberIn input = JNum (thoughtNumber v)
   \<and> totalThoughtsIn input = JNum (totalThoughts v) \<and> phase v = phaseIn input
   \<and> thought v \<noteq> [] \<and> thoughtNumber v \<noteq> 0 \<and> totalThoughts v \<noteq> 0 \<and> vector v = None"
  by (auto simp: validateThoughtData_def falsy_def isString_def isNumber_def stringOf_def
      numberOf_def split: if_splits jsval.splits)

lemma validate_submission:
  "text \<noteq> [] \<Longrightarrow> n \<noteq> 0 \<Longrightarrow> k \<noteq> 0 \<Longrightarrow>
   \<exists>v. (validateThoughtData (submission text n k) :: string + 'r ThoughtData) = Inr v
       \<and> thought v = text \<and> thoughtNumber v = n \<and> totalThoughts v = k
       \<and> branchId v = None \<and> branchFromThought v = None \<and> toolsUsed v = None
       \<and> promptAlignment v = None \<and> phase v = None"
  by (simp add: validateThoughtData_def submission_def falsy_def isString_def isNumber_def
      isBoolean_def stringOf_def numberOf_def)

lemma setDefaultPhase_adjust:
  "phase v = None \<Longrightarrow>
   setDefaultPhase (adjustTotalThoughts v)
   = setDefaultPhase (adjustTotalThoughts
       (v\<lparr> phase := Some (if thoughtNumber v = 1 then Planning else Execution) \<rparr>))"
  by (simp add: setDefaultPhase_def adjustTotalThoughts_def)

lemma phase_setDefaultPhase:
  "phase (setDefaultPhase v)
   = Some (case phase v of Some p \<Rightarrow> p
           | None \<Rightarrow> if thoughtNumber v = 1 then Planning else Execution)"
  by (simp add: setDefaultPhase_def split: option.splits)

lemma adjust_fields [simp]:
  "thoughtNumber (adjustTotalThoughts v) = thoughtNumber v"
  "phase (adjustTotalThoughts v) = phase v"
  "thought (adjustTotalThoughts v) = thought v"
  by (auto simp: adjustTotalThoughts_def)

lemma totalThoughts_adjust:
  "totalThoughts (adjustTotalThoughts v) = max (totalThoughts v) (thoughtNumber v)"
  by (auto simp: adjustTotalThoughts_def)

lemma setDefaultPhase_fields [simp]:
  "thoughtNumber (setDefaultPhase v) = thoughtNumber v"
  "totalThoughts (setDefaultPhase v) = totalThoughts v"
  "thought (setDefaultPhase v) = thought v"
  by (auto simp: setDefaultPhase_def)

lemma enrich_fields [simp]:
  "thoughtNumber (enrich h v) = thoughtNumber v"
  "totalThoughts (enrich h v) = totalThoughts v"
  "phase (enrich h v) = phase v"
  "thought (enrich h v) = thought v"
  "vector (enrich h v) = Some (buildThoughtVectors v)"
  "conceptsExtracted (enrich h v) \<noteq> None"
  "reflectionPrompts (enrich h v) \<noteq> None"
  "assumptions (enrich h v) \<noteq> None"
  "promptAlignment (enrich h v) = promptAlignment v"
  "driftWarning (enrich h v) = driftWarning v"
  by (simp_all add: enrich_def Let_def)

lemma align_fields [simp]:
  "thoughtNumber (align rules ctx v) = thoughtNumber v"
  "phase (align rules ctx v) = phase v"
  "thought (align rules ctx v) = thought v"
  "vector (align rules ctx v) = vector v"
  "conceptsExtracted (align rules ctx v) = conceptsExtracted v"
  "reflectionPrompts (align rules ctx v) = reflectionPrompts v"
  "assumptions (align rules ctx v) = assumptions v"
  "contradictions (align rules ctx v) = contradictions v"
  by (simp_all add: align_def Let_def split: option.splits)

lemma align_profile:
  "metadata ctx = Some m \<Longrightarrow>
   promptAlignment (align rules ctx v) = Some (real_of_int (calculateAlignmentScore (thought v) m))
   \<and> driftWarning (align rules ctx v) = dataDriftWarning (analyzeThoughtAlignment (thought v) m)
   \<and> intelligenceRecommendations (align rules ctx v) \<noteq> None"
  by (simp add: align_def Let_def analyzeThoughtAlignment_def)

lemma totalThoughts_align:
  "totalThoughts (align rules ctx v) =
     (case metadata ctx of None \<Rightarrow> totalThoughts v
      | Some m \<Rightarrow> max (totalThoughts v) (recommendedThoughtCount (estimateDetailedComplexity m)))"
  by (auto simp: align_def Let_def generateRecommendations_def split: option.splits)

lemma totalThoughts_prepare:
  "totalThoughts (prepare rules s v) =
     (case metadata (promptContext s) of
        None \<Rightarrow> max (totalThoughts v) (thoughtNumber v)
      | Some m \<Rightarrow> max (max (totalThoughts v) (thoughtNumber v))
                      (recommendedThoughtCount (estimateDetailedComplexity m)))"
  by (simp add: prepare_def totalThoughts_align totalThoughts_adjust split: option.splits)

lemma prepare_fields [simp]:
  "thoughtNumber (prepare rules s v) = thoughtNumber v"
  "thought (prepare rules s v) = thought v"
  "branchId (prepare rules s v) = branchId v"
  "branchFromThought (prepare rules s v) = branchFromThought v"
  "toolsUsed (prepare rules s v) = toolsUsed v"
  by (simp_all add: prepare_def align_def enrich_def setDefaultPhase_def adjustTotalThoughts_def
      Let_def split: option.splits)

lemma promptAlignment_prepare:
  "promptAlignment (prepare rules s v) =
     (case metadata (promptContext s) of
        None \<Rightarrow> promptAlignment v
      | Some m \<Rightarrow> Some (real_of_int (calculateAlignmentScore (thought v) m)))"
  by (simp add: prepare_def align_def enrich_def setDefaultPhase_def adjustTotalThoughts_def
      analyzeThoughtAlignment_def Let_def split: option.splits)

lemma thoughtNumber_le_prepare: "thoughtNumber v \<le> totalThoughts (prepare rules s v)"
  by (auto simp: totalThoughts_prepare le_max_iff_disj split: option.splits)

lemma appendThought_fields [simp]:
  "thoughtHistory (appendThought s v) = thoughtHistory s @ [v]"
  "promptContext (appendThought s v) = promptContext s"
  "availableTools (appendThought s v) = availableTools s"
  "toolUsageStats (appendThought s v) = toolUsageStats s"
  "branches (appendThought s v) = branches s"
  by (simp_all add: appendThought_def)

lemma addToBranch_fields:
  "addToBranch s v = Inr s' \<Longrightarrow>
   thoughtHistory s' = thoughtHistory s \<and> promptContext s' = promptContext s
   \<and> toolUsageStats s' = toolUsageStats s \<and> availableTools s' = availableTools s"
  by (auto simp: addToBranch_def Let_def split: if_splits)

lemma trackToolUsage_fields [simp]:
  "thoughtHistory (snd (trackToolUsage s v)) = thoughtHistory s"
  "branches (snd (trackToolUsage s v)) = branches s"
  "promptContext (snd (trackToolUsage s v)) = promptContext s"
  "availableTools (snd (trackToolUsage s v)) = availableTools s"
  by (simp_all add: trackToolUsage_def split: option.splits prod.splits)

text \<open>
  Whatever happens after the push, the history is the old one with the new thought at its
  end and the prompt context is untouched.
\<close>

lemma recordThought_cases:
  "(\<exists>e s'. recordThought s v = (Thrown e, s')
        \<and> thoughtHistory s' = thoughtHistory s @ [v] \<and> promptContext s' = promptContext s)
   \<or> (\<exists>s'. recordThought s v = (Succeeded (reply s' v), s')
        \<and> thoughtHistory s' = thoughtHistory s @ [v] \<and> promptContext s' = promptContext s)"
proof (cases "addToBranch (appendThought s v) v")
  case (Inl e)
  then show ?thesis by (simp add: recordThought_def Let_def)
next
  case (Inr s2)
  note s2 = addToBranch_fields [OF Inr]
  show ?thesis
  proof (cases "visualize s2 v")
    case (Some e)
    then show ?thesis using Inr s2 by (simp add: recordThought_def Let_def)
  next
    case None
    obtain thrown s3 where t: "trackToolUsage s2 v = (thrown, s3)"
      by (cases "trackToolUsage s2 v")
    have s3: "thoughtHistory s3 = thoughtHistory s2" "promptContext s3 = promptContext s2"
      using trackToolUsage_fields(1,3) [of s2 v] by (simp_all add: t)
    show ?thesis
      using Inr None t s2 s3 by (cases thrown) (simp_all add: recordThought_def Let_def)
  qed
qed

text \<open>A thought without branch and tools is recorded if no visualisation throws.\<close>

lemma recordThought_plain:
  assumes "branchId v = None" and "toolsUsed v = None"
    and "\<not> groupThoughtsByBranchThrows (thoughtHistory s @ [v])"
    and "\<And>m. metadata (promptContext s) = Some m \<Longrightarrow>
              \<not> generatePromptProgressViewThrows (thoughtHistory s @ [v]) m"
    and "\<not> createProgressBarThrows (thoughtNumber v / totalThoughts v * 100)"
  shows "recordThought s v = (Succeeded (reply (appendThought s v) v), appendThought s v)"
proof -
  have b: "addToBranch (appendThought s v) v = Inr (appendThought s v)"
    using assms(1) by (simp add: addToBranch_def truthyString_def)
  have vis: "visualize (appendThought s v) v = None"
    using assms(3,4,5) by (auto simp: visualize_def split: option.splits)
  have t: "trackToolUsage (appendThought s v) v = (None, appendThought s v)"
    using assms(2) by (simp add: trackToolUsage_def)
  show ?thesis by (simp add: recordThought_def Let_def b vis t)
qed

lemma processThought_valid:
  "(validateThoughtData input :: string + 'r ThoughtData) = Inr v \<Longrightarrow>
   processThought rules s input = recordThought s (prepare rules s v)"
  by (simp add: processThought_def)

lemma processThought_cases:
  "(\<exists>message. processThought rules s input = (Failed message, s)
      \<and> (validateThoughtData input :: string + 'r ThoughtData) = Inl message)
   \<or> (\<exists>v e s'. (validateThoughtData input :: string + 'r ThoughtData) = Inr v
        \<and> processThought rules s input = (Thrown e, s')
        \<and> thoughtHistory s' = thoughtHistory s @ [prepare rules s v]
        \<and> promptContext s' = promptContext s)
   \<or> (\<exists>v s'. (validateThoughtData input :: string + 'r ThoughtData) = Inr v
        \<and> processThought rules s input = (Succeeded (reply s' (prepare rules s v)), s')
        \<and> thoughtHistory s' = thoughtHistory s @ [prepare rules s v]
        \<and> promptContext s' = promptContext s)"
proof (cases "validateThoughtData input :: string + 'r ThoughtData")
  case (Inl message)
  then show ?thesis by (simp add: processThought_def)
next
  case (Inr v)
  from recordThought_cases [of s "prepare rules s v"] show ?thesis
    unfolding processThought_valid [OF Inr] using Inr by blast
qed

lemma processThought_succeeded:
  assumes "fst (processThought rules s input) = Succeeded r"
  shows "\<exists>v. (validateThoughtData input :: string + 'r ThoughtData) = Inr v
           \<and> (\<exists>s'. processThought rules s input = (Succeeded (reply s' (prepare rules s v)), s')
                \<and> r = reply s' (prepare rules s v)
                \<and> thoughtHistory s' = thoughtHistory s @ [prepare rules s v])"
  using processThought_cases [of rules s input] assms by auto

lemma processThought_promptContext:
  "promptContext (snd (processThought rules s input)) = promptContext s"
  using processThought_cases [of rules s input] by auto

lemma processThought_history:
  "(validateThoughtData input :: string + 'r ThoughtData) = Inr v \<Longrightarrow>
   thoughtHistory (snd (processThought rules s input)) = thoughtHistory s @ [prepare rules s v]"
  using processThought_cases [of rules s input] by auto

lemma processThought_reply_total:
  "(validateThoughtData input :: string + 'r ThoughtData) = Inr v \<Longrightarrow>
   fst (processThought rules s input) = Succeeded r \<Longrightarrow>
   replyTotalThoughts r = totalThoughts (prepare rules s v)"
  using processThought_cases [of rules s input] by (auto simp: reply_def)

section \<open>Visualisations that do not throw\<close>

lemma bar_in_range:
  assumes "0 \<le> p" and "p \<le> 100"
  shows "\<not> barThrows width (Finite p)"
proof -
  have "0 \<le> real width * (p / 100)" using assms by simp
  then have lo: "0 \<le> \<lfloor>real width * (p / 100)\<rfloor>" by simp
  have "p / 100 \<le> 1" using assms by simp
  then have "real width * (p / 100) \<le> real width * 1"
    by (intro mult_left_mono) simp_all
  then have "real width * (p / 100) \<le> real width" by simp
  then have "\<lfloor>real width * (p / 100)\<rfloor> \<le> \<lfloor>real width\<rfloor>" by (rule floor_mono)
  then have hi: "of_int \<lfloor>real width * (p / 100)\<rfloor> \<le> real width"
    by (metis floor_of_nat of_int_le_iff of_int_of_nat_eq)
  show ?thesis using lo hi by (simp add: barThrows_def repeatThrows_def)
qed

lemma createProgressBar_in_range:
  assumes "0 < n" and "n \<le> k"
  shows "\<not> createProgressBarThrows (n / k * 100)"
proof -
  have k: "0 < k" using assms by linarith
  have "0 \<le> n / k * 100" using assms k by simp
  moreover have "n / k * 100 \<le> 100" using assms k by (simp add: field_simps)
  ultimately show ?thesis unfolding createProgressBarThrows_def by (rule bar_in_range)
qed

lemma foldl_choice: "(\<And>a x. f a x = a \<or> f a x = x) \<Longrightarrow> foldl f a xs \<in> insert a (set xs)"
proof (induction xs arbitrary: a)
  case Nil
  then show ?case by simp
next
  case (Cons x xs)
  from Cons.prems have "f a x = a \<or> f a x = x" by blast
  moreover from Cons.IH [OF Cons.prems] have "foldl f (f a x) xs \<in> insert (f a x) (set xs)" .
  ultimately show ?case by auto
qed

lemma latestThought_in: "thoughts \<noteq> [] \<Longrightarrow> latestThought thoughts \<in> set thoughts"
  unfolding latestThought_def
  using foldl_choice [of "\<lambda>latest current. if thoughtNumber current > thoughtNumber latest
                                             then current else latest" "hd thoughts" thoughts]
  by (cases thoughts) auto

lemma sum_list_between:
  "\<forall>x \<in> set xs. 0 \<le> x \<and> x \<le> (c :: real) \<Longrightarrow>
   0 \<le> sum_list xs \<and> sum_list xs \<le> c * real (length xs)"
  by (induction xs) (auto simp: algebra_simps)

lemma averageAlignment_bounds:
  assumes "plainHistory thoughts"
  shows "0 \<le> averageAlignment thoughts \<and> averageAlignment thoughts \<le> 10"
proof -
  define scores where
    "scores = concat (map (\<lambda>t. case promptAlignment t of Some a \<Rightarrow> [a] | None \<Rightarrow> []) thoughts)"
  have "\<forall>x \<in> set scores. 0 \<le> x \<and> x \<le> 10"
    using assms by (auto simp: scores_def plainHistory_def list_all_iff split: option.splits)
  from sum_list_between [OF this]
  have s: "0 \<le> sum_list scores" "sum_list scores \<le> 10 * real (length scores)" by simp_all
  show ?thesis
  proof (cases "scores = []")
    case True
    then show ?thesis by (simp add: averageAlignment_def Let_def scores_def [symmetric])
  next
    case False
    then have "0 < real (length scores)" by simp
    with s have "0 \<le> sum_list scores / real (length scores)"
      and "sum_list scores / real (length scores) \<le> 10"
      by (simp_all add: field_simps)
    then show ?thesis using False by (simp add: averageAlignment_def Let_def scores_def [symmetric])
  qed
qed

lemma goalCoverage_bounds:
  "goalCoverage thoughts m = NaN
   \<or> (\<exists>c. goalCoverage thoughts m = Finite c \<and> 0 \<le> c \<and> c \<le> 100)"
proof (cases "goals m = []")
  case True
  then show ?thesis by (simp add: goalCoverage_def)
next
  case False
  let ?n = "length (filter (\<lambda>index. list_ex (relevantToGoal index) thoughts) [0..<length (goals m)])"
  have "?n \<le> length [0..<length (goals m)]" by (rule length_filter_le)
  then have "real ?n \<le> real (length (goals m))" by simp
  moreover have "0 < real (length (goals m))" using False by simp
  ultimately have "real ?n / real (length (goals m)) * 100 \<le> 100"
    by (simp add: field_simps)
  moreover have "0 \<le> real ?n / real (length (goals m)) * 100" by simp
  ultimately show ?thesis using False by (simp add: goalCoverage_def)
qed

lemma phaseWeight_bounds: "1 \<le> phaseWeight p * 100 * 0.1 \<and> phaseWeight p * 100 * 0.1 \<le> 9"
  by (cases p) (simp_all add: phaseWeight_def)

lemma generatePromptProgressView_in_range:
  assumes "plainHistory thoughts" and "thoughts \<noteq> []"
  shows "\<not> generatePromptProgressViewThrows thoughts m"
proof -
  let ?latest = "latestThought thoughts"
  have "?latest \<in> set thoughts" by (rule latestThought_in [OF assms(2)])
  then have pos: "0 < thoughtNumber ?latest" "0 < totalThoughts ?latest"
    using assms(1) by (auto simp: plainHistory_def list_all_iff)
  define p where "p = min 100 (thoughtNumber ?latest / totalThoughts ?latest * 100)"
  have tp: "thoughtProgress ?latest = Finite p"
    using pos by (simp add: thoughtProgress_def p_def)
  have p: "0 \<le> p" "p \<le> 100" using pos by (simp_all add: p_def)
  define a where "a = averageAlignment thoughts"
  have a: "0 \<le> a" "a \<le> 10" using averageAlignment_bounds [OF assms(1)] by (simp_all add: a_def)
  define w where "w = phaseWeight (case phase ?latest of Some q \<Rightarrow> q | None \<Rightarrow> Execution) * 100 * 0.1"
  have w: "1 \<le> w" "w \<le> 9" using phaseWeight_bounds by (simp_all add: w_def)
  from goalCoverage_bounds [of thoughts m] show ?thesis
  proof
    assume "goalCoverage thoughts m = NaN"
    then show ?thesis
      by (simp add: generatePromptProgressViewThrows_def rendererOverallProgress_def Let_def tp
          barThrows_def)
  next
    assume "\<exists>c. goalCoverage thoughts m = Finite c \<and> 0 \<le> c \<and> c \<le> 100"
    then obtain c where c: "goalCoverage thoughts m = Finite c" "0 \<le> c" "c \<le> 100" by blast
    define total where "total = p * 0.3 + a * 10 * 0.3 + c * 0.3 + w"
    have total: "1 \<le> total" "total \<le> 99" using p a c(2,3) w by (simp_all add: total_def)
    have "1 \<le> Math_round total" using total(1) by (simp add: Math_round_def le_floor_iff)
    moreover have "Math_round total \<le> 99"
      using total(2) by (simp add: Math_round_def floor_le_iff)
    ultimately have r: "0 \<le> real_of_int (Math_round total)" "real_of_int (Math_round total) \<le> 100"
      by simp_all
    have "rendererOverallProgress thoughts m = Finite (of_int (Math_round total))"
      by (simp add: rendererOverallProgress_def Let_def tp c(1) total_def w_def a_def)
    then show ?thesis
      unfolding generatePromptProgressViewThrows_def using bar_in_range [OF r] by simp
  qed
qed

lemma plainHistory_no_branch: "plainHistory thoughts \<Longrightarrow> \<not> groupThoughtsByBranchThrows thoughts"
  by (auto simp: plainHistory_def groupThoughtsByBranchThrows_def list_all_iff list_ex_iff)

text \<open>
  A submission with the four required fields only, a text that is not empty and positive
  numbers is answered with a reply, in every state whose history is plain, and leaves a
  plain history.
\<close>

lemma processThought_submission:
  assumes "text \<noteq> []" and "0 < n" and "0 < k" and "plainHistory (thoughtHistory s)"
  shows "\<exists>v. (validateThoughtData (submission text n k) :: string + 'r ThoughtData) = Inr v
           \<and> thoughtNumber v = n \<and> totalThoughts v = k \<and> thought v = text
           \<and> processThought rules s (submission text n k)
               = (Succeeded (reply (appendThought s (prepare rules s v)) (prepare rules s v)),
                  appendThought s (prepare rules s v))
           \<and> plainHistory (thoughtHistory s @ [prepare rules s v])"
proof -
  from assms(2,3) have "n \<noteq> 0" "k \<noteq> 0" by simp_all
  from validate_submission [OF assms(1) this]
  obtain v :: "'r ThoughtData" where v: "validateThoughtData (submission text n k) = Inr v"
    and f: "thought v = text" "thoughtNumber v = n" "totalThoughts v = k" "branchId v = None"
      "toolsUsed v = None" "promptAlignment v = None"
    by blast
  let ?v = "prepare rules s v"
  have score: "0 \<le> real_of_int (calculateAlignmentScore text m)
                  \<and> real_of_int (calculateAlignmentScore text m) \<le> 10" for m
  proof -
    have "1 \<le> calculateAlignmentScore text m" and "calculateAlignmentScore text m \<le> 9"
      using calculateAlignmentScore_bounds [of "text" m] by simp_all
    then show ?thesis by simp
  qed
  have total: "0 < totalThoughts ?v"
    using thoughtNumber_le_prepare [of v rules s] assms(2) f(2) by simp
  have plain: "plainHistory (thoughtHistory s @ [?v])"
    using assms(2,4) f total score
    by (simp add: plainHistory_def promptAlignment_prepare split: option.splits)
  have bar: "\<not> createProgressBarThrows (thoughtNumber ?v / totalThoughts ?v * 100)"
    using createProgressBar_in_range [of n "totalThoughts ?v"] assms(2)
      thoughtNumber_le_prepare [of v rules s] f(2) by simp
  have "recordThought s ?v = (Succeeded (reply (appendThought s ?v) ?v), appendThought s ?v)"
  proof (rule recordThought_plain)
    show "branchId ?v = None" using f(4) by simp
    show "toolsUsed ?v = None" using f(5) by simp
    show "\<not> groupThoughtsByBranchThrows (thoughtHistory s @ [?v])"
      by (rule plainHistory_no_branch [OF plain])
    show "\<And>m. metadata (promptContext s) = Some m \<Longrightarrow>
              \<not> generatePromptProgressViewThrows (thoughtHistory s @ [?v]) m"
      by (rule generatePromptProgressView_in_range [OF plain]) simp
    show "\<not> createProgressBarThrows (thoughtNumber ?v / totalThoughts ?v * 100)" by (rule bar)
  qed
  then show ?thesis using v f plain by (auto simp: processThought_valid)
qed


lemma handleCallTool_promptContext:
  "promptContext (snd (handleCallTool rules s input)) =
     (if thoughtNumberIn input = JNum 1 then
        (case thoughtIn input of
           JStr text \<Rightarrow> \<lparr> metadata = Some (analyzePrompt text), contextPrompt = JStr text \<rparr>
         | JUndefined \<Rightarrow> (promptContext s)\<lparr> contextPrompt := JUndefined \<rparr>
         | JNull \<Rightarrow> (promptContext s)\<lparr> contextPrompt := JNull \<rparr>
         | JBool b \<Rightarrow> (promptContext s)\<lparr> contextPrompt := JBool b \<rparr>
         | JNum x \<Rightarrow> (promptContext s)\<lparr> contextPrompt := JNum x \<rparr>
         | JObject \<Rightarrow> (promptContext s)\<lparr> contextPrompt := JObject \<rparr>)
      else promptContext s)"
  by (auto simp: handleCallTool_def initializePromptContext_def processThought_promptContext
      split: jsval.splits prod.splits
      dest: arg_cong [where f = "\<lambda>p. promptContext (snd p)"])

lemma handleCallTool_submission:
  assumes "text \<noteq> []" and "0 < n" and "0 < k" and "plainHistory (thoughtHistory s)"
  shows "\<exists>r s'. handleCallTool rules s (submission text n k) = (Some (Succeeded r), s')
           \<and> replyTotalThoughts r =
               (case (if n = 1 then Some (analyzePrompt text) else metadata (promptContext s)) of
                  None \<Rightarrow> max k n
                | Some m \<Rightarrow> max (max k n) (recommendedThoughtCount (estimateDetailedComplexity m)))
           \<and> plainHistory (thoughtHistory s')"
proof -
  define s0 where
    "s0 = (if n = 1
           then s\<lparr> promptContext := \<lparr> metadata = Some (analyzePrompt text), contextPrompt = JStr text \<rparr> \<rparr>
           else s)"
  have plain: "plainHistory (thoughtHistory s0)" using assms(4) by (simp add: s0_def)
  from processThought_submission [OF assms(1,2,3) plain, of rules]
  obtain v :: "'a ThoughtData" where fields: "thoughtNumber v = n" "totalThoughts v = k"
    and run: "processThought rules s0 (submission text n k)
               = (Succeeded (reply (appendThought s0 (prepare rules s0 v)) (prepare rules s0 v)),
                  appendThought s0 (prepare rules s0 v))"
    and plain': "plainHistory (thoughtHistory s0 @ [prepare rules s0 v])"
    by blast
  define r where "r = reply (appendThought s0 (prepare rules s0 v)) (prepare rules s0 v)"
  define s' where "s' = appendThought s0 (prepare rules s0 v)"
  have h: "handleCallTool rules s (submission text n k)
             = (Some (fst (processThought rules s0 (submission text n k))),
                snd (processThought rules s0 (submission text n k)))"
    by (simp add: s0_def handleCallTool_def initializePromptContext_def submission_def
        split: prod.splits)
  have 1: "handleCallTool rules s (submission text n k) = (Some (Succeeded r), s')"
    unfolding h run by (simp add: r_def s'_def)
  have m: "metadata (promptContext s0)
             = (if n = 1 then Some (analyzePrompt text) else metadata (promptContext s))"
    by (simp add: s0_def)
  have "replyTotalThoughts r = totalThoughts (prepare rules s0 v)"
    by (simp add: r_def reply_def)
  then have 2: "replyTotalThoughts r =
               (case (if n = 1 then Some (analyzePrompt text) else metadata (promptContext s)) of
                  None \<Rightarrow> max k n
                | Some m \<Rightarrow> max (max k n) (recommendedThoughtCount (estimateDetailedComplexity m)))"
    by (simp only: totalThoughts_prepare m fields)
  have 3: "plainHistory (thoughtHistory s')" using plain' by (simp add: s'_def)
  from 1 2 3 show ?thesis by blast
qed

text \<open>
  Thought number \<open>-1\<close> of 3 passes validation and is stored; its progress is negative,
  the progress bar asks for a negative repeat count, and the call fails.
\<close>

lemma negative_thoughtNumber_throws:
  "fst (processThought noRules (newServer :: unit Server) (submission ''a'' (- 1) 3))
     = Thrown RangeError"
proof -
  from validate_submission [of "''a''" "- 1" 3]
  obtain v :: "unit ThoughtData" where v: "validateThoughtData (submission ''a'' (- 1) 3) = Inr v"
    and f: "thoughtNumber v = - 1" "totalThoughts v = 3" "branchId v = None"
    by auto
  let ?v = "prepare noRules (newServer :: unit Server) v"
  have n: "thoughtNumber ?v = - 1" using f(1) by simp
  have k: "totalThoughts ?v = 3"
    using f(1,2) by (simp add: totalThoughts_prepare newServer_def)
  have b: "branchId ?v = None" using f(3) by simp
  have "createProgressBarThrows (thoughtNumber ?v / totalThoughts ?v * 100)"
    unfolding n k by (simp add: createProgressBarThrows_def barThrows_def repeatThrows_def)
  then have "visualize (appendThought newServer ?v) ?v = Some RangeError"
    using b by (simp add: visualize_def groupThoughtsByBranchThrows_def newServer_def)
  moreover have "addToBranch (appendThought newServer ?v) ?v = Inr (appendThought newServer ?v)"
    using b by (simp add: addToBranch_def truthyString_def)
  ultimately show ?thesis
    by (simp add: processThought_valid [OF v] recordThought_def Let_def)
qed

section \<open>Validation failures, the default phase and the history\<close>

text \<open>
  C1. If a required field of the input is missing or mistyped (the thought is not a
  non-empty string, or \<open>thoughtNumber\<close> or \<open>totalThoughts\<close> is not a number, or
  \<open>nextThoughtNeeded\<close> is not a boolean), \<open>processThought\<close> returns the failure response with
  one of the four validation messages, and the state after the call (thought history,
  branch table, tool-usage statistics and all other fields) is the state before it.
\<close>

theorem processThought_invalid_input:
  assumes "(\<nexists>x. thoughtIn input = JStr x \<and> x \<noteq> []) \<or> \<not> isNumber (thoughtNumberIn input)
    \<or> \<not> isNumber (totalThoughtsIn input) \<or> \<not> isBoolean (nextThoughtNeededIn input)"
  shows "\<exists>message \<in> set [''Invalid thought: must be a string'',
                          ''Invalid thoughtNumber: must be a number'',
                          ''Invalid totalThoughts: must be a number'',
                          ''Invalid nextThoughtNeeded: must be a boolean''].
           processThought rules s input = (Failed message, s)"
proof -
  from validate_failure [OF assms]
  obtain message where "message \<in> set [''Invalid thought: must be a string'',
                          ''Invalid thoughtNumber: must be a number'',
                          ''Invalid totalThoughts: must be a number'',
                          ''Invalid nextThoughtNeeded: must be a boolean'']"
    and "(validateThoughtData input :: string + 'a ThoughtData) = Inl message"
    by blast
  then have "message \<in> set [''Invalid thought: must be a string'',
                          ''Invalid thoughtNumber: must be a number'',
                          ''Invalid totalThoughts: must be a number'',
                          ''Invalid nextThoughtNeeded: must be a boolean'']
      \<and> processThought rules s input = (Failed message, s)"
    by (simp add: processThought_def)
  then show ?thesis by blast
qed

text \<open>
  A submission whose \<open>totalThoughts\<close> is the string \<open>3\<close> is rejected and leaves a new
  server as it was.
\<close>

theorem processThought_invalid_input_witness:
  "\<exists>message \<in> set [''Invalid thought: must be a string'',
                          ''Invalid thoughtNumber: must be a number'',
                          ''Invalid totalThoughts: must be a number'',
                          ''Invalid nextThoughtNeeded: must be a boolean''].
     processThought noRules newServer ((submission ''a'' 1 1)\<lparr> totalThoughtsIn := JStr ''3'' \<rparr>)
      = (Failed message, newServer)"
  using processThought_invalid_input
          [of "(submission ''a'' 1 1)\<lparr> totalThoughtsIn := JStr ''3'' \<rparr>" noRules newServer]
  by (simp add: submission_def isNumber_def)

text \<open>
  C10. If a submission that is processed successfully omits the phase, the thought that is
  appended and the response carry phase Planning when the thought number is 1 and
  Execution for every other thought number. The default is set before vector, concepts,
  contradictions, alignment, recommendations and the response are computed: the whole call
  gives the same response and the same state as the call with that phase submitted.
\<close>

theorem default_phase_assigned:
  assumes "fst (processThought rules s input) = Succeeded r" and "phaseIn input = None"
  shows "replyPhase r = Some (if thoughtNumberIn input = JNum 1 then Planning else Execution)
       \<and> phase (last (thoughtHistory (snd (processThought rules s input))))
           = Some (if thoughtNumberIn input = JNum 1 then Planning else Execution)
       \<and> processThought rules s input
           = processThought rules s
               (input\<lparr> phaseIn := Some (if thoughtNumberIn input = JNum 1
                                         then Planning else Execution) \<rparr>)"
proof -
  let ?d = "if thoughtNumberIn input = JNum 1 then Planning else Execution"
  from processThought_succeeded [OF assms(1)]
  obtain v :: "'a ThoughtData" and s' where v: "validateThoughtData input = Inr v"
    and run: "processThought rules s input = (Succeeded (reply s' (prepare rules s v)), s')"
    and r: "r = reply s' (prepare rules s v)"
    and h: "thoughtHistory s' = thoughtHistory s @ [prepare rules s v]"
    by blast
  from validate_fields [OF v] assms(2)
  have none: "phase v = None" and tn: "thoughtNumberIn input = JNum (thoughtNumber v)"
    by simp_all
  have d: "?d = (if thoughtNumber v = 1 then Planning else Execution)" using tn by simp
  have ph: "phase (prepare rules s v) = Some ?d"
    using none by (simp add: prepare_def phase_setDefaultPhase d)
  have 1: "replyPhase r = Some ?d" using ph by (simp add: r reply_def)
  have 2: "phase (last (thoughtHistory (snd (processThought rules s input)))) = Some ?d"
    using ph by (simp add: run h)
  have v': "(validateThoughtData (input\<lparr> phaseIn := Some ?d \<rparr>) :: string + 'a ThoughtData)
              = Inr (v\<lparr> phase := Some ?d \<rparr>)"
    by (rule validate_phase_update [OF v])
  have prep: "prepare rules s (v\<lparr> phase := Some ?d \<rparr>) = prepare rules s v"
    using setDefaultPhase_adjust [OF none] by (simp add: prepare_def d)
  have 3: "processThought rules s input = processThought rules s (input\<lparr> phaseIn := Some ?d \<rparr>)"
    by (simp only: processThought_valid [OF v] processThought_valid [OF v'] prep)
  from 1 2 3 show ?thesis by blast
qed

text \<open>
  Thought number 1 without a phase is stored with Planning, thought number 2 with
  Execution.
\<close>

theorem default_phase_assigned_witness:
  "phase (last (thoughtHistory (snd (processThought noRules newServer (submission ''a'' 1 3)))))
     = Some Planning
   \<and> phase (last (thoughtHistory (snd (processThought noRules newServer (submission ''b'' 2 3)))))
     = Some Execution"
proof -
  have plain: "plainHistory (thoughtHistory (newServer :: unit Server))"
    by (simp add: newServer_def plainHistory_def)
  from processThought_submission [of "''a''" 1 3 newServer noRules] plain
  obtain r1 where ok1: "fst (processThought noRules newServer (submission ''a'' 1 3)) = Succeeded r1"
    by auto
  have p1: "phaseIn (submission ''a'' 1 3) = None"
    and n1: "thoughtNumberIn (submission ''a'' 1 3) = JNum 1"
    by (simp_all add: submission_def)
  from default_phase_assigned [OF ok1 p1]
  have "phase (last (thoughtHistory (snd (processThought noRules newServer (submission ''a'' 1 3)))))
     = Some (if thoughtNumberIn (submission ''a'' 1 3) = JNum 1 then Planning else Execution)"
    by blast
  then have 1: "phase (last (thoughtHistory (snd (processThought noRules newServer
                   (submission ''a'' 1 3))))) = Some Planning"
    using n1 by simp
  from processThought_submission [of "''b''" 2 3 newServer noRules] plain
  obtain r2 where ok2: "fst (processThought noRules newServer (submission ''b'' 2 3)) = Succeeded r2"
    by auto
  have p2: "phaseIn (submission ''b'' 2 3) = None"
    and n2: "thoughtNumberIn (submission ''b'' 2 3) \<noteq> JNum 1"
    by (simp_all add: submission_def)
  from default_phase_assigned [OF ok2 p2]
  have "phase (last (thoughtHistory (snd (processThought noRules newServer (submission ''b'' 2 3)))))
     = Some (if thoughtNumberIn (submission ''b'' 2 3) = JNum 1 then Planning else Execution)"
    by blast
  then have 2: "phase (last (thoughtHistory (snd (processThought noRules newServer
                   (submission ''b'' 2 3))))) = Some Execution"
    using n2 by simp
  from 1 2 show ?thesis by blast
qed

text \<open>
  C8. A call of \<open>processThought\<close> leaves every thought that is already in the history as
  it is: the old history is a prefix of the new one. A call whose input passes validation
  appends exactly one record, the submitted thought with its computed vector, concepts,
  assumptions and reflection prompts and, when a profile exists, its alignment and
  recommendations; that holds for a call that is answered with the reply and for a call
  that ends with an exception after the thought is stored. A call whose input fails
  validation leaves the whole state as it is.
\<close>

theorem history_append_only:
  "take (length (thoughtHistory s)) (thoughtHistory (snd (processThought rules s input)))
     = thoughtHistory s
   \<and> (fst (processThought rules s input) = Succeeded r
        \<or> fst (processThought rules s input) = Thrown e \<longrightarrow>
        (\<exists>t. thoughtHistory (snd (processThought rules s input)) = thoughtHistory s @ [t]
           \<and> thoughtIn input = JStr (thought t)
           \<and> vector t = Some (buildThoughtVectorsOfText (thought t))
           \<and> conceptsExtracted t \<noteq> None \<and> assumptions t \<noteq> None \<and> reflectionPrompts t \<noteq> None
           \<and> (metadata (promptContext s) \<noteq> None \<longrightarrow>
                promptAlignment t \<noteq> None \<and> intelligenceRecommendations t \<noteq> None)))
   \<and> ((\<exists>message. fst (processThought rules s input) = Failed message) \<longrightarrow>
        snd (processThought rules s input) = s)"
proof -
  from processThought_cases [of rules s input]
  consider (failed) message where "processThought rules s input = (Failed message, s)"
    | (valid) v :: "'a ThoughtData" where "validateThoughtData input = Inr v"
        "thoughtHistory (snd (processThought rules s input)) = thoughtHistory s @ [prepare rules s v]"
        "\<And>message. fst (processThought rules s input) \<noteq> Failed message"
    by fastforce
  then show ?thesis
  proof cases
    case failed
    then show ?thesis by simp
  next
    case valid
    let ?t = "prepare rules s v"
    have text_eq: "thoughtIn input = JStr (thought ?t)"
      using validate_fields [OF valid(1)] by simp
    have vec: "vector ?t = Some (buildThoughtVectorsOfText (thought ?t))"
      by (simp add: prepare_def buildThoughtVectors_def)
    have rest: "conceptsExtracted ?t \<noteq> None \<and> assumptions ?t \<noteq> None
                \<and> reflectionPrompts ?t \<noteq> None"
      by (simp add: prepare_def)
    have prof: "metadata (promptContext s) \<noteq> None \<longrightarrow>
                promptAlignment ?t \<noteq> None \<and> intelligenceRecommendations ?t \<noteq> None"
      using align_profile [of "promptContext s"] by (auto simp: prepare_def)
    from text_eq vec rest prof show ?thesis by (simp add: valid(2,3))
  qed
qed

lemma recommended_a:
  "recommendedThoughtCount (estimateDetailedComplexity (analyzePrompt ''a'')) = 5"
  by code_simp

lemma goals_alpha: "goals (analyzePrompt ''alpha.'') = [''alpha'']"
  by code_simp

lemma goals_beta: "goals (analyzePrompt ''beta.'') = [''beta'']"
  by code_simp

text \<open>
  C2 (amended). Within one successful submission the reported \<open>totalThoughts\<close> is the
  submitted value, raised to the submitted \<open>thoughtNumber\<close> if that is larger and then to
  the recommended thought count of the profile if a profile exists and that is larger; it
  is never below the submitted values and it is the value stored with the appended
  thought. Nothing is said about the values of different submissions.
\<close>

theorem totalThoughts_reported:
  assumes "fst (processThought rules s input) = Succeeded r"
  shows "replyTotalThoughts r =
           (case metadata (promptContext s) of
              None \<Rightarrow> max (numberOf (totalThoughtsIn input)) (numberOf (thoughtNumberIn input))
            | Some m \<Rightarrow> max (max (numberOf (totalThoughtsIn input)) (numberOf (thoughtNumberIn input)))
                            (recommendedThoughtCount (estimateDetailedComplexity m)))
       \<and> replyTotalThoughts r \<ge> numberOf (totalThoughtsIn input)
       \<and> replyTotalThoughts r \<ge> numberOf (thoughtNumberIn input)
       \<and> totalThoughts (last (thoughtHistory (snd (processThought rules s input))))
           = replyTotalThoughts r"
proof -
  from processThought_succeeded [OF assms]
  obtain v :: "'a ThoughtData" where v: "validateThoughtData input = Inr v"
    by blast
  have f: "numberOf (totalThoughtsIn input) = totalThoughts v"
          "numberOf (thoughtNumberIn input) = thoughtNumber v"
    using validate_fields [OF v] by (simp_all add: numberOf_def)
  have r: "replyTotalThoughts r = totalThoughts (prepare rules s v)"
    by (rule processThought_reply_total [OF v assms])
  have l: "last (thoughtHistory (snd (processThought rules s input))) = prepare rules s v"
    by (simp add: processThought_history [OF v])
  show ?thesis
    unfolding r l f totalThoughts_prepare
    by (auto split: option.splits)
qed

text \<open>
  Thought 7 of 3, submitted to a new server, is reported with \<open>totalThoughts\<close> 7.
\<close>

theorem totalThoughts_reported_witness:
  "\<exists>r. fst (processThought noRules newServer (submission ''a'' 7 3)) = Succeeded r
       \<and> replyTotalThoughts r = 7"
proof -
  have plain: "plainHistory (thoughtHistory (newServer :: unit Server))"
    by (simp add: newServer_def plainHistory_def)
  from processThought_submission [of "''a''" 7 3 newServer noRules] plain
  obtain r where ok: "fst (processThought noRules newServer (submission ''a'' 7 3)) = Succeeded r"
    by auto
  from totalThoughts_reported [OF ok]
  have "replyTotalThoughts r =
           (case metadata (promptContext (newServer :: unit Server)) of
              None \<Rightarrow> max (numberOf (totalThoughtsIn (submission ''a'' 7 3)))
                        (numberOf (thoughtNumberIn (submission ''a'' 7 3)))
            | Some m \<Rightarrow> max (max (numberOf (totalThoughtsIn (submission ''a'' 7 3)))
                              (numberOf (thoughtNumberIn (submission ''a'' 7 3))))
                            (recommendedThoughtCount (estimateDetailedComplexity m)))"
    by blast
  then have "replyTotalThoughts r = 7"
    by (simp add: newServer_def submission_def numberOf_def)
  with ok show ?thesis by blast
qed

text \<open>
  The reported \<open>totalThoughts\<close> is computed from each submission alone. A session that
  submits thought 1 with \<open>totalThoughts\<close> 10 and then thought 2 with \<open>totalThoughts\<close> 5 is
  answered with 10 and then with 5 (the profile of the prompt \<open>a\<close> recommends 5 thoughts):
  the reported values of claim C2 are not non-decreasing over the session.
\<close>

theorem totalThoughts_decreases:
  "reportedTotals (fst (runSession noRules newServer [submission ''a'' 1 10, submission ''b'' 2 5]))
     = [10, 5]
   \<and> \<not> sorted (reportedTotals
        (fst (runSession noRules newServer [submission ''a'' 1 10, submission ''b'' 2 5])))"
proof -
  have plain: "plainHistory (thoughtHistory (newServer :: unit Server))"
    by (simp add: newServer_def plainHistory_def)
  obtain r1 and s1 :: "unit Server"
    where h1: "handleCallTool noRules newServer (submission ''a'' 1 10) = (Some (Succeeded r1), s1)"
      and t1: "replyTotalThoughts r1 = 10"
      and plain1: "plainHistory (thoughtHistory s1)"
    using handleCallTool_submission [of "''a''" 1 10 newServer noRules] plain
    by (auto simp: recommended_a)
  have "promptContext s1 = promptContext (snd (handleCallTool noRules newServer (submission ''a'' 1 10)))"
    by (simp add: h1)
  then have m1: "metadata (promptContext s1) = Some (analyzePrompt ''a'')"
    by (simp add: handleCallTool_promptContext submission_def)
  obtain r2 and s2 :: "unit Server"
    where h2: "handleCallTool noRules s1 (submission ''b'' 2 5) = (Some (Succeeded r2), s2)"
      and t2: "replyTotalThoughts r2 = 5"
    using handleCallTool_submission [of "''b''" 2 5 s1 noRules] plain1
    by (auto simp: m1 recommended_a)
  have "reportedTotals (fst (runSession noRules newServer [submission ''a'' 1 10, submission ''b'' 2 5]))
     = [10, 5]"
    by (simp add: h1 h2 t1 t2)
  then show ?thesis by simp
qed

text \<open>
  C7 (amended). The handler sets the profile on every submission whose \<open>thoughtNumber\<close> is
  the number 1, to the analysis of that submission's thought text, whether or not a profile
  exists already. A submission with any other \<open>thoughtNumber\<close> leaves the prompt context as
  it is, a submission numbered 1 whose thought is not a string leaves the profile as it is,
  and \<open>processThought\<close> itself never changes the prompt context.
\<close>

theorem profile_lifecycle:
  "(thoughtNumberIn input \<noteq> JNum 1 \<longrightarrow>
      promptContext (snd (handleCallTool rules s input)) = promptContext s)
   \<and> (thoughtNumberIn input = JNum 1 \<and> thoughtIn input = JStr prompt \<longrightarrow>
        metadata (promptContext (snd (handleCallTool rules s input))) = Some (analyzePrompt prompt))
   \<and> (thoughtNumberIn input = JNum 1 \<and> \<not> isString (thoughtIn input) \<longrightarrow>
        metadata (promptContext (snd (handleCallTool rules s input))) = metadata (promptContext s))
   \<and> promptContext (snd (processThought rules s input)) = promptContext s"
  by (auto simp: handleCallTool_promptContext processThought_promptContext isString_def
      split: jsval.splits)

text \<open>
  On a new server, thought 2 leaves the prompt context empty, thought 1 with the text
  \<open>alpha.\<close> sets the profile of that text, and thought 1 with a number in place of the text
  sets no profile.
\<close>

theorem profile_lifecycle_witness:
  "promptContext (snd (handleCallTool noRules newServer (submission ''b'' 2 5)))
     = promptContext (newServer :: unit Server)
   \<and> metadata (promptContext (snd (handleCallTool noRules newServer (submission ''alpha.'' 1 5))))
       = Some (analyzePrompt ''alpha.'')
   \<and> metadata (promptContext (snd (handleCallTool noRules newServer
         ((submission ''alpha.'' 1 5)\<lparr> thoughtIn := JNum 3 \<rparr>))))
       = metadata (promptContext (newServer :: unit Server))"
  using profile_lifecycle [where input = "submission ''b'' 2 5" and rules = noRules
          and s = "newServer :: unit Server"]
        profile_lifecycle [where input = "submission ''alpha.'' 1 5" and prompt = "''alpha.''"
          and rules = noRules and s = "newServer :: unit Server"]
        profile_lifecycle [where input = "(submission ''alpha.'' 1 5)\<lparr> thoughtIn := JNum 3 \<rparr>"
          and rules = noRules and s = "newServer :: unit Server"]
  by (simp add: submission_def isString_def)

text \<open>
  Two submissions numbered 1 in one session: after the first the goals of the profile are
  those of the first text, after the second they are those of the second text. The profile
  of claim C7 is not immutable after its creation.
\<close>

theorem profile_replaced:
  "map_option goals (metadata (promptContext (snd
      (runSession noRules newServer [submission ''alpha.'' 1 5])))) = Some [''alpha'']
   \<and> map_option goals (metadata (promptContext (snd
      (runSession noRules newServer [submission ''alpha.'' 1 5, submission ''beta.'' 1 5]))))
     = Some [''beta'']"
proof -
  have step: "\<And>(s :: unit Server) i. snd (runSession noRules s [i]) = snd (handleCallTool noRules s i)"
    by (simp split: prod.splits)
  have step2: "\<And>(s :: unit Server) i j. snd (runSession noRules s [i, j])
      = snd (handleCallTool noRules (snd (handleCallTool noRules s i)) j)"
    by (simp split: prod.splits)
  show ?thesis
    unfolding step step2
    by (simp add: handleCallTool_promptContext submission_def goals_alpha goals_beta)
qed

text \<open>
  The first submission to a new server gives a history of one thought with its vector; the
  second submission keeps that history as a prefix. Thought number \<open>-1\<close> ends with a
  \<open>RangeError\<close> and is in the history all the same. A submission without a thought text is
  rejected and leaves the new server as it is.
\<close>

theorem history_append_only_witness:
  "(\<exists>t. thoughtHistory (snd (processThought noRules newServer (submission ''a'' 1 3))) = [t]
       \<and> vector t = Some (buildThoughtVectorsOfText (thought t)))
   \<and> take (length (thoughtHistory (snd (processThought noRules newServer (submission ''a'' 1 3)))))
        (thoughtHistory (snd (processThought noRules
            (snd (processThought noRules newServer (submission ''a'' 1 3))) (submission ''b'' 2 3))))
      = thoughtHistory (snd (processThought noRules newServer (submission ''a'' 1 3)))
   \<and> fst (processThought noRules newServer (submission ''a'' (- 1) 3)) = Thrown RangeError
   \<and> (\<exists>t. thoughtHistory (snd (processThought noRules newServer (submission ''a'' (- 1) 3))) = [t]
         \<and> thought t = ''a'')
   \<and> snd (processThought noRules newServer ((submission ''a'' 1 3)\<lparr> thoughtIn := JNull \<rparr>))
       = newServer"
proof -
  have plain: "plainHistory (thoughtHistory (newServer :: unit Server))"
    by (simp add: newServer_def plainHistory_def)
  from processThought_submission [of "''a''" 1 3 newServer noRules] plain
  obtain r where ok: "fst (processThought noRules newServer (submission ''a'' 1 3)) = Succeeded r"
    by auto
  from history_append_only [of newServer noRules "submission ''a'' 1 3" r] ok
  have "\<exists>t. thoughtHistory (snd (processThought noRules newServer (submission ''a'' 1 3)))
              = thoughtHistory (newServer :: unit Server) @ [t]
       \<and> vector t = Some (buildThoughtVectorsOfText (thought t))"
    by blast
  then have 1: "\<exists>t. thoughtHistory (snd (processThought noRules newServer (submission ''a'' 1 3))) = [t]
       \<and> vector t = Some (buildThoughtVectorsOfText (thought t))"
    by (simp add: newServer_def)
  from history_append_only
         [of "snd (processThought noRules newServer (submission ''a'' 1 3))" noRules "submission ''b'' 2 3"]
  have 2: "take (length (thoughtHistory (snd (processThought noRules newServer (submission ''a'' 1 3)))))
        (thoughtHistory (snd (processThought noRules
            (snd (processThought noRules newServer (submission ''a'' 1 3))) (submission ''b'' 2 3))))
      = thoughtHistory (snd (processThought noRules newServer (submission ''a'' 1 3)))"
    by blast
  have 3: "fst (processThought noRules newServer (submission ''a'' (- 1) 3)) = Thrown RangeError"
    by (rule negative_thoughtNumber_throws)
  from history_append_only [of newServer noRules "submission ''a'' (- 1) 3" _ RangeError] 3
  have "\<exists>t. thoughtHistory (snd (processThought noRules newServer (submission ''a'' (- 1) 3)))
              = thoughtHistory (newServer :: unit Server) @ [t]
       \<and> thoughtIn (submission ''a'' (- 1) 3) = JStr (thought t)"
    by blast
  then have 4: "\<exists>t. thoughtHistory (snd (processThought noRules newServer
                        (submission ''a'' (- 1) 3))) = [t] \<and> thought t = ''a''"
    by (auto simp: newServer_def submission_def)
  have "\<exists>message. fst (processThought noRules (newServer :: unit Server)
                          ((submission ''a'' 1 3)\<lparr> thoughtIn := JNull \<rparr>)) = Failed message"
    by (simp add: processThought_def validateThoughtData_def submission_def falsy_def)
  with history_append_only
         [of newServer noRules "(submission ''a'' 1 3)\<lparr> thoughtIn := JNull \<rparr>"]
  have 5: "snd (processThought noRules newServer ((submission ''a'' 1 3)\<lparr> thoughtIn := JNull \<rparr>))
             = (newServer :: unit Server)"
    by blast
  from 1 2 3 4 5 show ?thesis by blast
qed

section \<open>Vectors and similarity\<close>

subsection \<open>Lists without duplicates\<close>

lemma set_uniq [simp]: "set (uniq xs) = set xs"
  by (simp add: uniq_def)

lemma distinct_uniq [simp]: "distinct (uniq xs)"
  by (simp add: uniq_def)

lemma uniq_twice: "distinct xs \<Longrightarrow> uniq (xs @ xs) = xs"
  by (simp add: uniq_def remdups_append distinct_remdups_id)

lemma map_of_tabulate:
  "map_of (map (\<lambda>k. (k, f k)) ks) k = (if k \<in> set ks then Some (f k) else None)"
  by (induction ks) auto

lemma valueAt_tabulate: "k \<in> set ks \<Longrightarrow> valueAt (map (\<lambda>k. (k, f k)) ks) k = f k"
  by (simp add: valueAt_def map_of_tabulate)

subsection \<open>Sums of squares and the cosine\<close>

lemma sumsq_nonneg: "0 \<le> sum_list (map (\<lambda>val. val * val) (v :: real list))"
  by (induction v) auto

lemma sumsq_zero_iff:
  "sum_list (map (\<lambda>val. val * val) (v :: real list)) = 0 \<longleftrightarrow> (\<forall>x \<in> set v. x = 0)"
proof (induction v)
  case Nil
  then show ?case by simp
next
  case (Cons a v)
  have "a * a + sum_list (map (\<lambda>val. val * val) v) = 0
        \<longleftrightarrow> a * a = 0 \<and> sum_list (map (\<lambda>val. val * val) v) = 0"
    using sumsq_nonneg [of v] by (intro add_nonneg_eq_0_iff) auto
  with Cons show ?case by simp
qed



lemma cosineSimilarity_zero_left:
  "\<forall>x \<in> set v. x = 0 \<Longrightarrow> cosineSimilarity v w = 0"
  by (simp add: cosineSimilarity_def Let_def sumsq_zero_iff [THEN iffD2])

lemma cosineSimilarity_zero_right:
  "\<forall>x \<in> set w. x = 0 \<Longrightarrow> cosineSimilarity v w = 0"
  by (simp add: cosineSimilarity_def Let_def sumsq_zero_iff [THEN iffD2])


subsection \<open>The TF-IDF cosine of two texts\<close>

lemma cosineSimilarityObjects_tabulate:
  assumes "distinct terms"
  shows "cosineSimilarityObjects (map (\<lambda>t. (t, f t)) terms) (map (\<lambda>t. (t, g t)) terms) =
     (if sqrt (\<Sum>t \<in> set terms. f t * f t) = 0 \<or> sqrt (\<Sum>t \<in> set terms. g t * g t) = 0 then 0
      else (\<Sum>t \<in> set terms. f t * g t)
           / (sqrt (\<Sum>t \<in> set terms. f t * f t) * sqrt (\<Sum>t \<in> set terms. g t * g t)))"
proof -
  have keys: "uniq (map fst (map (\<lambda>t. (t, f t)) terms) @ map fst (map (\<lambda>t. (t, g t)) terms)) = terms"
    using assms by (simp add: comp_def uniq_twice)
  have "sum_list (map (\<lambda>t. valueAt (map (\<lambda>t. (t, f t)) terms) t * valueAt (map (\<lambda>t. (t, g t)) terms) t) terms)
          = sum_list (map (\<lambda>t. f t * g t) terms)"
    by (rule arg_cong [where f = sum_list], rule map_cong) (simp_all add: valueAt_tabulate)
  moreover have "sum_list (map (\<lambda>t. valueAt (map (\<lambda>t. (t, f t)) terms) t * valueAt (map (\<lambda>t. (t, f t)) terms) t) terms)
          = sum_list (map (\<lambda>t. f t * f t) terms)"
    by (rule arg_cong [where f = sum_list], rule map_cong) (simp_all add: valueAt_tabulate)
  moreover have "sum_list (map (\<lambda>t. valueAt (map (\<lambda>t. (t, g t)) terms) t * valueAt (map (\<lambda>t. (t, g t)) terms) t) terms)
          = sum_list (map (\<lambda>t. g t * g t) terms)"
    by (rule arg_cong [where f = sum_list], rule map_cong) (simp_all add: valueAt_tabulate)
  ultimately show ?thesis
    unfolding cosineSimilarityObjects_def keys Let_def
    by (simp add: sum_list_distinct_conv_sum_set [OF assms])
qed

lemma cosineSimilarityObjects_zero:
  assumes "distinct terms" and "\<And>t. t \<in> set terms \<Longrightarrow> f t = 0"
  shows "cosineSimilarityObjects (map (\<lambda>t. (t, f t)) terms) (map (\<lambda>t. (t, g t)) terms) = 0"
proof -
  have "(\<Sum>t \<in> set terms. f t * f t) = 0"
    by (rule sum.neutral) (simp add: assms(2))
  then show ?thesis by (simp add: cosineSimilarityObjects_tabulate [OF assms(1)])
qed

text \<open>
  In a pair of documents without a common term every TF-IDF weight of the first document
  is zero: a term of the first document is in one of the two documents and its inverse
  document frequency is \<open>ln (2 / 2)\<close>, any other term has term frequency zero.
\<close>

lemma tfidf_first_zero:
  assumes "set d1 \<inter> set d2 = {}"
  shows "tfidf [d1, d2] t 0 = 0"
proof (cases "t \<in> set d1")
  case True
  then have "t \<notin> set d2" using assms by blast
  then show ?thesis using True by (simp add: tfidf_def Let_def)
next
  case False
  then have "filter (\<lambda>x. x = t) d1 = []" by (auto simp: filter_empty_conv)
  then show ?thesis by (simp add: tfidf_def Let_def)
qed

lemma calculateTfidfSimilarity_disjoint:
  assumes "set (splitWhitespace (joinSpace (tokenizeAndNormalize text1)))
           \<inter> set (splitWhitespace (joinSpace (tokenizeAndNormalize text2))) = {}"
  shows "calculateTfidfSimilarity text1 text2 = 0"
  unfolding calculateTfidfSimilarity_def Let_def
  by (rule cosineSimilarityObjects_zero) (simp_all add: tfidf_first_zero [OF assms])

lemma calculateTfidfSimilarity_no_tokens:
  assumes "tokenizeAndNormalize text1 = []" and "[] \<notin> set (tokenizeAndNormalize text2)"
  shows "calculateTfidfSimilarity text1 text2 = 0"
proof -
  let ?B = "tokenizeAndNormalize text2"
  have d: "splitWhitespace (joinSpace []) = [[]]"
    by (simp add: splitWhitespace_def joinSpace_def)
  have z: "tfidf [[[]], splitWhitespace (joinSpace ?B)] t 0 = 0"
    if "t \<in> set (filter (\<lambda>term. term \<noteq> ''__proto__'') (uniq ([] @ ?B)))" for t
  proof -
    from that assms(2) have "t \<noteq> []" by auto
    then show ?thesis by (simp add: tfidf_def Let_def)
  qed
  show ?thesis
    unfolding calculateTfidfSimilarity_def Let_def assms(1) d
    by (rule cosineSimilarityObjects_zero) (simp_all add: z)
qed

subsection \<open>A thought without tokens\<close>

lemma normalize_zero:
  assumes "\<forall>x \<in> set v. x = 0"
  shows "normalize v = v"
proof -
  have z: "sum_list (map (\<lambda>val. val * val) v) = 0"
    using assms by (simp only: sumsq_zero_iff)
  have "map (\<lambda>val. 0) v = v"
    using assms by (intro map_idI) simp
  then show ?thesis
    unfolding normalize_def Let_def z by simp
qed

lemma buildThoughtVectorsOfText_zero:
  "tokenizeAndNormalize text = [] \<Longrightarrow> buildThoughtVectorsOfText text = replicate 300 0"
  by (simp add: buildThoughtVectorsOfText_def Let_def vectorDimension_def normalize_zero)

lemma extractKeywordsSem_empty:
  "tokenizeAndNormalize text = [] \<Longrightarrow> extractKeywordsSem text = []"
  by (simp add: extractKeywordsSem_def)

lemma vectorOf_no_tokens:
  assumes "tokenizeAndNormalize (thought a) = []"
    and "vector a = None \<or> vector a = Some (buildThoughtVectors a)"
  shows "vectorOf a = replicate 300 0"
  using assms
  by (auto simp: vectorOf_def buildThoughtVectors_def buildThoughtVectorsOfText_zero)

text \<open>
  A thought without tokens has similarity 0 to every thought whose tokens are not empty
  strings, in both orders of the arguments, and to itself.
\<close>

lemma analyzeSemanticSimilarity_no_tokens:
  assumes "tokenizeAndNormalize (thought a) = []"
    and "vector a = None \<or> vector a = Some (buildThoughtVectors a)"
    and "[] \<notin> set (tokenizeAndNormalize (thought b))"
  shows "analyzeSemanticSimilarity a b = 0"
proof -
  have c: "cosineSimilarity (vectorOf a) (vectorOf b) = 0"
    unfolding vectorOf_no_tokens [OF assms(1,2)] by (rule cosineSimilarity_zero_left) simp
  have j: "jaccardSimilarity (set (extractKeywordsSem (thought a)))
             (set (extractKeywordsSem (thought b))) = 0"
    using assms(1) by (simp add: extractKeywordsSem_empty jaccardSimilarity_def)
  have f: "calculateTfidfSimilarity (thought a) (thought b) = 0"
    by (rule calculateTfidfSimilarity_no_tokens [OF assms(1,3)])
  show ?thesis by (simp add: analyzeSemanticSimilarity_def Let_def c j f)
qed

lemma analyzeSemanticSimilarity_no_tokens_right:
  assumes "tokenizeAndNormalize (thought b) = []"
    and "vector b = None \<or> vector b = Some (buildThoughtVectors b)"
    and "set (splitWhitespace (joinSpace (tokenizeAndNormalize (thought a))))
         \<inter> set (splitWhitespace (joinSpace (tokenizeAndNormalize (thought b)))) = {}"
  shows "analyzeSemanticSimilarity a b = 0"
proof -
  have c: "cosineSimilarity (vectorOf a) (vectorOf b) = 0"
    unfolding vectorOf_no_tokens [OF assms(1,2)] by (rule cosineSimilarity_zero_right) simp
  have j: "jaccardSimilarity (set (extractKeywordsSem (thought a)))
             (set (extractKeywordsSem (thought b))) = 0"
    using assms(1) by (simp add: extractKeywordsSem_empty jaccardSimilarity_def)
  have f: "calculateTfidfSimilarity (thought a) (thought b) = 0"
    by (rule calculateTfidfSimilarity_disjoint [OF assms(3)])
  show ?thesis by (simp add: analyzeSemanticSimilarity_def Let_def c j f)
qed

lemma analyzeSemanticSimilarity_texts:
  "thought a = thought a' \<Longrightarrow> vector a = vector a' \<Longrightarrow> thought b = thought b'
   \<Longrightarrow> vector b = vector b'
   \<Longrightarrow> analyzeSemanticSimilarity a b = analyzeSemanticSimilarity a' b'"
  by (simp add: analyzeSemanticSimilarity_def vectorOf_def buildThoughtVectors_def
      split: option.splits)

lemma plainThought_fields [simp]:
  "thought (plainThought text n) = text"
  "thoughtNumber (plainThought text n) = n"
  "vector (plainThought text n) = None"
  "isRevision (plainThought text n) = None"
  "classification (plainThought text n) = None"
  "assumptions (plainThought text n) = None"
  by (simp_all add: plainThought_def)

lemma tokens_the: "tokenizeAndNormalize ''the'' = []"
  by code_simp


lemma tokens_alpha: "tokenizeAndNormalize ''alpha'' = [''alpha'']"
  by code_simp

lemma tokens_topic_1: "tokenizeAndNormalize ''topic_1'' = [''topic_1'']"
  by code_simp

lemma document_empty: "splitWhitespace (joinSpace []) = [[]]"
  by (simp add: splitWhitespace_def joinSpace_def)

lemma document_topic_1:
  "splitWhitespace (joinSpace (tokenizeAndNormalize ''topic_1'')) = [''topic_1'']"
  by code_simp



section \<open>The similarity of a thought to itself in exact arithmetic\<close>

text \<open>
  With real numbers in place of doubles a thought that has a token other than the empty
  string and \<open>__proto__\<close> has similarity 1 to itself. The double-precision value differs
  from it by rounding. The lemma is used below for one purpose: a thought and a copy of it
  pass the gate \<open>similarity > 0.5\<close> of the contradiction detector.
\<close>

lemma uniq_distinct: "distinct xs \<Longrightarrow> uniq xs = xs"
  by (simp add: uniq_def distinct_remdups_id)

lemma uniq_eq_Nil [simp]: "uniq xs = [] \<longleftrightarrow> xs = []"
  by (metis set_uniq set_empty)

lemma dot_self:
  "sum_list (map (\<lambda>(a, b). a * b) (zip v v)) = sum_list (map (\<lambda>val. val * val) (v :: real list))"
  by (induction v) auto

lemma cosineSimilarity_self:
  assumes "\<exists>x \<in> set v. x \<noteq> 0"
  shows "cosineSimilarity v v = 1"
proof -
  have "sum_list (map (\<lambda>val. val * val) v) \<noteq> 0"
    using assms by (simp add: sumsq_zero_iff)
  with sumsq_nonneg [of v] have pos: "0 < sum_list (map (\<lambda>val. val * val) v)"
    by linarith
  then show ?thesis
    by (simp add: cosineSimilarity_def Let_def dot_self)
qed

lemma jaccardSimilarity_self: "finite A \<Longrightarrow> A \<noteq> {} \<Longrightarrow> jaccardSimilarity A A = 1"
  by (simp add: jaccardSimilarity_def)

subsection \<open>Tokens survive joining and splitting\<close>

lemma splitRuns_nonempty [simp]: "splitRuns P s \<noteq> []"
proof (induction s)
  case Nil
  then show ?case by simp
next
  case (Cons a s)
  show ?case
  proof (cases "P a")
    case True
    then show ?thesis using Cons.IH by (cases s) auto
  next
    case False
    then show ?thesis by (cases "splitRuns P s") simp_all
  qed
qed

lemma splitRuns_free: "w \<in> set (splitRuns P s) \<Longrightarrow> c \<in> set w \<Longrightarrow> \<not> P c"
proof (induction s arbitrary: w)
  case Nil
  then show ?case by simp
next
  case (Cons a s)
  show ?case
  proof (cases "P a")
    case True
    show ?thesis
    proof (cases s)
      case Nil
      with True Cons.prems show ?thesis by simp
    next
      case (Cons d ds)
      show ?thesis
      proof (cases "P d")
        case True
        with \<open>P a\<close> Cons have "splitRuns P (a # s) = splitRuns P s" by simp
        with Cons.prems Cons.IH show ?thesis by simp
      next
        case False
        with \<open>P a\<close> Cons have "splitRuns P (a # s) = [] # splitRuns P s" by simp
        with Cons.prems Cons.IH show ?thesis by auto
      qed
    qed
  next
    case False
    obtain x xs where x: "splitRuns P s = x # xs"
      by (cases "splitRuns P s") simp_all
    with False have e: "splitRuns P (a # s) = (a # x) # xs" by simp
    from Cons.prems(1) e consider "w = a # x" | "w \<in> set xs" by auto
    then show ?thesis
    proof cases
      case 1
      with Cons.prems(2) consider "c = a" | "c \<in> set x" by auto
      then show ?thesis
      proof cases
        case 1
        with False show ?thesis by simp
      next
        case 2
        have "x \<in> set (splitRuns P s)" using x by simp
        from Cons.IH [OF this 2] show ?thesis .
      qed
    next
      case 2
      then have "w \<in> set (splitRuns P s)" using x by simp
      from Cons.IH [OF this Cons.prems(2)] show ?thesis .
    qed
  qed
qed

lemma splitRuns_hd_sep: "P c \<Longrightarrow> hd (splitRuns P (c # cs)) = []"
  by (induction cs arbitrary: c) auto

lemma splitRuns_free_whole: "\<forall>c \<in> set w. \<not> P c \<Longrightarrow> splitRuns P w = [w]"
  by (induction w) auto

lemma splitRuns_free_prefix:
  assumes "\<forall>c \<in> set w. \<not> P c" "P sep"
  shows "splitRuns P (w @ sep # rest) = w # tl (splitRuns P (sep # rest))"
  using assms(1)
proof (induction w)
  case Nil
  have "splitRuns P (sep # rest) = hd (splitRuns P (sep # rest)) # tl (splitRuns P (sep # rest))"
    by (simp del: splitRuns.simps)
  then show ?case
    by (simp add: splitRuns_hd_sep [of P sep, OF assms(2)] del: splitRuns.simps)
next
  case (Cons c w)
  then show ?case by (simp del: splitRuns.simps(2) add: splitRuns.simps(2) [of P c])
qed

lemma splitRuns_sep_keeps:
  assumes "P sep" "x \<noteq> []" "x \<in> set (splitRuns P rest)"
  shows "x \<in> set (tl (splitRuns P (sep # rest)))"
proof (cases rest)
  case Nil
  with assms show ?thesis by simp
next
  case (Cons d ds)
  show ?thesis
  proof (cases "P d")
    case True
    have eq: "splitRuns P (sep # rest) = splitRuns P rest"
      using True assms(1) Cons by simp
    have "hd (splitRuns P rest) = []"
      unfolding Cons using True by (rule splitRuns_hd_sep [of P d])
    then have "splitRuns P rest = [] # tl (splitRuns P rest)"
      by (metis list.collapse splitRuns_nonempty)
    with assms(2,3) have "x \<in> set (tl (splitRuns P rest))"
      by (metis set_ConsD)
    with eq show ?thesis by simp
  next
    case False
    with assms Cons show ?thesis by simp
  qed
qed

lemma token_survives_join:
  assumes "\<forall>w \<in> set ws. \<forall>c \<in> set w. \<not> isSpace c" "x \<in> set ws" "x \<noteq> []"
  shows "x \<in> set (splitWhitespace (joinSpace ws))"
  using assms(1,2)
proof (induction ws)
  case Nil
  then show ?case by simp
next
  case (Cons w ws)
  have sp: "isSpace (CHR '' '')" by (simp add: isSpace_def)
  show ?case
  proof (cases ws)
    case Nil
    with Cons.prems show ?thesis
      by (simp add: splitWhitespace_def joinSpace_def splitRuns_free_whole)
  next
    case (Cons w2 rest)
    have free: "\<forall>c \<in> set w. \<not> isSpace c" using Cons.prems(1) by simp
    have j: "joinSpace (w # ws) = w @ CHR '' '' # joinSpace ws"
      by (simp add: joinSpace_def Cons)
    have s: "splitRuns isSpace (w @ CHR '' '' # joinSpace ws)
             = w # tl (splitRuns isSpace (CHR '' '' # joinSpace ws))"
      by (rule splitRuns_free_prefix [OF free sp])
    show ?thesis
    proof (cases "x = w")
      case True
      then show ?thesis by (simp add: splitWhitespace_def j s del: splitRuns.simps)
    next
      case False
      with Cons.prems have "x \<in> set ws" by simp
      with Cons.IH Cons.prems(1) have "x \<in> set (splitRuns isSpace (joinSpace ws))"
        by (simp add: splitWhitespace_def)
      from splitRuns_sep_keeps [OF sp assms(3) this]
      show ?thesis by (simp add: splitWhitespace_def j s del: splitRuns.simps)
    qed
  qed
qed

lemma tokens_free: "t \<in> set (tokenizeAndNormalize text) \<Longrightarrow> c \<in> set t \<Longrightarrow> \<not> isSpace c"
  unfolding tokenizeAndNormalize_def removeStopwords_def splitWhitespace_def
  using splitRuns_free [of t isSpace] by auto

subsection \<open>A thought compared with itself\<close>

lemma tfidf_self_nonzero:
  assumes "t \<in> set d"
  shows "tfidf [d, d] t 0 \<noteq> 0"
proof -
  have "filter (\<lambda>x. x = t) d \<noteq> []" using assms by (simp add: filter_empty_conv)
  then have c: "0 < length (filter (\<lambda>x. x = t) d)" by simp
  have l: "0 < length d" using assms by (cases d) auto
  have "ln (2 / 3 :: real) < 0" by (rule ln_less_zero) simp_all
  then have "ln (2 / 3 :: real) \<noteq> 0" by simp
  with c l assms show ?thesis by (simp add: tfidf_def Let_def)
qed

lemma tfidf_same_docs: "tfidf [d, d] t 1 = tfidf [d, d] t 0"
  by (simp add: tfidf_def)

lemma calculateTfidfSimilarity_self:
  assumes "\<exists>t \<in> set (tokenizeAndNormalize text). t \<noteq> [] \<and> t \<noteq> ''__proto__''"
  shows "calculateTfidfSimilarity text text = 1"
proof -
  let ?A = "tokenizeAndNormalize text"
  let ?d = "splitWhitespace (joinSpace ?A)"
  let ?T = "filter (\<lambda>term. term \<noteq> ''__proto__'') (uniq (?A @ ?A))"
  let ?f = "\<lambda>t. tfidf [?d, ?d] t 0"
  let ?S = "\<Sum>t \<in> set ?T. ?f t * ?f t"
  from assms obtain t where t: "t \<in> set ?A" "t \<noteq> []" "t \<noteq> ''__proto__''" by blast
  have "t \<in> set ?d"
    by (rule token_survives_join [OF _ t(1,2)]) (auto dest: tokens_free)
  then have "?f t \<noteq> 0" by (rule tfidf_self_nonzero)
  then have "?f t * ?f t \<noteq> 0" by simp
  moreover have "t \<in> set ?T" using t by simp
  ultimately have "?S \<noteq> 0"
    by (subst sum_nonneg_eq_0_iff) auto
  moreover have "0 \<le> ?S" by (rule sum_nonneg) simp
  ultimately have pos: "0 < ?S" by linarith
  have "calculateTfidfSimilarity text text
        = cosineSimilarityObjects (map (\<lambda>t. (t, ?f t)) ?T) (map (\<lambda>t. (t, ?f t)) ?T)"
    unfolding calculateTfidfSimilarity_def Let_def tfidf_same_docs ..
  also have "\<dots> = (if sqrt ?S = 0 \<or> sqrt ?S = 0 then 0 else ?S / (sqrt ?S * sqrt ?S))"
    by (rule cosineSimilarityObjects_tabulate) simp
  also have "\<dots> = 1" using pos by simp
  finally show ?thesis .
qed

lemma sort_key_eq_Nil [simp]: "sort_key f xs = [] \<longleftrightarrow> xs = []"
  by (metis length_sort length_0_conv)

lemma extractKeywordsSem_nonempty:
  "tokenizeAndNormalize text \<noteq> [] \<Longrightarrow> extractKeywordsSem text \<noteq> []"
  by (simp add: extractKeywordsSem_def Let_def listTerms_def sortDescBy_def)

subsection \<open>Word vectors and thought vectors\<close>

lemma length_normalize [simp]: "length (normalize v) = length v"
  by (simp add: normalize_def Let_def)

lemma normalize_nonneg: "\<forall>x \<in> set v. 0 \<le> x \<Longrightarrow> x \<in> set (normalize v) \<Longrightarrow> 0 \<le> x"
  by (auto simp: normalize_def Let_def sumsq_nonneg intro!: divide_nonneg_nonneg)

lemma normalize_pos:
  assumes "k < length v" "0 < v ! k"
  shows "0 < normalize v ! k"
proof -
  have "v ! k \<in> set v" using assms(1) by simp
  moreover have "v ! k \<noteq> 0" using assms(2) by simp
  ultimately have "\<not> (\<forall>x \<in> set v. x = 0)" by blast
  then have "sum_list (map (\<lambda>val. val * val) v) \<noteq> 0"
    by (simp only: sumsq_zero_iff not_False_eq_True)
  with sumsq_nonneg [of v] have "0 < sqrt (sum_list (map (\<lambda>val. val * val) v))"
    by simp
  with assms show ?thesis by (simp add: normalize_def Let_def)
qed

lemma length_addBucket [simp]: "length (addBucket v b) = length v"
  by (simp add: addBucket_def)

lemma length_foldl_addBucket [simp]: "length (foldl addBucket v bs) = length v"
  by (induction bs arbitrary: v) auto

lemma addBucket_mono: "0 \<le> snd b \<Longrightarrow> k < length v \<Longrightarrow> v ! k \<le> addBucket v b ! k"
  by (cases "fst b = k") (simp_all add: addBucket_def)

lemma foldl_addBucket_mono:
  "\<forall>b \<in> set bs. 0 \<le> snd b \<Longrightarrow> k < length v \<Longrightarrow> v ! k \<le> foldl addBucket v bs ! k"
proof (induction bs arbitrary: v)
  case Nil
  then show ?case by simp
next
  case (Cons b bs)
  have "v ! k \<le> addBucket v b ! k" using Cons.prems by (simp add: addBucket_mono)
  also have "\<dots> \<le> foldl addBucket (addBucket v b) bs ! k"
    using Cons.prems by (intro Cons.IH) simp_all
  finally show ?case by simp
qed

lemma foldl_addBucket_hit:
  "\<forall>b \<in> set bs. 0 \<le> snd b \<Longrightarrow> (k, w) \<in> set bs \<Longrightarrow> k < length v
   \<Longrightarrow> v ! k + w \<le> foldl addBucket v bs ! k"
proof (induction bs arbitrary: v)
  case Nil
  then show ?case by simp
next
  case (Cons b bs)
  show ?case
  proof (cases "b = (k, w)")
    case True
    have "v ! k + w = addBucket v b ! k" using True Cons.prems(3) by (simp add: addBucket_def)
    also have "\<dots> \<le> foldl addBucket (addBucket v b) bs ! k"
      using Cons.prems by (intro foldl_addBucket_mono) simp_all
    finally show ?thesis by simp
  next
    case False
    with Cons.prems have "(k, w) \<in> set bs" by simp
    have "v ! k + w \<le> addBucket v b ! k + w"
      using Cons.prems by (simp add: addBucket_mono)
    also have "\<dots> \<le> foldl addBucket (addBucket v b) bs ! k"
      using Cons.prems \<open>(k, w) \<in> set bs\<close> by (intro Cons.IH) simp_all
    finally show ?thesis by simp
  qed
qed

lemma hashBuckets_weights: "b \<in> set (hashBuckets word) \<Longrightarrow> 0 \<le> snd b"
  by (auto simp: hashBuckets_def)

lemma hashBuckets_first:
  "word \<noteq> [] \<Longrightarrow> ((of_char (word ! 0) * 31) mod 300, 1) \<in> set (hashBuckets word)"
  unfolding hashBuckets_def seedPrimes_def vectorDimension_def
  by (auto simp: image_iff intro!: bexI [where x = 0])

lemma length_getWordVector [simp]: "length (getWordVector word) = 300"
  by (simp add: getWordVector_def vectorDimension_def)

lemma getWordVector_nonneg: "x \<in> set (getWordVector word) \<Longrightarrow> 0 \<le> x"
proof -
  let ?u = "foldl addBucket (replicate vectorDimension 0) (hashBuckets word)"
  have "\<forall>y \<in> set ?u. 0 \<le> y"
  proof
    fix y assume "y \<in> set ?u"
    then obtain k where k: "k < length ?u" "y = ?u ! k" by (auto simp: in_set_conv_nth)
    then have "replicate vectorDimension 0 ! k \<le> ?u ! k"
      by (intro foldl_addBucket_mono) (auto simp: hashBuckets_weights)
    with k show "0 \<le> y" by simp
  qed
  then show "x \<in> set (getWordVector word) \<Longrightarrow> 0 \<le> x"
    unfolding getWordVector_def by (rule normalize_nonneg)
qed

lemma getWordVector_pos:
  assumes "word \<noteq> []"
  shows "\<exists>k < 300. 0 < getWordVector word ! k"
proof -
  let ?k = "(of_char (word ! 0) * 31) mod 300 :: nat"
  let ?u = "foldl addBucket (replicate vectorDimension 0) (hashBuckets word)"
  have k: "?k < 300" by simp
  have "replicate vectorDimension 0 ! ?k + 1 \<le> ?u ! ?k"
    using hashBuckets_first [OF assms]
    by (intro foldl_addBucket_hit) (auto simp: hashBuckets_weights vectorDimension_def)
  then have "0 < ?u ! ?k" by (simp add: vectorDimension_def)
  then have "0 < normalize ?u ! ?k"
    by (intro normalize_pos) (simp_all add: vectorDimension_def)
  with k show ?thesis unfolding getWordVector_def by blast
qed

lemma length_addWordVector [simp]: "length v = 300 \<Longrightarrow> length (addWordVector v t) = 300"
  by (simp add: addWordVector_def)

lemma nth_addWordVector:
  "length v = 300 \<Longrightarrow> k < 300 \<Longrightarrow> addWordVector v t ! k = v ! k + getWordVector t ! k"
  by (simp add: addWordVector_def getIdfWeight_def)

lemma length_foldl_addWordVector [simp]:
  "length v = 300 \<Longrightarrow> length (foldl addWordVector v ts) = 300"
  by (induction ts arbitrary: v) auto

lemma foldl_addWordVector_mono:
  "length v = 300 \<Longrightarrow> k < 300 \<Longrightarrow> v ! k \<le> foldl addWordVector v ts ! k"
proof (induction ts arbitrary: v)
  case Nil
  then show ?case by simp
next
  case (Cons t ts)
  have "0 \<le> getWordVector t ! k"
    using Cons.prems by (intro getWordVector_nonneg [of _ t]) simp
  then have "v ! k \<le> addWordVector v t ! k"
    using Cons.prems by (simp add: nth_addWordVector)
  also have "\<dots> \<le> foldl addWordVector (addWordVector v t) ts ! k"
    using Cons.prems by (intro Cons.IH) simp_all
  finally show ?case by simp
qed

lemma foldl_addWordVector_hit:
  "length v = 300 \<Longrightarrow> k < 300 \<Longrightarrow> t \<in> set ts
   \<Longrightarrow> v ! k + getWordVector t ! k \<le> foldl addWordVector v ts ! k"
proof (induction ts arbitrary: v)
  case Nil
  then show ?case by simp
next
  case (Cons a ts)
  show ?case
  proof (cases "a = t")
    case True
    have "v ! k + getWordVector t ! k = addWordVector v a ! k"
      using True Cons.prems by (simp add: nth_addWordVector)
    also have "\<dots> \<le> foldl addWordVector (addWordVector v a) ts ! k"
      using Cons.prems by (intro foldl_addWordVector_mono) simp_all
    finally show ?thesis by simp
  next
    case False
    with Cons.prems have t: "t \<in> set ts" by simp
    have "0 \<le> getWordVector a ! k"
      using Cons.prems by (intro getWordVector_nonneg [of _ a]) simp
    then have "v ! k + getWordVector t ! k \<le> addWordVector v a ! k + getWordVector t ! k"
      using Cons.prems by (simp add: nth_addWordVector)
    also have "\<dots> \<le> foldl addWordVector (addWordVector v a) ts ! k"
      using Cons.prems t by (intro Cons.IH) simp_all
    finally show ?thesis by simp
  qed
qed

lemma buildThoughtVectorsOfText_nonzero:
  assumes "\<exists>t \<in> set (tokenizeAndNormalize text). t \<noteq> []"
  shows "\<exists>x \<in> set (buildThoughtVectorsOfText text). x \<noteq> 0"
proof -
  let ?ts = "tokenizeAndNormalize text"
  let ?summed = "foldl addWordVector (replicate vectorDimension 0) ?ts"
  let ?averaged = "map (\<lambda>x. x / real (length ?ts)) ?summed"
  from assms obtain t where t: "t \<in> set ?ts" "t \<noteq> []" by blast
  then have n: "0 < length ?ts" by (cases ?ts) auto
  from getWordVector_pos [OF t(2)] obtain k where k: "k < 300" "0 < getWordVector t ! k" by blast
  have "replicate vectorDimension 0 ! k + getWordVector t ! k \<le> ?summed ! k"
    using k t by (intro foldl_addWordVector_hit) (simp_all add: vectorDimension_def)
  with k have "0 < ?summed ! k" by (simp add: vectorDimension_def)
  with n k have "0 < ?averaged ! k" by (simp add: vectorDimension_def)
  then have "0 < normalize ?averaged ! k"
    using k by (intro normalize_pos) (simp_all add: vectorDimension_def)
  moreover have "normalize ?averaged ! k \<in> set (normalize ?averaged)"
    using k by (intro nth_mem) (simp add: vectorDimension_def)
  moreover have "buildThoughtVectorsOfText text = normalize ?averaged"
    using n by (simp add: buildThoughtVectorsOfText_def Let_def)
  ultimately show ?thesis by force
qed

lemma analyzeSemanticSimilarity_self:
  assumes "\<exists>t \<in> set (tokenizeAndNormalize (thought a)). t \<noteq> [] \<and> t \<noteq> ''__proto__''"
    and "vector a = None \<or> vector a = Some (buildThoughtVectors a)"
  shows "analyzeSemanticSimilarity a a = 1"
proof -
  have ne: "\<exists>t \<in> set (tokenizeAndNormalize (thought a)). t \<noteq> []" using assms(1) by blast
  have v: "vectorOf a = buildThoughtVectorsOfText (thought a)"
    using assms(2) by (auto simp: vectorOf_def buildThoughtVectors_def)
  have c: "cosineSimilarity (vectorOf a) (vectorOf a) = 1"
    unfolding v by (rule cosineSimilarity_self, rule buildThoughtVectorsOfText_nonzero, rule ne)
  have "tokenizeAndNormalize (thought a) \<noteq> []" using assms(1) by auto
  then have "set (extractKeywordsSem (thought a)) \<noteq> {}"
    using extractKeywordsSem_nonempty by simp
  then have j: "jaccardSimilarity (set (extractKeywordsSem (thought a)))
                  (set (extractKeywordsSem (thought a))) = 1"
    by (intro jaccardSimilarity_self) simp_all
  have f: "calculateTfidfSimilarity (thought a) (thought a) = 1"
    by (rule calculateTfidfSimilarity_self [OF assms(1)])
  show ?thesis by (simp add: analyzeSemanticSimilarity_def Let_def c j f)
qed

section \<open>Similarity of two thoughts\<close>




section \<open>Contradictions and revisions\<close>

lemma checkContradictions_details_filter:
  "details (checkContradictions newThought existingThoughts)
   = details (checkContradictions newThought
        (filter (\<lambda>t. \<not> truthyBool (isRevision t)) existingThoughts))"
  by (induction existingThoughts) (auto simp: checkContradictions_def Let_def)

lemma checkContradictions_has:
  "hasContradictions (checkContradictions newThought existingThoughts)
   = (details (checkContradictions newThought existingThoughts) \<noteq> [])"
  by (simp add: checkContradictions_def Let_def)

lemma checkContradictions_targets:
  "d \<in> set (details (checkContradictions newThought existingThoughts)) \<Longrightarrow>
   \<exists>t \<in> set existingThoughts. \<not> truthyBool (isRevision t) \<and> thoughtNumber t = fst d"
  by (induction existingThoughts)
     (auto simp: checkContradictions_def Let_def split: if_splits option.splits)

text \<open>
  C3. A new thought that is a revision gets the empty contradiction list. For every new
  thought the result is the result on the existing thoughts without the revisions, and
  every reported contradiction carries the number of an existing thought that is not a
  revision: an existing revision is never the target of a contradiction.
\<close>

theorem revisions_never_contradict:
  "(truthyBool (isRevision newThought) \<longrightarrow>
      checkContradictions newThought existingThoughts
        = \<lparr> hasContradictions = False, details = [] \<rparr>)
   \<and> checkContradictions newThought existingThoughts
       = checkContradictions newThought
           (filter (\<lambda>t. \<not> truthyBool (isRevision t)) existingThoughts)
   \<and> (\<forall>d \<in> set (details (checkContradictions newThought existingThoughts)).
        \<exists>t \<in> set existingThoughts. \<not> truthyBool (isRevision t) \<and> thoughtNumber t = fst d)"
proof -
  have 1: "truthyBool (isRevision newThought) \<longrightarrow>
      checkContradictions newThought existingThoughts
        = \<lparr> hasContradictions = False, details = [] \<rparr>"
    by (simp add: checkContradictions_def)
  have 2: "checkContradictions newThought existingThoughts
       = checkContradictions newThought
           (filter (\<lambda>t. \<not> truthyBool (isRevision t)) existingThoughts)"
    using checkContradictions_details_filter [of newThought existingThoughts]
          checkContradictions_has [of newThought existingThoughts]
          checkContradictions_has
            [of newThought "filter (\<lambda>t. \<not> truthyBool (isRevision t)) existingThoughts"]
    by (intro ContradictionCheck.equality) simp_all
  from 1 2 checkContradictions_targets [of _ newThought existingThoughts]
  show ?thesis by blast
qed

text \<open>
  A conclusion \<open>alpha\<close> checked against a hypothesis \<open>alpha\<close> and a revision \<open>alpha\<close>
  reports the hypothesis only; the same conclusion submitted as a revision reports nothing.
\<close>

theorem revisions_never_contradict_witness:
  "checkContradictions ((plainThought ''alpha'' 2)\<lparr> classification := Some Conclusion \<rparr>)
     [(plainThought ''alpha'' 1)\<lparr> classification := Some Hypothesis \<rparr>,
      (plainThought ''alpha'' 3)\<lparr> classification := Some Hypothesis, isRevision := Some True \<rparr>]
   = \<lparr> hasContradictions = True,
       details = [(1, ''Opposing classifications: conclusion vs hypothesis'')] \<rparr>
   \<and> checkContradictions
       ((plainThought ''alpha'' 2)\<lparr> classification := Some Conclusion, isRevision := Some True \<rparr>)
       [(plainThought ''alpha'' 1)\<lparr> classification := Some Hypothesis \<rparr>]
     = \<lparr> hasContradictions = False, details = [] \<rparr>"
proof -
  let ?new = "(plainThought ''alpha'' 2)\<lparr> classification := Some Conclusion \<rparr>"
  let ?old = "(plainThought ''alpha'' 1)\<lparr> classification := Some Hypothesis \<rparr>"
  let ?rev = "(plainThought ''alpha'' 3)\<lparr> classification := Some Hypothesis, isRevision := Some True \<rparr>"
  have "analyzeSemanticSimilarity ?new ?old = analyzeSemanticSimilarity ?new ?new"
    by (rule analyzeSemanticSimilarity_texts) simp_all
  also have "\<dots> = 1"
    by (rule analyzeSemanticSimilarity_self) (simp_all add: tokens_alpha)
  finally have sim: "analyzeSemanticSimilarity ?new ?old = 1" .
  have opp: "hasOpposingClassifications ?new ?old"
    by (simp add: hasOpposingClassifications_def classificationName_def opposingPairs_def)
  have det: "detectContradiction ?new ?old
             = Some ''Opposing classifications: conclusion vs hypothesis''"
    by (simp add: detectContradiction_def sim opp classificationText_def classificationName_def)
  have one: "checkContradictions ?new [?old]
             = \<lparr> hasContradictions = True,
                 details = [(1, ''Opposing classifications: conclusion vs hypothesis'')] \<rparr>"
    by (simp add: checkContradictions_def Let_def truthyBool_def det)
  have "checkContradictions ?new [?old, ?rev]
        = checkContradictions ?new (filter (\<lambda>t. \<not> truthyBool (isRevision t)) [?old, ?rev])"
    using revisions_never_contradict [of ?new "[?old, ?rev]"] by blast
  also have "filter (\<lambda>t. \<not> truthyBool (isRevision t)) [?old, ?rev] = [?old]"
    by (simp add: truthyBool_def)
  finally have a: "checkContradictions ?new [?old, ?rev]
        = \<lparr> hasContradictions = True,
            details = [(1, ''Opposing classifications: conclusion vs hypothesis'')] \<rparr>"
    by (simp only: one)
  have "truthyBool (isRevision (?new\<lparr> isRevision := Some True \<rparr>))"
    by (simp add: truthyBool_def)
  with revisions_never_contradict [of "?new\<lparr> isRevision := Some True \<rparr>" "[?old]"]
  have b: "checkContradictions (?new\<lparr> isRevision := Some True \<rparr>) [?old]
           = \<lparr> hasContradictions = False, details = [] \<rparr>"
    by blast
  from a b show ?thesis by simp
qed

section \<open>Topic clusters\<close>

lemma extractTopicKeywords_the: "extractTopicKeywords [plainThought ''the'' 1] = []"
  by (simp add: extractTopicKeywords_def Let_def tokens_the listTerms_def sortDescBy_def uniq_def)

lemma extractTopicKeywords_topic_1:
  "extractTopicKeywords [plainThought ''topic_1'' 2] = [''topic_1'']"
  by (simp add: extractTopicKeywords_def Let_def tokens_topic_1 listTerms_def sortDescBy_def
      uniq_def)

lemma similarity_the_topic_1:
  "analyzeSemanticSimilarity (plainThought ''the'' 1) (plainThought ''topic_1'' 2) = 0"
  "analyzeSemanticSimilarity (plainThought ''topic_1'' 2) (plainThought ''the'' 1) = 0"
proof -
  show a: "analyzeSemanticSimilarity (plainThought ''the'' 1) (plainThought ''topic_1'' 2) = 0"
    by (rule analyzeSemanticSimilarity_no_tokens) (simp_all add: tokens_the tokens_topic_1)
  show "analyzeSemanticSimilarity (plainThought ''topic_1'' 2) (plainThought ''the'' 1) = 0"
    by (rule analyzeSemanticSimilarity_no_tokens_right)
       (simp_all add: tokens_the document_empty document_topic_1)
qed

lemma upt_two: "[0..<2] = [0, Suc 0]"
  by (simp add: upt_rec)

text \<open>
  C9 fails on the code. The thoughts \<open>the\<close> (number 1) and \<open>topic_1\<close> (number 2) have
  similarity 0. The first forms a cluster without keywords, named \<open>topic_1\<close> by the
  fallback; the second forms a cluster whose only keyword is \<open>topic_1\<close>, and
  \<open>clusters[topicName] = cluster\<close> replaces the first cluster. The returned grouping holds
  the second thought only: the first thought is in no cluster.
\<close>

theorem cluster_name_collision:
  "clusterThoughtsByTopic [plainThought ''the'' 1, plainThought ''topic_1'' 2]
     = [(''topic_1'', [plainThought ''topic_1'' 2])]"
proof -
  let ?t1 = "plainThought ''the'' 1"
  let ?t2 = "plainThought ''topic_1'' 2"
  have s0: "clusterStep [?t1, ?t2] ([], [], 0) 0 = ([(''topic_1'', [?t1])], [1], Suc 0)"
    by (simp add: clusterStep_def Let_def upt_two similarityMatrix_def similarity_the_topic_1
        extractTopicKeywords_the)
  have s1: "clusterStep [?t1, ?t2] ([(''topic_1'', [?t1])], [1], Suc 0) (Suc 0)
              = ([(''topic_1'', [?t2])], [1, 2], Suc (Suc 0))"
    by (simp add: clusterStep_def Let_def upt_two similarityMatrix_def similarity_the_topic_1
        extractTopicKeywords_topic_1)
  show ?thesis
    by (simp add: clusterThoughtsByTopic_def upt_two s0 s1)
qed

section \<open>Alignment score and drift warning\<close>

lemma driftWarning_iff:
  "(dataDriftWarning (analyzeThoughtAlignment thoughtText m) \<noteq> None)
   = (calculateAlignmentScore thoughtText m < 4)"
  by (simp add: analyzeThoughtAlignment_def checkForTopicDrift_def Let_def)

lemma driftScore_empty_profile:
  "goals m = [] \<Longrightarrow> promptKeywords m = [] \<Longrightarrow> domains m = []
   \<Longrightarrow> driftScore (detectTopicDrift t m) = Some 0"
  by (simp add: detectTopicDrift_def Let_def calculateContextualAspectRelevance_def
      keywordOverlapRatio_def)

lemma profile_bang:
  "goals (analyzePrompt ''!'') = []" "promptKeywords (analyzePrompt ''!'') = []"
  "domains (analyzePrompt ''!'') = []"
  by code_simp+

lemma score_bang: "calculateAlignmentScore ''!'' (analyzePrompt ''!'') = 1"
  by code_simp

lemma first_thought_stored:
  assumes "prompt \<noteq> []" "k \<noteq> 0"
  shows "driftWarning (last (thoughtHistory (snd (handleCallTool rules s (submission prompt 1 k)))))
           = dataDriftWarning (analyzeThoughtAlignment prompt (analyzePrompt prompt))
       \<and> metadata (promptContext (snd (handleCallTool rules s (submission prompt 1 k))))
           = Some (analyzePrompt prompt)"
proof -
  let ?i = "submission prompt 1 k"
  let ?s0 = "s\<lparr> promptContext := \<lparr> metadata = Some (analyzePrompt prompt),
                                      contextPrompt = JStr prompt \<rparr> \<rparr>"
  obtain v :: "'a ThoughtData" where v: "validateThoughtData ?i = Inr v"
    using validate_submission [of prompt 1 k] assms by auto
  have tx: "thought v = prompt"
    using validate_fields [OF v] by (simp add: submission_def)
  have h: "handleCallTool rules s ?i
             = (Some (fst (processThought rules ?s0 ?i)), snd (processThought rules ?s0 ?i))"
    by (simp add: handleCallTool_def initializePromptContext_def submission_def split: prod.splits)
  have l: "last (thoughtHistory (snd (handleCallTool rules s ?i))) = prepare rules ?s0 v"
    unfolding h by (simp add: processThought_history [OF v])
  have "driftWarning (prepare rules ?s0 v)
          = dataDriftWarning (analyzeThoughtAlignment prompt (analyzePrompt prompt))"
    using align_profile [of "promptContext ?s0" "analyzePrompt prompt" rules]
    by (simp add: prepare_def tx)
  moreover have "metadata (promptContext (snd (handleCallTool rules s ?i)))
                   = Some (analyzePrompt prompt)"
    by (simp add: handleCallTool_promptContext submission_def)
  ultimately show ?thesis by (simp add: l)
qed

text \<open>
  The first thought \<open>!\<close> of a session: its profile has no goals, keywords or domains, its
  alignment score is 1, so \<open>processThought\<close> attaches a drift warning to it, while the drift
  score of \<open>detectTopicDrift\<close> for this thought and profile is 0 and does not exceed 0.55.
  The warning of claim C5 does not follow the drift score.
\<close>

theorem drift_warning_without_drift_score:
  "driftWarning (last (thoughtHistory (snd (handleCallTool noRules newServer
        (submission ''!'' 1 1))))) \<noteq> None
   \<and> metadata (promptContext (snd (handleCallTool noRules newServer (submission ''!'' 1 1))))
       = Some (analyzePrompt ''!'')
   \<and> \<not> exceeds (driftScore (detectTopicDrift
            (last (thoughtHistory (snd (handleCallTool noRules newServer (submission ''!'' 1 1)))))
            (analyzePrompt ''!''))) 0.55"
proof -
  have "(dataDriftWarning (analyzeThoughtAlignment ''!'' (analyzePrompt ''!'')) \<noteq> None)
          = (calculateAlignmentScore ''!'' (analyzePrompt ''!'') < 4)"
    by (rule driftWarning_iff)
  then have "dataDriftWarning (analyzeThoughtAlignment ''!'' (analyzePrompt ''!'')) \<noteq> None"
    unfolding score_bang by simp
  then have 1: "driftWarning (last (thoughtHistory (snd (handleCallTool noRules newServer
        (submission ''!'' 1 1))))) \<noteq> None"
    using first_thought_stored [of "''!''" 1 noRules newServer] by simp
  have 2: "metadata (promptContext (snd (handleCallTool noRules newServer (submission ''!'' 1 1))))
       = Some (analyzePrompt ''!'')"
    using first_thought_stored [of "''!''" 1 noRules newServer] by simp
  have 3: "\<not> exceeds (driftScore (detectTopicDrift
            (last (thoughtHistory (snd (handleCallTool noRules newServer (submission ''!'' 1 1)))))
            (analyzePrompt ''!''))) 0.55"
    by (simp add: driftScore_empty_profile profile_bang exceeds_def)
  from 1 2 3 show ?thesis by blast
qed

text \<open>
  C5 (amended). The alignment score lies in \<open>[0,10]\<close>, and it is the score stored with the
  thought. The drift warning is attached to the thought if and only if the alignment score
  is below 4 (\<open>PromptAnalyzer.checkForTopicDrift\<close>). The drift score
  \<open>1 - (0.4 goalRelevance + 0.3 keywordRelevance + 0.1 domainRelevance + 0.2 keywordOverlapRatio)\<close>
  and its threshold 0.55 decide the flag that \<open>SemanticAnalyzer.detectTopicDrift\<close> returns,
  which \<open>processThought\<close> does not consult.
\<close>

theorem alignment_and_drift:
  "0 \<le> calculateAlignmentScore thoughtText m \<and> calculateAlignmentScore thoughtText m \<le> 10
   \<and> dataPromptAlignment (analyzeThoughtAlignment thoughtText m)
       = real_of_int (calculateAlignmentScore thoughtText m)
   \<and> (dataDriftWarning (analyzeThoughtAlignment thoughtText m) \<noteq> None)
       = (calculateAlignmentScore thoughtText m < 4)
   \<and> (metadata ctx = Some m \<longrightarrow>
        promptAlignment (align rules ctx v)
          = Some (real_of_int (calculateAlignmentScore (thought v) m))
        \<and> (driftWarning (align rules ctx v) \<noteq> None)
            = (calculateAlignmentScore (thought v) m < 4))
   \<and> topicHasDrift (detectTopicDrift t m) = exceeds (driftScore (detectTopicDrift t m)) 0.55
   \<and> driftScore (detectTopicDrift t m)
       = map_option
           (\<lambda>ratio. 1 - (calculateContextualAspectRelevance (thought t) (goals m) * 0.4
                          + calculateContextualAspectRelevance (thought t) (promptKeywords m) * 0.3
                          + calculateContextualAspectRelevance (thought t) (domains m) * 0.1
                          + ratio * 0.2))
           (keywordOverlapRatio (thought t) m)"
proof -
  have 1: "0 \<le> calculateAlignmentScore thoughtText m \<and> calculateAlignmentScore thoughtText m \<le> 10"
    using calculateAlignmentScore_bounds [of thoughtText m] by linarith
  have 2: "dataPromptAlignment (analyzeThoughtAlignment thoughtText m)
       = real_of_int (calculateAlignmentScore thoughtText m)"
    by (simp add: analyzeThoughtAlignment_def Let_def)
  have 3: "metadata ctx = Some m \<longrightarrow>
        promptAlignment (align rules ctx v)
          = Some (real_of_int (calculateAlignmentScore (thought v) m))
        \<and> (driftWarning (align rules ctx v) \<noteq> None)
            = (calculateAlignmentScore (thought v) m < 4)"
    using align_profile [of ctx m rules v] driftWarning_iff [of "thought v" m] by simp
  have 4: "topicHasDrift (detectTopicDrift t m) = exceeds (driftScore (detectTopicDrift t m)) 0.55"
    by (simp add: detectTopicDrift_def Let_def)
  have 5: "driftScore (detectTopicDrift t m)
       = map_option
           (\<lambda>ratio. 1 - (calculateContextualAspectRelevance (thought t) (goals m) * 0.4
                          + calculateContextualAspectRelevance (thought t) (promptKeywords m) * 0.3
                          + calculateContextualAspectRelevance (thought t) (domains m) * 0.1
                          + ratio * 0.2))
           (keywordOverlapRatio (thought t) m)"
    by (simp add: detectTopicDrift_def Let_def)
  from 1 2 3 4 5 driftWarning_iff [of thoughtText m] show ?thesis by blast
qed

text \<open>
  The thought \<open>!\<close> aligned with the profile of the prompt \<open>!\<close> has score 1 and a drift
  warning.
\<close>

theorem alignment_and_drift_witness:
  "promptAlignment (align noRules \<lparr> metadata = Some (analyzePrompt ''!''), contextPrompt = JStr ''!'' \<rparr>
       (plainThought ''!'' 1)) = Some 1
   \<and> driftWarning (align noRules \<lparr> metadata = Some (analyzePrompt ''!''), contextPrompt = JStr ''!'' \<rparr>
       (plainThought ''!'' 1)) \<noteq> None"
proof -
  let ?ctx = "\<lparr> metadata = Some (analyzePrompt ''!''), contextPrompt = JStr ''!'' \<rparr>"
  have m: "metadata ?ctx = Some (analyzePrompt ''!'')" by simp
  from alignment_and_drift [where ctx = ?ctx and m = "analyzePrompt ''!''" and rules = noRules
         and v = "plainThought ''!'' 1"] m
  have "promptAlignment (align noRules ?ctx (plainThought ''!'' 1))
          = Some (real_of_int (calculateAlignmentScore (thought (plainThought ''!'' 1))
                                 (analyzePrompt ''!'')))
        \<and> (driftWarning (align noRules ?ctx (plainThought ''!'' 1)) \<noteq> None)
            = (calculateAlignmentScore (thought (plainThought ''!'' 1)) (analyzePrompt ''!'') < 4)"
    by blast
  then show ?thesis by (simp add: score_bang)
qed

end
